theory Spec2Isabelle
  imports Complex_Main
begin

section \<open>StackedAutoencoder: topology and coders\<close>

text \<open>
  The gradient machines a \<open>StackedAutoencoder\<close> owns and wires into its graphs:
  \<open>encoders[i]\<close>, \<open>noisy_encoders[i]\<close>, \<open>decoders[i]\<close>, \<open>outputer\<close>,
  \<open>input_handle_machine\<close> and the per-layer \<open>autoencoders[i]\<close> (themselves
  connected machines, added to larger graphs as single nodes).
\<close>

datatype gm =
    Encoder nat
  | NoisyEncoder nat
  | Decoder nat
  | Outputer
  | InputHandle
  | Autoencoder nat

text \<open>
  A \<open>Coder\<close> as its constructor is called in \<open>BuildCoders\<close>:
  \<open>Coder(n_inputs, n_outputs, is_noisy, tied_coder, is_transposed, reparametrize,
  nonlinearity [, smoothed])\<close>. The tied coder is always \<open>NULL\<close> or \<open>encoders[i]\<close>,
  so it is kept as an optional encoder index. The last argument is only passed for
  encoders; where the call omits it the field is \<open>False\<close>.
\<close>

record coder =
  n_inputs :: int
  n_outputs :: int
  noisy :: bool
  tied_coder :: "nat option"
  transposed :: bool
  reparametrize :: bool
  coder_nonlinearity :: string
  smoothed :: bool

definition Coder :: "int \<Rightarrow> int \<Rightarrow> bool \<Rightarrow> nat option \<Rightarrow> bool \<Rightarrow> bool \<Rightarrow> string \<Rightarrow> bool \<Rightarrow> coder" where
  "Coder n_in n_out nsy tied tr rep nl sm =
     \<lparr> n_inputs = n_in, n_outputs = n_out, noisy = nsy, tied_coder = tied,
       transposed = tr, reparametrize = rep, coder_nonlinearity = nl, smoothed = sm \<rparr>"

record stacked_autoencoder =
  is_noisy :: bool
  tied_weights :: bool
  reparametrize_tied :: bool
  nonlinearity :: string
  first_layer_smoothed :: bool
  n_hidden_layers :: nat
  n_units_per_layer :: "int list"
  encoders :: "coder list"
  noisy_encoders :: "coder list option"
  decoders :: "coder list"
  outputer :: coder

text \<open>
  \<open>BuildCoders\<close>, one definition per loop. \<open>n_units_per_layer\<close> has
  \<open>n_hidden_layers + 2\<close> entries, so every read below is in range.
\<close>

definition build_encoders :: "bool \<Rightarrow> string \<Rightarrow> nat \<Rightarrow> int list \<Rightarrow> coder list" where
  "build_encoders fls nl n units =
     map (\<lambda>i. if i = 0 \<and> fls
               then Coder (units ! i) (units ! (i + 1)) False None False False nl True
               else Coder (units ! i) (units ! (i + 1)) False None False False nl False)
         [0..<n]"

definition build_noisy_encoders :: "bool \<Rightarrow> string \<Rightarrow> nat \<Rightarrow> coder list \<Rightarrow> coder list option" where
  "build_noisy_encoders nsy nl n encs =
     (if nsy
      then Some (map (\<lambda>i. Coder (n_inputs (encs ! i)) (n_outputs (encs ! i))
                                True (Some i) False False nl False) [0..<n])
      else None)"

definition build_decoders :: "bool \<Rightarrow> bool \<Rightarrow> string \<Rightarrow> nat \<Rightarrow> coder list \<Rightarrow> coder list" where
  "build_decoders tied rep nl n encs =
     map (\<lambda>i. if tied
               then Coder (n_outputs (encs ! i)) (n_inputs (encs ! i))
                          False (Some i) True rep nl False
               else Coder (n_outputs (encs ! i)) (n_inputs (encs ! i))
                          False None False False nl False)
         [0..<n]"

definition build_outputer :: "nat \<Rightarrow> int list \<Rightarrow> coder" where
  "build_outputer n units =
     Coder (units ! n) (units ! (n + 1)) False None False False ''logsoftmax'' False"

text \<open>
  The constructor copies the layer sizes into \<open>n_units_per_layer\<close> and calls
  \<open>BuildCoders\<close>. It reads \<open>n_units_per_hidden_layer_[i]\<close> for every
  \<open>i < n_hidden_layers_\<close>; a caller's array shorter than that is a read past its end,
  here \<open>None\<close>.
\<close>

definition StackedAutoencoder ::
  "string \<Rightarrow> bool \<Rightarrow> bool \<Rightarrow> int \<Rightarrow> nat \<Rightarrow> int list \<Rightarrow> int \<Rightarrow> bool \<Rightarrow> bool
     \<Rightarrow> stacked_autoencoder option" where
  "StackedAutoencoder nonlinearity' tied_weights' reparametrize_tied' n_inputs'
       n_hidden_layers' n_units_per_hidden_layer' n_outputs' is_noisy' first_layer_smoothed' =
     (if length n_units_per_hidden_layer' < n_hidden_layers' then None
      else
        let units = [n_inputs']
                    @ map (\<lambda>i. n_units_per_hidden_layer' ! i) [0..<n_hidden_layers']
                    @ [n_outputs'];
            encs = build_encoders first_layer_smoothed' nonlinearity' n_hidden_layers' units
        in Some \<lparr> is_noisy = is_noisy',
                  tied_weights = tied_weights',
                  reparametrize_tied = reparametrize_tied',
                  nonlinearity = nonlinearity',
                  first_layer_smoothed = first_layer_smoothed',
                  n_hidden_layers = n_hidden_layers',
                  n_units_per_layer = units,
                  encoders = encs,
                  noisy_encoders = build_noisy_encoders is_noisy' nonlinearity' n_hidden_layers' encs,
                  decoders = build_decoders tied_weights' reparametrize_tied' nonlinearity'
                               n_hidden_layers' encs,
                  outputer = build_outputer n_hidden_layers' units \<rparr>)"

subsection \<open>Weight decay options\<close>

text \<open>
  Each coder has its own \<open>linear_layer\<close> object; \<open>setROption(name, value)\<close> stores a
  real option on it. The store maps a coder and an option name to the value last set.
\<close>

type_synonym roptions = "gm \<times> string \<Rightarrow> real option"

definition setROption :: "gm \<Rightarrow> string \<Rightarrow> real \<Rightarrow> roptions \<Rightarrow> roptions" where
  "setROption m name v opts = opts((m, name) \<mapsto> v)"

definition setL1WeightDecay :: "stacked_autoencoder \<Rightarrow> real \<Rightarrow> roptions \<Rightarrow> roptions" where
  "setL1WeightDecay sae weight_decay opts =
     (let opts1 = fold (\<lambda>i. setROption (Encoder i) ''l1 weight decay'' weight_decay)
                       [0..<n_hidden_layers sae] opts;
          opts2 = setROption Outputer ''l1 weight decay'' weight_decay opts1
      in if \<not> tied_weights sae
         then fold (\<lambda>i. setROption (Decoder i) ''l1 weight decay'' weight_decay)
                   [0..<n_hidden_layers sae] opts2
         else opts2)"

definition setL2WeightDecay :: "stacked_autoencoder \<Rightarrow> real \<Rightarrow> roptions \<Rightarrow> roptions" where
  "setL2WeightDecay sae weight_decay opts =
     (let opts1 = fold (\<lambda>i. setROption (Encoder i) ''weight decay'' weight_decay)
                       [0..<n_hidden_layers sae] opts;
          opts2 = setROption Outputer ''weight decay'' weight_decay opts1
      in if \<not> tied_weights sae
         then fold (\<lambda>i. setROption (Decoder i) ''weight decay'' weight_decay)
                   [0..<n_hidden_layers sae] opts2
         else opts2)"


section \<open>ConnectedMachine: the graph container\<close>

text \<open>
  The builders of \<open>StackedAutoencoder\<close> and of the trainer assemble a graph through the
  calls \<open>addMachine\<close>, \<open>connectOn\<close>, \<open>addLayer\<close> and \<open>build\<close>. A builder is
  embedded as the sequence of calls it makes on its machine, in program order.
\<close>

datatype cm_op =
    AddMachine gm
  | ConnectOn gm
  | AddLayer
  | Build

text \<open>
  Modelled from the spec: \<open>ConnectedMachine\<close> itself is not among the sources. The graph
  is a set of registered modules in ordered layers with a consumer-to-producer relation
  and a \<open>built\<close> flag. \<open>addMachine\<close> registers a module in the open layer and fails
  on a built graph; \<open>connectOn p\<close> records that the module added last consumes \<open>p\<close>
  and fails if either is unregistered or the graph is built; \<open>addLayer\<close> closes the
  open layer; \<open>build\<close> fails when called twice, checks that every module outside
  layer 0 has a producer, and freezes the graph.
\<close>

record connected_machine =
  layers :: "gm list list"
  current_layer :: "gm list"
  links :: "(gm \<times> gm) list"
  built :: bool

datatype error =
    AlreadyBuilt
  | NotBuilt
  | Unregistered
  | MissingProducer
  | MissingConsumer
  | AssertionFailed
  | ReadPastEnd
  | NullDereference

definition ConnectedMachine :: connected_machine where
  "ConnectedMachine = \<lparr> layers = [], current_layer = [], links = [], built = False \<rparr>"

definition registered :: "connected_machine \<Rightarrow> gm list" where
  "registered g = concat (layers g) @ current_layer g"

definition producers :: "connected_machine \<Rightarrow> gm \<Rightarrow> gm list" where
  "producers g m = map snd (filter (\<lambda>l. fst l = m) (links g))"


fun cm_step :: "cm_op \<Rightarrow> connected_machine \<Rightarrow> error + connected_machine" where
  "cm_step (AddMachine m) g =
     (if built g then Inl AlreadyBuilt
      else Inr (g\<lparr>current_layer := current_layer g @ [m]\<rparr>))"
| "cm_step (ConnectOn p) g =
     (if built g then Inl AlreadyBuilt
      else if current_layer g = [] then Inl Unregistered
      else if p \<notin> set (registered g) then Inl Unregistered
      else Inr (g\<lparr>links := links g @ [(last (current_layer g), p)]\<rparr>))"
| "cm_step AddLayer g =
     (if built g then Inl AlreadyBuilt
      else Inr (g\<lparr>layers := layers g @ [current_layer g], current_layer := []\<rparr>))"
| "cm_step Build g =
     (if built g then Inl AlreadyBuilt
      else if \<exists>m \<in> set (concat (tl (layers g @ [current_layer g]))). producers g m = []
      then Inl MissingProducer
      else Inr (g\<lparr>layers := layers g @ [current_layer g], current_layer := [], built := True\<rparr>))"

fun cm_run :: "cm_op list \<Rightarrow> connected_machine \<Rightarrow> error + connected_machine" where
  "cm_run [] g = Inr g"
| "cm_run (c # cs) g = (case cm_step c g of Inl e \<Rightarrow> Inl e | Inr g' \<Rightarrow> cm_run cs g')"


definition machines_of :: "cm_op list \<Rightarrow> gm set" where
  "machines_of ops = {m. AddMachine m \<in> set ops}"

subsection \<open>The graph builders of StackedAutoencoder\<close>

text \<open>
  \<open>autoencoders[i]\<close>, \<open>mesd_machines[i]\<close> and the supervised machine are chains of
  \<open>addFCL\<close> calls: one machine per layer, each fed by the one before. They are kept as
  the list of machines in the order added.
\<close>

definition autoencoders :: "stacked_autoencoder \<Rightarrow> nat \<Rightarrow> gm list" where
  "autoencoders sae i =
     [if is_noisy sae then NoisyEncoder i else Encoder i] @ [Decoder i]"

definition mesd_machines :: "stacked_autoencoder \<Rightarrow> nat \<Rightarrow> gm list" where
  "mesd_machines sae i =
     map Encoder [0..<i]
     @ [if is_noisy sae then NoisyEncoder i else Encoder i]
     @ [Decoder i]"

definition sup_machine :: "stacked_autoencoder \<Rightarrow> gm list" where
  "sup_machine sae = map Encoder [0..<n_hidden_layers sae] @ [Outputer]"

text \<open>
  \<open>AddEncodersUpToIncluded(mch, index_up_to_included, add_input_handle)\<close>. The index
  is a C \<open>int\<close> and is \<open>-1\<close> or \<open>-2\<close> when no encoder is wanted.
\<close>

definition AddEncodersUpToIncluded :: "int \<Rightarrow> bool \<Rightarrow> cm_op list" where
  "AddEncodersUpToIncluded index_up_to_included add_input_handle =
     concat (map (\<lambda>i. [AddMachine (Encoder i)]
                      @ (if i > 0 then [ConnectOn (Encoder (i - 1))] else [])
                      @ (if i = 0 \<and> add_input_handle then [AddMachine InputHandle] else [])
                      @ [AddLayer])
                 [0..<nat (index_up_to_included + 1)])
     @ (if index_up_to_included < 0 \<and> add_input_handle
        then [AddMachine InputHandle, AddLayer] else [])"

definition AddUnsupMachines :: "stacked_autoencoder \<Rightarrow> cm_op list" where
  "AddUnsupMachines sae =
     concat (map (\<lambda>i. if \<not> is_noisy sae
                      then [AddMachine (Decoder i), ConnectOn (Encoder i)]
                      else if i > 0
                      then [AddMachine (Autoencoder i), ConnectOn (Encoder (i - 1))]
                      else [AddMachine (Autoencoder i), ConnectOn InputHandle])
                 [0..<n_hidden_layers sae])"

text \<open>
  \<open>BuildUnsupMachine\<close>. Inside the loop \<open>i < n_hidden_layers\<close>, so the C test
  \<open>i < n_hidden_layers - 1\<close> is \<open>Suc i < n_hidden_layers\<close>.
\<close>

definition BuildUnsupMachine :: "stacked_autoencoder \<Rightarrow> cm_op list" where
  "BuildUnsupMachine sae =
     concat (map (\<lambda>i. (if Suc i < n_hidden_layers sae \<or> \<not> is_noisy sae
                       then [AddMachine (Encoder i)]
                            @ (if i > 0 then [ConnectOn (Encoder (i - 1))] else [])
                       else [])
                      @ (if i = 0 \<and> is_noisy sae then [AddMachine InputHandle] else [])
                      @ (if Suc i < n_hidden_layers sae \<or> \<not> is_noisy sae then [AddLayer]
                         else if i = 0 \<and> is_noisy sae then [AddLayer]
                         else []))
                 [0..<n_hidden_layers sae])
     @ AddUnsupMachines sae
     @ [Build]"



text \<open>
  \<open>AddCoreMachines\<close> and \<open>BuildSupUnsupMachine\<close>. The latter connects the outputer on
  \<open>encoders[n_hidden_layers - 1]\<close>; without hidden layers that read is before the
  array, and the builder has no list of calls to give: \<open>ReadPastEnd\<close>.
\<close>

definition AddCoreMachines :: "stacked_autoencoder \<Rightarrow> cm_op list" where
  "AddCoreMachines sae =
     concat (map (\<lambda>i. [AddMachine (Encoder i)]
                      @ (if i > 0 then [ConnectOn (Encoder (i - 1))] else [])
                      @ (if i = 0 \<and> is_noisy sae then [AddMachine InputHandle] else [])
                      @ [AddLayer])
                 [0..<n_hidden_layers sae])"

definition BuildSupUnsupMachine :: "stacked_autoencoder \<Rightarrow> error + cm_op list" where
  "BuildSupUnsupMachine sae =
     (if n_hidden_layers sae = 0 then Inl ReadPastEnd
      else Inr (AddCoreMachines sae
                @ [AddMachine Outputer, ConnectOn (Encoder (n_hidden_layers sae - 1))]
                @ AddUnsupMachines sae
                @ [Build]))"

section \<open>StackedAutoencoderTrainer\<close>

subsection \<open>The objects the trainer points to\<close>

text \<open>
  Every \<open>GradientMachine*\<close> the trainer uses: the stacked autoencoder itself (the
  supervised machine), \<open>mesd_machines[i]\<close>, \<open>autoencoders[i]\<close>, the unsupervised and
  the joint machine, a selective machine (identified by the calls that built it),
  \<open>outputer\<close>, \<open>encoders[i]\<close> and \<open>decoders[i]\<close>. The encoder index is the C \<open>int\<close> of the
  expression, which the code does not keep inside the array in every case.
\<close>

datatype machine =
    Sae
  | Mesd nat
  | Autoenc nat
  | Unsup
  | SupUnsup
  | Selective "cm_op list"
  | OutputerM
  | EncoderM int
  | DecoderM nat

datatype dataset = TrainData nat | UnsupDataset nat

text \<open>
  \<open>real\<close> is a C floating type, \<open>float\<close> or \<open>double\<close> as the library is built. A
  value the trainer computes or stores is a finite number, an infinity or
  not-a-number. Comparing two such values, and \<open>fabs\<close>, are exact. What an arithmetic operation rounds to, and where it
  overflows, depends on the width of \<open>real\<close> and on the compiler, which the sources do
  not fix: the operations the trainer uses are the fields of \<open>float_ops\<close>, and a
  statement about a computed value is over them. \<open>frecip\<close> is \<open>1.0 / x\<close>, a division
  in \<open>double\<close> converted to \<open>real\<close>; \<open>fof_nat\<close> is the conversion \<open>(real) n\<close> and
  \<open>ffloat\<close> the conversion \<open>(float) x\<close>. A zero is kept without its sign: the
  trainer divides by a sample count, by a running maximum that starts at \<open>0.0\<close> and
  only grows, and by the inverse of such a maximum, none of which is a negative zero.
\<close>

datatype xreal = Fin real | PInf | MInf | NaN

fun xabs :: "xreal \<Rightarrow> xreal" where
  "xabs (Fin a) = Fin \<bar>a\<bar>"
| "xabs PInf = PInf"
| "xabs MInf = PInf"
| "xabs NaN = NaN"

fun xless :: "xreal \<Rightarrow> xreal \<Rightarrow> bool" where
  "xless (Fin a) (Fin b) = (a < b)"
| "xless (Fin a) PInf = True"
| "xless MInf (Fin b) = True"
| "xless MInf PInf = True"
| "xless _ _ = False"

record float_ops =
  fadd :: "xreal \<Rightarrow> xreal \<Rightarrow> xreal"
  fsub :: "xreal \<Rightarrow> xreal \<Rightarrow> xreal"
  fmul :: "xreal \<Rightarrow> xreal \<Rightarrow> xreal"
  fdiv :: "xreal \<Rightarrow> xreal \<Rightarrow> xreal"
  frecip :: "xreal \<Rightarrow> xreal"
  fsqrt :: "xreal \<Rightarrow> xreal"
  fof_nat :: "nat \<Rightarrow> xreal"
  ffloat :: "xreal \<Rightarrow> xreal"

text \<open>
  Arithmetic without rounding, \<open>exact_ops\<close>: one instance of \<open>float_ops\<close>, and the
  reading in which the spec writes its formulas. It is not the machine's.
\<close>

fun xadd :: "xreal \<Rightarrow> xreal \<Rightarrow> xreal" where
  "xadd NaN _ = NaN"
| "xadd _ NaN = NaN"
| "xadd (Fin a) (Fin b) = Fin (a + b)"
| "xadd (Fin a) PInf = PInf"
| "xadd (Fin a) MInf = MInf"
| "xadd PInf (Fin b) = PInf"
| "xadd MInf (Fin b) = MInf"
| "xadd PInf PInf = PInf"
| "xadd PInf MInf = NaN"
| "xadd MInf PInf = NaN"
| "xadd MInf MInf = MInf"

fun xminus :: "xreal \<Rightarrow> xreal" where
  "xminus (Fin a) = Fin (- a)"
| "xminus PInf = MInf"
| "xminus MInf = PInf"
| "xminus NaN = NaN"

definition xsub :: "xreal \<Rightarrow> xreal \<Rightarrow> xreal" where
  "xsub a b = xadd a (xminus b)"

fun xmul :: "xreal \<Rightarrow> xreal \<Rightarrow> xreal" where
  "xmul NaN _ = NaN"
| "xmul _ NaN = NaN"
| "xmul (Fin a) (Fin b) = Fin (a * b)"
| "xmul (Fin a) PInf = (if a = 0 then NaN else if a > 0 then PInf else MInf)"
| "xmul (Fin a) MInf = (if a = 0 then NaN else if a > 0 then MInf else PInf)"
| "xmul PInf (Fin b) = (if b = 0 then NaN else if b > 0 then PInf else MInf)"
| "xmul MInf (Fin b) = (if b = 0 then NaN else if b > 0 then MInf else PInf)"
| "xmul PInf PInf = PInf"
| "xmul PInf MInf = MInf"
| "xmul MInf PInf = MInf"
| "xmul MInf MInf = PInf"

fun xdiv :: "xreal \<Rightarrow> xreal \<Rightarrow> xreal" where
  "xdiv NaN _ = NaN"
| "xdiv _ NaN = NaN"
| "xdiv (Fin a) (Fin b) =
     (if b \<noteq> 0 then Fin (a / b)
      else if a = 0 then NaN
      else if a > 0 then PInf else MInf)"
| "xdiv (Fin a) PInf = Fin 0"
| "xdiv (Fin a) MInf = Fin 0"
| "xdiv PInf (Fin b) = (if b \<ge> 0 then PInf else MInf)"
| "xdiv MInf (Fin b) = (if b \<ge> 0 then MInf else PInf)"
| "xdiv PInf PInf = NaN"
| "xdiv PInf MInf = NaN"
| "xdiv MInf PInf = NaN"
| "xdiv MInf MInf = NaN"

fun xsqrt :: "xreal \<Rightarrow> xreal" where
  "xsqrt (Fin a) = (if a < 0 then NaN else Fin (sqrt a))"
| "xsqrt PInf = PInf"
| "xsqrt MInf = NaN"
| "xsqrt NaN = NaN"

definition exact_ops :: float_ops where
  "exact_ops = \<lparr> fadd = xadd, fsub = xsub, fmul = xmul, fdiv = xdiv,
                 frecip = xdiv (Fin 1), fsqrt = xsqrt, fof_nat = (\<lambda>n. Fin (real n)),
                 ffloat = (\<lambda>x. x) \<rparr>"

text \<open>
  The weights argument of a \<open>ConcatCriterion\<close> is \<open>NULL\<close> or a pointer into the
  trainer's \<open>criterions_weights\<close> array, kept as the offset it points at: the
  criterion reads the array as it is when it runs.
\<close>

datatype weights = NoWeights | WeightsAt nat

datatype criterion =
    SupCriterion
  | UnsupCriterion nat
  | ConcatCriterion machine nat "criterion list" weights

datatype measurer =
    CallerMeasurer nat
  | UnsupMeasurer nat
  | FakeDataMeasurer dataset measurer

text \<open>The sequences passed to forward and backward calls.\<close>

datatype seq =
    DataInputs
  | Outputs machine
  | Beta machine
  | CriterionBeta criterion
  | NoTarget

datatype probe = UpperGradient | SupGradient | UnsupGradient | GradientAngle

datatype call =
    Forward machine seq
  | Backward machine seq seq
  | CriterionForward criterion seq
  | CriterionBackward criterion seq seq
  | SuperFpropbprop
  | Clear machine
  | MeasureExample probe nat
  | CopyBeta machine probe nat

subsection \<open>Trainer state\<close>

text \<open>
  The fields of the trainer, followed by the state of the modules it reaches through
  \<open>sae\<close>: the partial-backprop flag of each module, the parameter and
  parameter-gradient buffer of each coder, and the output and gradient sequences.
  \<open>sup_dataset\<close> is not assigned by the constructor; \<open>None\<close> stands for that.
\<close>

record trainer =
  machine :: machine
  criterion :: criterion
  sup_dataset :: "dataset option"
  do_eval_criterion_weights :: bool
  epoch :: nat
  criterions_weights :: "xreal list"
  finetuning_learning_rates :: "real list"
  layerwise_training :: bool
  layerwise_layer :: nat
  topK_training :: bool
  topKlayers :: int
  is_finetuning :: bool
  profile_gradients :: bool
  partial_backprop :: "gm \<Rightarrow> bool"
  params :: "gm \<Rightarrow> nat \<Rightarrow> xreal"
  der_params :: "gm \<Rightarrow> nat \<Rightarrow> xreal"
  buffers :: "seq \<Rightarrow> nat \<Rightarrow> xreal"

definition StackedAutoencoderTrainer ::
  "stacked_autoencoder \<Rightarrow> bool \<Rightarrow> (gm \<Rightarrow> bool) \<Rightarrow> (gm \<Rightarrow> nat \<Rightarrow> xreal) \<Rightarrow> trainer" where
  "StackedAutoencoderTrainer sae do_eval flags0 params0 =
     \<lparr> machine = Sae,
       criterion = SupCriterion,
       sup_dataset = None,
       do_eval_criterion_weights = do_eval,
       epoch = 0,
       criterions_weights = replicate (n_hidden_layers sae + 1) (Fin 0),
       finetuning_learning_rates = replicate (n_hidden_layers sae + 1) 0,
       layerwise_training = False,
       layerwise_layer = 0,
       topK_training = False,
       topKlayers = 0,
       is_finetuning = False,
       profile_gradients = False,
       partial_backprop = flags0,
       params = params0,
       der_params = (\<lambda>_ _. Fin 0),
       buffers = (\<lambda>_ _. Fin 0) \<rparr>"

definition setPartialBackprop :: "gm \<Rightarrow> bool \<Rightarrow> trainer \<Rightarrow> trainer" where
  "setPartialBackprop m flag s = s\<lparr>partial_backprop := (partial_backprop s)(m := flag)\<rparr>"

definition ClearSequence :: "seq \<Rightarrow> trainer \<Rightarrow> trainer" where
  "ClearSequence sq s = s\<lparr>buffers := (buffers s)(sq := (\<lambda>_. Fin 0))\<rparr>"

subsection \<open>fpropbprop\<close>

text \<open>
  The top-K loop \<open>for (i = n_hidden_layers - 1; i > n_hidden_layers - topKlayers; i--)\<close>
  with its three-way choice of the input and gradient of each encoder.
\<close>

function topK_backward :: "int \<Rightarrow> int \<Rightarrow> int \<Rightarrow> call list" where
  "topK_backward n k i =
     (if i > n - k
      then (if i = n - 1
            then Backward (EncoderM i) (Outputs (EncoderM (i - 1))) (Beta OutputerM)
            else if i = 0
            then Backward (EncoderM i) DataInputs (Beta (EncoderM (i + 1)))
            else Backward (EncoderM i) (Outputs (EncoderM (i - 1))) (Beta (EncoderM (i + 1))))
           # topK_backward n k (i - 1)
      else [])"
  by pat_completeness auto
termination
  by (relation "measure (\<lambda>(n, k, i). nat (i - (n - k)))") auto

declare topK_backward.simps [simp del]

text \<open>
  \<open>ProfileLocalGradMeasureExample\<close>: the supervised backward, its measurements, a clear,
  then the backward of the active machine and its measurements.
\<close>

definition ProfileLocalGradMeasureExample :: "stacked_autoencoder \<Rightarrow> trainer \<Rightarrow> call list" where
  "ProfileLocalGradMeasureExample sae s =
     [Backward Sae DataInputs (CriterionBeta SupCriterion)]
     @ concat (map (\<lambda>i. [MeasureExample SupGradient i,
                          if Suc i < n_hidden_layers sae
                          then CopyBeta (EncoderM (int i + 1)) SupGradient i
                          else CopyBeta OutputerM SupGradient i])
                   [0..<n_hidden_layers sae])
     @ [Clear Sae,
        Backward (machine s) DataInputs (CriterionBeta (criterion s))]
     @ concat (map (\<lambda>i. [MeasureExample UpperGradient i,
                          if Suc i < n_hidden_layers sae
                          then CopyBeta (EncoderM (int i + 1)) UpperGradient i
                          else CopyBeta OutputerM UpperGradient i,
                          MeasureExample UnsupGradient i,
                          CopyBeta (DecoderM i) UnsupGradient i,
                          MeasureExample GradientAngle i])
                   [0..<n_hidden_layers sae])"

definition fpropbprop :: "stacked_autoencoder \<Rightarrow> trainer \<Rightarrow> call list" where
  "fpropbprop sae s =
     (if \<not> profile_gradients s \<and> \<not> layerwise_training s \<and> \<not> topK_training s
      then [SuperFpropbprop]
      else if layerwise_training s
      then [Forward (Mesd (layerwise_layer s)) DataInputs,
            CriterionForward (criterion s) (Outputs (machine s)),
            CriterionBackward (criterion s) (Outputs (machine s)) NoTarget,
            Backward (Autoenc (layerwise_layer s)) DataInputs (CriterionBeta (criterion s))]
      else if topK_training s
      then [Forward (machine s) DataInputs,
            CriterionForward (criterion s) (Outputs (machine s)),
            CriterionBackward (criterion s) (Outputs (machine s)) NoTarget,
            Backward OutputerM (Outputs (EncoderM (int (n_hidden_layers sae) - 1)))
                     (CriterionBeta (criterion s))]
           @ topK_backward (int (n_hidden_layers sae)) (topKlayers s)
                           (int (n_hidden_layers sae) - 1)
      else [Forward (machine s) DataInputs,
            CriterionForward (criterion s) (Outputs (machine s)),
            CriterionBackward (criterion s) (Outputs (machine s)) NoTarget]
           @ ProfileLocalGradMeasureExample sae s)"


subsection \<open>Sequencing calls that can fail\<close>

definition bind_err :: "error + 'a \<Rightarrow> ('a \<Rightarrow> error + 'b) \<Rightarrow> error + 'b" where
  "bind_err m f = (case m of Inl e \<Rightarrow> Inl e | Inr x \<Rightarrow> f x)"

fun for_each :: "('i \<Rightarrow> 'a \<Rightarrow> error + 'a) \<Rightarrow> 'i list \<Rightarrow> 'a \<Rightarrow> error + 'a" where
  "for_each f [] s = Inr s"
| "for_each f (i # is) s = bind_err (f i s) (for_each f is)"



subsection \<open>The gradient machines underneath\<close>

text \<open>
  The coders that carry the parameters of a machine, in the order the machine was
  built. An autoencoder node stands for its two coders, the input handle has no
  parameters, and an encoder index outside the array names no coder.
\<close>

fun leaf_coders :: "stacked_autoencoder \<Rightarrow> cm_op \<Rightarrow> gm list" where
  "leaf_coders sae (AddMachine (Autoencoder i)) = autoencoders sae i"
| "leaf_coders sae (AddMachine InputHandle) = []"
| "leaf_coders sae (AddMachine m) = [m]"
| "leaf_coders sae _ = []"

fun coders_of :: "stacked_autoencoder \<Rightarrow> machine \<Rightarrow> gm list" where
  "coders_of sae Sae = sup_machine sae"
| "coders_of sae (Mesd i) = mesd_machines sae i"
| "coders_of sae (Autoenc i) = autoencoders sae i"
| "coders_of sae Unsup = concat (map (leaf_coders sae) (BuildUnsupMachine sae))"
| "coders_of sae SupUnsup =
     (case BuildSupUnsupMachine sae of
        Inl e \<Rightarrow> []
      | Inr ops \<Rightarrow> concat (map (leaf_coders sae) ops))"
| "coders_of sae (Selective ops) = concat (map (leaf_coders sae) ops)"
| "coders_of sae OutputerM = [Outputer]"
| "coders_of sae (EncoderM i) =
     (if 0 \<le> i \<and> i < int (n_hidden_layers sae) then [Encoder (nat i)] else [])"
| "coders_of sae (DecoderM i) = [Decoder i]"

fun valid_machine :: "stacked_autoencoder \<Rightarrow> machine \<Rightarrow> bool" where
  "valid_machine sae (EncoderM i) = (0 \<le> i \<and> i < int (n_hidden_layers sae))"
| "valid_machine sae (DecoderM i) = (i < n_hidden_layers sae)"
| "valid_machine sae (Mesd i) = (i < n_hidden_layers sae)"
| "valid_machine sae (Autoenc i) = (i < n_hidden_layers sae)"
| "valid_machine sae _ = True"

fun valid_seq :: "stacked_autoencoder \<Rightarrow> seq \<Rightarrow> bool" where
  "valid_seq sae (Outputs m) = valid_machine sae m"
| "valid_seq sae (Beta m) = valid_machine sae m"
| "valid_seq sae _ = True"

fun valid_call :: "stacked_autoencoder \<Rightarrow> call \<Rightarrow> bool" where
  "valid_call sae (Forward m i) = (valid_machine sae m \<and> valid_seq sae i)"
| "valid_call sae (Backward m i g) = (valid_machine sae m \<and> valid_seq sae i \<and> valid_seq sae g)"
| "valid_call sae (CriterionForward c i) = valid_seq sae i"
| "valid_call sae (CriterionBackward c i t) = (valid_seq sae i \<and> valid_seq sae t)"
| "valid_call sae (Clear m) = valid_machine sae m"
| "valid_call sae (CopyBeta m p i) = valid_machine sae m"
| "valid_call sae _ = True"

text \<open>
  Modelled from the spec: the gradient-machine substrate (\<open>forward\<close>, \<open>backward\<close>,
  the criteria, the data sets and the update step of \<open>StochasticGradientPlus\<close>) is
  not among the sources. What a call computes is left open, as functions of the call,
  the data set, the example and the whole state; what it may write follows the
  contract: a forward or criterion call writes output and gradient sequences only, a
  backward call on a machine also writes the parameter-gradients of that machine's
  coders, and the update step writes the parameters of the coders of the machine it
  is given. Each coder has one parameter group of \<open>n_params\<close> entries. \<open>arith\<close> is
  the arithmetic of \<open>real\<close>.

  The store is keyed by coder, each with a buffer of its own. \<open>BuildCoders\<close> builds
  \<open>noisy_encoders[i]\<close>, and with tied weights \<open>decoders[i]\<close>, on \<open>encoders[i]\<close>, whose
  weights they share: the store does not describe that sharing, and a statement about
  which coder's parameters or parameter-gradients a call leaves alone is made for
  \<open>unshared\<close> topologies only.
\<close>

record substrate =
  n_examples :: "dataset \<Rightarrow> nat"
  n_params :: "gm \<Rightarrow> nat"
  run_forward :: "call \<Rightarrow> dataset \<Rightarrow> nat \<Rightarrow> trainer \<Rightarrow> seq \<Rightarrow> nat \<Rightarrow> xreal"
  run_backward :: "call \<Rightarrow> dataset \<Rightarrow> nat \<Rightarrow> trainer \<Rightarrow> gm \<Rightarrow> nat \<Rightarrow> xreal"
  sgd :: "real \<Rightarrow> (nat \<Rightarrow> xreal) \<Rightarrow> (nat \<Rightarrow> xreal) \<Rightarrow> nat \<Rightarrow> xreal"
  arith :: float_ops

definition unshared :: "stacked_autoencoder \<Rightarrow> bool" where
  "unshared sae \<longleftrightarrow> \<not> is_noisy sae \<and> \<not> tied_weights sae"

text \<open>
  \<open>ClearDerivatives\<close>, as the function of that name in
  \<open>analysis/hessian_estimator_block.cc\<close>: every entry of the machine's \<open>der_params\<close>
  becomes \<open>0.0\<close>.
\<close>

definition ClearDerivatives :: "stacked_autoencoder \<Rightarrow> machine \<Rightarrow> trainer \<Rightarrow> trainer" where
  "ClearDerivatives sae gm s =
     s\<lparr>der_params := (\<lambda>c. if c \<in> set (coders_of sae gm) then (\<lambda>_. Fin 0) else der_params s c)\<rparr>"

definition SGP_UpdateMachine ::
  "substrate \<Rightarrow> stacked_autoencoder \<Rightarrow> machine \<Rightarrow> real \<Rightarrow> trainer \<Rightarrow> trainer" where
  "SGP_UpdateMachine sub sae gm current_learning_rate s =
     s\<lparr>params := (\<lambda>c. if c \<in> set (coders_of sae gm)
                        then sgd sub current_learning_rate (params s c) (der_params s c)
                        else params s c)\<rparr>"

fun run_primitive ::
  "substrate \<Rightarrow> stacked_autoencoder \<Rightarrow> dataset \<Rightarrow> nat \<Rightarrow> call \<Rightarrow> trainer \<Rightarrow> trainer" where
  "run_primitive sub sae data e (Backward m i g) s =
     s\<lparr>der_params := (\<lambda>c. if c \<in> set (coders_of sae m)
                            then run_backward sub (Backward m i g) data e s c
                            else der_params s c),
       buffers := run_forward sub (Backward m i g) data e s\<rparr>"
| "run_primitive sub sae data e (Forward m i) s =
     s\<lparr>buffers := run_forward sub (Forward m i) data e s\<rparr>"
| "run_primitive sub sae data e (CriterionForward c i) s =
     s\<lparr>buffers := run_forward sub (CriterionForward c i) data e s\<rparr>"
| "run_primitive sub sae data e (CriterionBackward c i t) s =
     s\<lparr>buffers := run_forward sub (CriterionBackward c i t) data e s\<rparr>"
| "run_primitive sub sae data e (Clear m) s = ClearDerivatives sae m s"
| "run_primitive sub sae data e _ s = s"

text \<open>
  Modelled from the spec: the inherited \<open>fpropbprop\<close> is the uniform pass over the
  active machine and criterion.
\<close>

definition super_fpropbprop :: "trainer \<Rightarrow> call list" where
  "super_fpropbprop s =
     [Forward (machine s) DataInputs,
      CriterionForward (criterion s) (Outputs (machine s)),
      CriterionBackward (criterion s) (Outputs (machine s)) NoTarget,
      Backward (machine s) DataInputs (CriterionBeta (criterion s))]"

definition run_checked ::
  "substrate \<Rightarrow> stacked_autoencoder \<Rightarrow> dataset \<Rightarrow> nat \<Rightarrow> call \<Rightarrow> trainer \<Rightarrow> error + trainer" where
  "run_checked sub sae data e c s =
     (if valid_call sae c then Inr (run_primitive sub sae data e c s) else Inl ReadPastEnd)"

definition run_call ::
  "substrate \<Rightarrow> stacked_autoencoder \<Rightarrow> dataset \<Rightarrow> nat \<Rightarrow> call \<Rightarrow> trainer \<Rightarrow> error + trainer" where
  "run_call sub sae data e c s =
     (if c = SuperFpropbprop
      then for_each (run_checked sub sae data e) (super_fpropbprop s) s
      else run_checked sub sae data e c s)"

definition run_calls ::
  "substrate \<Rightarrow> stacked_autoencoder \<Rightarrow> dataset \<Rightarrow> nat \<Rightarrow> call list \<Rightarrow> trainer \<Rightarrow> error + trainer" where
  "run_calls sub sae data e cs s = for_each (run_call sub sae data e) cs s"

subsection \<open>UpdateMachine\<close>

definition UpdateMachine ::
  "substrate \<Rightarrow> stacked_autoencoder \<Rightarrow> machine \<Rightarrow> real \<Rightarrow> trainer \<Rightarrow> error + trainer" where
  "UpdateMachine sub sae gm current_learning_rate s =
     (if \<not> is_finetuning s then Inr (SGP_UpdateMachine sub sae gm current_learning_rate s)
      else if gm \<noteq> Sae then Inl AssertionFailed
      else
        let s1 = fold (\<lambda>i s'. if finetuning_learning_rates s' ! i > 0
                               then SGP_UpdateMachine sub sae (EncoderM (int i))
                                      (finetuning_learning_rates s' ! i) s'
                               else s')
                      [0..<n_hidden_layers sae] s
        in Inr (if finetuning_learning_rates s1 ! n_hidden_layers sae > 0
                then SGP_UpdateMachine sub sae OutputerM
                       (finetuning_learning_rates s1 ! n_hidden_layers sae) s1
                else s1))"

subsection \<open>EvalHessian\<close>

text \<open>What \<open>EvalHessian\<close> prints, in order.\<close>

datatype message =
    ParametersMessage nat
  | LargeGradient nat nat nat xreal
  | MaxMessage xreal xreal xreal xreal xreal

text \<open>
  The measuring loops over the parameter groups \<open>j\<close> and their entries \<open>k\<close>, with the
  running \<open>index\<close> into the two sum arrays.
\<close>

definition measure_param ::
  "substrate \<Rightarrow> gm list \<Rightarrow> trainer \<Rightarrow> nat \<Rightarrow> nat
     \<Rightarrow> nat \<times> xreal list \<times> xreal list \<times> message list
     \<Rightarrow> nat \<times> xreal list \<times> xreal list \<times> message list" where
  "measure_param sub cs s j k = (\<lambda>(index, grad_sumX, grad_sumX2, out).
     let g = der_params s (cs ! j) k
     in (index + 1,
         grad_sumX[index := fadd (arith sub) (grad_sumX ! index) g],
         grad_sumX2[index := fadd (arith sub) (grad_sumX2 ! index) (fmul (arith sub) g g)],
         out @ (if xless (Fin 10) (xabs g)
                then [LargeGradient j (n_params sub (cs ! j)) k g] else [])))"

definition measure_example ::
  "substrate \<Rightarrow> gm list \<Rightarrow> trainer
     \<Rightarrow> xreal list \<times> xreal list \<times> message list \<Rightarrow> xreal list \<times> xreal list \<times> message list" where
  "measure_example sub cs s = (\<lambda>(grad_sumX, grad_sumX2, out).
     snd (fold (\<lambda>j. fold (measure_param sub cs s j) [0..<n_params sub (cs ! j)])
               [0..<length cs] (0, grad_sumX, grad_sumX2, out)))"

fun sample_loop ::
  "substrate \<Rightarrow> stacked_autoencoder \<Rightarrow> machine \<Rightarrow> criterion \<Rightarrow> dataset \<Rightarrow> nat list
     \<Rightarrow> trainer \<times> xreal list \<times> xreal list \<times> message list
     \<Rightarrow> error + trainer \<times> xreal list \<times> xreal list \<times> message list" where
  "sample_loop sub sae the_gm the_criterion the_data [] acc = Inr acc"
| "sample_loop sub sae the_gm the_criterion the_data (i # is) (s, acc) =
     bind_err (run_calls sub sae the_data i
                 [Forward the_gm DataInputs,
                  CriterionForward the_criterion (Outputs the_gm),
                  CriterionBackward the_criterion (Outputs the_gm) NoTarget,
                  Backward the_gm DataInputs (CriterionBeta the_criterion)]
                 (ClearDerivatives sae the_gm s))
       (\<lambda>s'. sample_loop sub sae the_gm the_criterion the_data is
                (s', measure_example sub (coders_of sae the_gm) s' acc))"

definition max_variance_loop ::
  "float_ops \<Rightarrow> nat \<Rightarrow> xreal list \<Rightarrow> xreal list \<Rightarrow> nat
     \<Rightarrow> xreal \<times> xreal \<times> xreal \<times> xreal" where
  "max_variance_loop ops n_samples grad_sumX grad_sumX2 n_parameters =
     fold (\<lambda>i (max_sumX, max_sumX2, max_means, max_variance).
             let grad_means = fdiv ops (grad_sumX ! i) (fof_nat ops n_samples);
                 grad_variances = fsub ops (fdiv ops (grad_sumX2 ! i) (fof_nat ops n_samples))
                                           (fmul ops grad_means grad_means)
             in if xless max_variance grad_variances
                then (grad_sumX ! i, grad_sumX2 ! i, grad_means, grad_variances)
                else (max_sumX, max_sumX2, max_means, max_variance))
          [0..<n_parameters] (Fin 0, Fin 0, Fin 0, Fin 0)"

text \<open>
  \<open>EvalHessian\<close> reads \<open>the_data->n_examples\<close> in its first assertion, before the
  one that tests the pointer: a data set that is \<open>NULL\<close> or was never assigned
  (\<open>None\<close>) is dereferenced. The last message prints the four maxima converted to
  \<open>float\<close> and \<open>(float) 1.0 / max_variance\<close>, a division in \<open>real\<close>; the value
  returned is \<open>1.0 / max_variance\<close>.
\<close>

definition EvalHessian ::
  "substrate \<Rightarrow> stacked_autoencoder \<Rightarrow> machine \<Rightarrow> criterion \<Rightarrow> dataset option \<Rightarrow> nat \<Rightarrow> trainer
     \<Rightarrow> error + xreal \<times> message list \<times> trainer" where
  "EvalHessian sub sae the_gm the_criterion the_data n_samples s =
     (case the_data of
        None \<Rightarrow> Inl NullDereference
      | Some d \<Rightarrow>
          if \<not> n_samples \<le> n_examples sub d then Inl AssertionFailed
          else
            let n_parameters = sum_list (map (n_params sub) (coders_of sae the_gm));
                zeros = replicate n_parameters (Fin 0)
            in bind_err (sample_loop sub sae the_gm the_criterion d [0..<n_samples]
                           (s, zeros, zeros, []))
                 (\<lambda>(s', grad_sumX, grad_sumX2, out).
                    let (max_sumX, max_sumX2, max_means, max_variance) =
                          max_variance_loop (arith sub) n_samples grad_sumX grad_sumX2 n_parameters
                    in Inr (frecip (arith sub) max_variance,
                            [ParametersMessage n_parameters] @ out
                            @ [MaxMessage (ffloat (arith sub) max_sumX) (ffloat (arith sub) max_sumX2)
                                 (ffloat (arith sub) max_means) (ffloat (arith sub) max_variance)
                                 (fdiv (arith sub) (Fin 1) max_variance)],
                            s')))"

subsection \<open>The hooks of an iteration\<close>

definition IterInitialize :: "substrate \<Rightarrow> stacked_autoencoder \<Rightarrow> trainer \<Rightarrow> error + trainer" where
  "IterInitialize sub sae s =
     (if do_eval_criterion_weights s \<and> epoch s \<noteq> 0
      then
        bind_err (EvalHessian sub sae Sae SupCriterion (sup_dataset s) 1000 s)
          (\<lambda>(h, out, s0).
             bind_err
               (for_each
                  (\<lambda>i s'. bind_err (EvalHessian sub sae (Mesd i) (UnsupCriterion i)
                                       (Some (UnsupDataset i)) 1000 s')
                             (\<lambda>(h', out', s''). Inr (s''\<lparr>criterions_weights :=
                                                       (criterions_weights s'')[1 + i := h']\<rparr>)))
                  [0..<n_hidden_layers sae]
                  (s0\<lparr>criterions_weights := (criterions_weights s0)[0 := h]\<rparr>))
               (\<lambda>s1.
                  let s2 = fold (\<lambda>i s'. s'\<lparr>criterions_weights :=
                                   (criterions_weights s')
                                     [1 + i := fsqrt (arith sub)
                                                 (fdiv (arith sub) (criterions_weights s' ! (1 + i))
                                                                   (criterions_weights s' ! 0))]\<rparr>)
                                [0..<n_hidden_layers sae] s1
                  in Inr (s2\<lparr>criterions_weights := (criterions_weights s2)[0 := Fin 1]\<rparr>)))
      else Inr s)"

definition IterFinalize :: "trainer \<Rightarrow> trainer" where
  "IterFinalize s = s\<lparr>epoch := epoch s + 1\<rparr>"

subsection \<open>train\<close>

text \<open>
  Modelled from the spec: \<open>StochasticGradientPlus::train\<close> is not among the sources. It
  runs iterations one at a time and, within an iteration, the examples one at a time;
  before every example it zeroes the parameter-gradients of the active machine, then
  runs \<open>fpropbprop\<close> and \<open>UpdateMachine\<close> on the active machine, with
  \<open>IterInitialize\<close> and \<open>IterFinalize\<close> around each iteration. When it stops and
  which learning rate it uses are left open: the schedule gives, for each iteration,
  the examples in the order visited, each with its learning rate.
\<close>

definition train_example ::
  "substrate \<Rightarrow> stacked_autoencoder \<Rightarrow> dataset \<Rightarrow> nat \<times> real \<Rightarrow> trainer \<Rightarrow> error + trainer" where
  "train_example sub sae data = (\<lambda>(e, current_learning_rate) s.
     let s1 = ClearDerivatives sae (machine s) s
     in bind_err (run_calls sub sae data e (fpropbprop sae s1) s1)
          (\<lambda>s2. UpdateMachine sub sae (machine s2) current_learning_rate s2))"

definition train_iteration ::
  "substrate \<Rightarrow> stacked_autoencoder \<Rightarrow> dataset \<Rightarrow> (nat \<times> real) list \<Rightarrow> trainer \<Rightarrow> error + trainer" where
  "train_iteration sub sae data examples s =
     bind_err (IterInitialize sub sae s)
       (\<lambda>s0. bind_err (for_each (train_example sub sae data) examples s0)
                (\<lambda>s1. Inr (IterFinalize s1)))"

definition train ::
  "substrate \<Rightarrow> stacked_autoencoder \<Rightarrow> (nat \<times> real) list list
     \<Rightarrow> dataset \<Rightarrow> measurer list \<Rightarrow> trainer \<Rightarrow> error + trainer" where
  "train sub sae schedule data measurers s = for_each (train_iteration sub sae data) schedule s"


subsection \<open>Gradient variance, as the spec words it\<close>

text \<open>
  The second reading of \<open>EvalHessian\<close>, from the spec: per-parameter gradient variance
  over a fixed number of samples, with the maximum-variance parameter as
  representative. \<open>sample_pass\<close> is what one sample does to the state,
  \<open>sample_states\<close> lists the states after each sample and \<open>gradient_samples\<close>
  the flat gradient vector in each. \<open>gradient_sum\<close> and \<open>gradient_sum_squares\<close>
  add up one parameter's gradient, and its square, over the samples in the order taken;
  \<open>gradient_variance\<close> is the variance of one parameter over the samples (mean of
  squares minus square of the mean), and \<open>max_gradient_variance\<close> is the largest of
  them, or \<open>0\<close> when none is above it. All of it is in the arithmetic of \<open>real\<close>,
  whatever that is.
\<close>

definition sample_pass ::
  "substrate \<Rightarrow> stacked_autoencoder \<Rightarrow> machine \<Rightarrow> criterion \<Rightarrow> dataset \<Rightarrow> nat \<Rightarrow> trainer \<Rightarrow> trainer" where
  "sample_pass sub sae the_gm the_criterion the_data i s =
     fold (run_primitive sub sae the_data i)
          [Forward the_gm DataInputs,
           CriterionForward the_criterion (Outputs the_gm),
           CriterionBackward the_criterion (Outputs the_gm) NoTarget,
           Backward the_gm DataInputs (CriterionBeta the_criterion)]
          (ClearDerivatives sae the_gm s)"

definition flat_gradient :: "substrate \<Rightarrow> gm list \<Rightarrow> trainer \<Rightarrow> xreal list" where
  "flat_gradient sub cs s = concat (map (\<lambda>c. map (der_params s c) [0..<n_params sub c]) cs)"

fun sample_states ::
  "substrate \<Rightarrow> stacked_autoencoder \<Rightarrow> machine \<Rightarrow> criterion \<Rightarrow> dataset \<Rightarrow> nat list \<Rightarrow> trainer
     \<Rightarrow> trainer list" where
  "sample_states sub sae the_gm the_criterion the_data [] s = []"
| "sample_states sub sae the_gm the_criterion the_data (i # is) s =
     sample_pass sub sae the_gm the_criterion the_data i s
     # sample_states sub sae the_gm the_criterion the_data is
         (sample_pass sub sae the_gm the_criterion the_data i s)"

definition gradient_samples ::
  "substrate \<Rightarrow> stacked_autoencoder \<Rightarrow> machine \<Rightarrow> criterion \<Rightarrow> dataset \<Rightarrow> nat \<Rightarrow> trainer
     \<Rightarrow> xreal list list" where
  "gradient_samples sub sae the_gm the_criterion the_data n_samples s =
     map (flat_gradient sub (coders_of sae the_gm))
         (sample_states sub sae the_gm the_criterion the_data [0..<n_samples] s)"

definition gradient_sum :: "float_ops \<Rightarrow> xreal list list \<Rightarrow> nat \<Rightarrow> xreal" where
  "gradient_sum ops samples p = fold (\<lambda>g acc. fadd ops acc (g ! p)) samples (Fin 0)"

definition gradient_sum_squares :: "float_ops \<Rightarrow> xreal list list \<Rightarrow> nat \<Rightarrow> xreal" where
  "gradient_sum_squares ops samples p =
     fold (\<lambda>g acc. fadd ops acc (fmul ops (g ! p) (g ! p))) samples (Fin 0)"

definition gradient_variance :: "float_ops \<Rightarrow> xreal list list \<Rightarrow> nat \<Rightarrow> xreal" where
  "gradient_variance ops samples p =
     fsub ops (fdiv ops (gradient_sum_squares ops samples p) (fof_nat ops (length samples)))
              (fmul ops (fdiv ops (gradient_sum ops samples p) (fof_nat ops (length samples)))
                        (fdiv ops (gradient_sum ops samples p) (fof_nat ops (length samples))))"

definition max_gradient_variance :: "float_ops \<Rightarrow> xreal list list \<Rightarrow> nat \<Rightarrow> xreal" where
  "max_gradient_variance ops samples n_parameters =
     fold (\<lambda>p m. if xless m (gradient_variance ops samples p)
                  then gradient_variance ops samples p else m)
          [0..<n_parameters] (Fin 0)"

definition large_gradients :: "substrate \<Rightarrow> gm list \<Rightarrow> trainer \<Rightarrow> message list" where
  "large_gradients sub cs s =
     concat (map (\<lambda>j. concat (map (\<lambda>k. if xless (Fin 10) (xabs (der_params s (cs ! j) k))
                                        then [LargeGradient j (n_params sub (cs ! j)) k
                                                (der_params s (cs ! j) k)]
                                        else [])
                                  [0..<n_params sub (cs ! j)]))
                 [0..<length cs])"

text \<open>
  Frames of the passes above: \<open>gradients_only s s'\<close> says that \<open>s'\<close> differs from
  \<open>s\<close> at most in the parameter-gradients and the sequences.
\<close>

definition gradients_only :: "trainer \<Rightarrow> trainer \<Rightarrow> bool" where
  "gradients_only s s' \<longleftrightarrow> s' = s\<lparr>der_params := der_params s', buffers := buffers s'\<rparr>"

text \<open>
  \<open>updates_only C s s'\<close> says the same for a training run: besides gradients and
  sequences it may change the loss weights, the epoch counter and the parameters, and
  of the parameters only those of the coders in \<open>C\<close>.
\<close>

definition updates_only :: "gm set \<Rightarrow> trainer \<Rightarrow> trainer \<Rightarrow> bool" where
  "updates_only C s s' \<longleftrightarrow>
     s' = s\<lparr>params := params s', der_params := der_params s', buffers := buffers s',
            criterions_weights := criterions_weights s', epoch := epoch s'\<rparr>
     \<and> (\<forall>c. c \<notin> C \<longrightarrow> params s' c = params s c)"


subsection \<open>Training phases\<close>

text \<open>
  \<open>train(data, measurers)\<close> is inherited from \<open>StochasticGradientPlus\<close>. The phases are
  written over any \<open>train\<close>, passed as \<open>tr\<close>: it receives the data set and the
  measurers and returns the state it leaves, or the error that ended the run.
\<close>

type_synonym train_fn = "dataset \<Rightarrow> measurer list \<Rightarrow> trainer \<Rightarrow> error + trainer"

definition TrainUnsupLayer :: "train_fn \<Rightarrow> trainer \<Rightarrow> error + trainer" where
  "TrainUnsupLayer tr s =
     (if \<not> layerwise_training s then Inl AssertionFailed
      else
        let s1 = s\<lparr>machine := Mesd (layerwise_layer s),
                   criterion := UnsupCriterion (layerwise_layer s)\<rparr>
        in bind_err (tr (UnsupDataset (layerwise_layer s)) [UnsupMeasurer (layerwise_layer s)] s1)
             (\<lambda>s2. Inr (s2\<lparr>machine := Sae, criterion := SupCriterion\<rparr>)))"

definition TrainUnsupLayerwise :: "train_fn \<Rightarrow> stacked_autoencoder \<Rightarrow> trainer \<Rightarrow> error + trainer" where
  "TrainUnsupLayerwise tr sae s =
     bind_err (for_each (\<lambda>i s'. TrainUnsupLayer tr (s'\<lparr>layerwise_layer := i\<rparr>))
                        [0..<n_hidden_layers sae]
                        (s\<lparr>layerwise_training := True\<rparr>))
       (\<lambda>s2. Inr (s2\<lparr>layerwise_training := False\<rparr>))"

text \<open>
  The selective phases read \<open>pretrain_list[i]\<close> for every hidden layer, and
  \<open>TrainSelectiveUnsup\<close> also reads \<open>pretrain_list[0]\<close> in noisy mode whatever the
  number of layers. A list too short for these reads is \<open>ReadPastEnd\<close>.
\<close>

definition TrainSelectiveUnsupLayerwise ::
  "train_fn \<Rightarrow> stacked_autoencoder \<Rightarrow> int list \<Rightarrow> trainer \<Rightarrow> error + trainer" where
  "TrainSelectiveUnsupLayerwise tr sae pretrain_list s =
     (if length pretrain_list < n_hidden_layers sae then Inl ReadPastEnd
      else
        bind_err (for_each (\<lambda>i s'. if pretrain_list ! i = 1
                                    then TrainUnsupLayer tr (s'\<lparr>layerwise_layer := i\<rparr>)
                                    else Inr s')
                           [0..<n_hidden_layers sae]
                           (s\<lparr>layerwise_training := True\<rparr>))
          (\<lambda>s2. Inr (s2\<lparr>layerwise_training := False\<rparr>)))"

text \<open>The first loop of \<open>TrainSelectiveUnsup\<close>: the topmost trained layer and the count.\<close>

definition topmost_trained :: "stacked_autoencoder \<Rightarrow> int list \<Rightarrow> int \<times> nat" where
  "topmost_trained sae pretrain_list =
     fold (\<lambda>i (index_topmost_trained, n_layers_to_train).
             if pretrain_list ! i = 1 then (int i, n_layers_to_train + 1)
             else (index_topmost_trained, n_layers_to_train))
          [0..<n_hidden_layers sae] (-1, 0)"

text \<open>The calls \<open>TrainSelectiveUnsup\<close> makes on \<open>selective_machine\<close>, up to \<open>build\<close>.\<close>

definition selective_machine :: "stacked_autoencoder \<Rightarrow> int list \<Rightarrow> cm_op list" where
  "selective_machine sae pretrain_list =
     (let index_topmost_trained = fst (topmost_trained sae pretrain_list) in
      (if \<not> is_noisy sae
       then AddEncodersUpToIncluded index_topmost_trained False
       else if pretrain_list ! 0 = 1
       then AddEncodersUpToIncluded (index_topmost_trained - 1) True
       else AddEncodersUpToIncluded (index_topmost_trained - 1) False)
      @ concat (map (\<lambda>i. if pretrain_list ! i = 1
                         then (if \<not> is_noisy sae
                               then [AddMachine (Decoder i), ConnectOn (Encoder i)]
                               else if i > 0
                               then [AddMachine (Autoencoder i), ConnectOn (Encoder (i - 1))]
                               else [AddMachine (Autoencoder i), ConnectOn InputHandle])
                         else [])
                    [0..<n_hidden_layers sae])
      @ [Build])"

text \<open>
  The flag part of the same loop: every encoder gets the caller's flag, the included
  autoencoders too in noisy mode, and with the flag set their \<open>beta\<close> is cleared.
\<close>

definition selective_flags :: "stacked_autoencoder \<Rightarrow> int list \<Rightarrow> bool \<Rightarrow> trainer \<Rightarrow> trainer" where
  "selective_flags sae pretrain_list partial_backprop' s =
     fold (\<lambda>i s'.
             let s1 = setPartialBackprop (Encoder i) partial_backprop' s';
                 s2 = (if partial_backprop' then ClearSequence (Beta (EncoderM (int i))) s1 else s1)
             in if pretrain_list ! i = 1 \<and> is_noisy sae
                then (let s3 = setPartialBackprop (Autoencoder i) partial_backprop' s2
                      in if partial_backprop' then ClearSequence (Beta (Autoenc i)) s3 else s3)
                else s2)
          [0..<n_hidden_layers sae] s"

definition reset_flags :: "stacked_autoencoder \<Rightarrow> trainer \<Rightarrow> trainer" where
  "reset_flags sae s =
     fold (\<lambda>i s'.
             let s1 = setPartialBackprop (Encoder i) False s'
             in if is_noisy sae then setPartialBackprop (Autoencoder i) False s1 else s1)
          [0..<n_hidden_layers sae] s"

definition TrainSelectiveUnsup ::
  "train_fn \<Rightarrow> stacked_autoencoder \<Rightarrow> int list \<Rightarrow> bool \<Rightarrow> trainer \<Rightarrow> error + trainer" where
  "TrainSelectiveUnsup tr sae pretrain_list partial_backprop' s =
     (if length pretrain_list < n_hidden_layers sae \<or> (is_noisy sae \<and> pretrain_list = [])
      then Inl ReadPastEnd
      else
        let n_layers_to_train = snd (topmost_trained sae pretrain_list);
            s1 = selective_flags sae pretrain_list partial_backprop' s
        in case cm_run (selective_machine sae pretrain_list) ConnectedMachine of
             Inl e \<Rightarrow> Inl e
           | Inr g \<Rightarrow>
               let the_criterions = map UnsupCriterion
                                      (filter (\<lambda>i. pretrain_list ! i = 1) [0..<n_hidden_layers sae]);
                   concat_criterion = ConcatCriterion (Selective (selective_machine sae pretrain_list))
                                        n_layers_to_train the_criterions NoWeights;
                   the_measurers = map (\<lambda>i. FakeDataMeasurer (UnsupDataset 0) (UnsupMeasurer i))
                                     (filter (\<lambda>i. pretrain_list ! i = 1) [0..<n_hidden_layers sae]);
                   s2 = s1\<lparr>machine := Selective (selective_machine sae pretrain_list),
                            criterion := concat_criterion\<rparr>
               in bind_err (tr (UnsupDataset 0) the_measurers s2)
                    (\<lambda>s3. Inr ((reset_flags sae s3)\<lparr>machine := Sae, criterion := SupCriterion\<rparr>)))"

definition TrainSupervisedTopKLayers ::
  "train_fn \<Rightarrow> stacked_autoencoder \<Rightarrow> dataset \<Rightarrow> measurer list \<Rightarrow> int \<Rightarrow> trainer \<Rightarrow> error + trainer" where
  "TrainSupervisedTopKLayers tr sae supervised_train_data measurers top_k_layers s =
     (if \<not> (top_k_layers > 0 \<and> top_k_layers \<le> int (n_hidden_layers sae) + 1)
      then Inl AssertionFailed
      else
        let s1 = s\<lparr>topK_training := True, topKlayers := top_k_layers,
                   machine := Sae, criterion := SupCriterion\<rparr>
        in bind_err (tr supervised_train_data measurers s1)
             (\<lambda>s2. Inr (s2\<lparr>topK_training := False\<rparr>)))"

text \<open>The loop \<open>criterions_weights[1+i] = w\<close> over the hidden layers.\<close>

definition set_unsup_weights :: "stacked_autoencoder \<Rightarrow> xreal \<Rightarrow> trainer \<Rightarrow> trainer" where
  "set_unsup_weights sae w s =
     fold (\<lambda>i s'. s'\<lparr>criterions_weights := (criterions_weights s')[1 + i := w]\<rparr>)
          [0..<n_hidden_layers sae] s"

definition unsup_fake_measurers :: "stacked_autoencoder \<Rightarrow> measurer list" where
  "unsup_fake_measurers sae =
     map (\<lambda>i. FakeDataMeasurer (UnsupDataset 0) (UnsupMeasurer i)) [0..<n_hidden_layers sae]"

definition TrainUnsupNotOutput :: "train_fn \<Rightarrow> stacked_autoencoder \<Rightarrow> trainer \<Rightarrow> error + trainer" where
  "TrainUnsupNotOutput tr sae s =
     (let the_criterions = map UnsupCriterion [0..<n_hidden_layers sae];
          s1 = set_unsup_weights sae (Fin 1) s;
          concat_criterion = ConcatCriterion Unsup (n_hidden_layers sae) the_criterions (WeightsAt 1);
          s2 = s1\<lparr>machine := Unsup, criterion := concat_criterion\<rparr>
      in bind_err (tr (UnsupDataset 0) (unsup_fake_measurers sae) s2)
           (\<lambda>s3. Inr (s3\<lparr>machine := Sae, criterion := SupCriterion\<rparr>)))"

text \<open>
  \<open>TrainSupUnsup\<close>, in two parts: what it does before calling \<open>train\<close> (the state and
  the measurers it hands over) and the whole function.
\<close>

definition TrainSupUnsup_setup ::
  "stacked_autoencoder \<Rightarrow> dataset \<Rightarrow> measurer list \<Rightarrow> real \<Rightarrow> trainer \<Rightarrow> trainer \<times> measurer list" where
  "TrainSupUnsup_setup sae supervised_train_data measurers the_unsup_criterions_weight s =
     (let s0 = s\<lparr>sup_dataset := Some supervised_train_data\<rparr>;
          the_criterions = [criterion s0] @ map UnsupCriterion [0..<n_hidden_layers sae];
          s1 = s0\<lparr>criterions_weights := (criterions_weights s0)[0 := Fin 1]\<rparr>;
          s2 = set_unsup_weights sae (Fin the_unsup_criterions_weight) s1;
          concat_criterion = ConcatCriterion SupUnsup (1 + n_hidden_layers sae)
                               the_criterions (WeightsAt 0);
          the_measurers = map (\<lambda>i. if i < 2
                                    then FakeDataMeasurer (UnsupDataset 0) (measurers ! i)
                                    else measurers ! i)
                              [0..<length measurers]
                          @ unsup_fake_measurers sae
      in (s2\<lparr>machine := SupUnsup, criterion := concat_criterion\<rparr>, the_measurers))"

definition TrainSupUnsup ::
  "train_fn \<Rightarrow> stacked_autoencoder \<Rightarrow> dataset \<Rightarrow> measurer list \<Rightarrow> real \<Rightarrow> trainer \<Rightarrow> error + trainer" where
  "TrainSupUnsup tr sae supervised_train_data measurers the_unsup_criterions_weight s =
     (let (s1, the_measurers) =
            TrainSupUnsup_setup sae supervised_train_data measurers the_unsup_criterions_weight s
      in bind_err (tr (UnsupDataset 0) the_measurers s1)
           (\<lambda>s2. Inr (s2\<lparr>machine := Sae, criterion := SupCriterion\<rparr>)))"

definition TrainUnsup_setup :: "trainer \<Rightarrow> trainer" where
  "TrainUnsup_setup s =
     ClearSequence (Beta OutputerM) (setPartialBackprop Outputer True s)"

definition TrainUnsup ::
  "train_fn \<Rightarrow> stacked_autoencoder \<Rightarrow> dataset \<Rightarrow> measurer list \<Rightarrow> trainer \<Rightarrow> error + trainer" where
  "TrainUnsup tr sae supervised_train_data measurers s =
     bind_err (TrainSupUnsup tr sae supervised_train_data measurers 1.0 (TrainUnsup_setup s))
       (\<lambda>s2. Inr (setPartialBackprop Outputer False s2))"


section \<open>Properties of the topology\<close>

text \<open>
  C3. For every stacked autoencoder the constructor builds and every hidden layer
  \<open>i < n_hidden_layers\<close>, decoder \<open>i\<close> takes as many inputs as encoder \<open>i\<close> has outputs
  and produces as many outputs as encoder \<open>i\<close> has inputs, with tied weights or
  without; the encoder's own widths are those of layers \<open>i\<close> and \<open>i + 1\<close>.
\<close>

theorem decoder_shape_symmetry:
  assumes "StackedAutoencoder nl tied rep n_in n hidden n_out nsy fls = Some sae"
      and "i < n_hidden_layers sae"
  shows "n_inputs (decoders sae ! i) = n_outputs (encoders sae ! i)
       \<and> n_outputs (decoders sae ! i) = n_inputs (encoders sae ! i)
       \<and> n_inputs (encoders sae ! i) = n_units_per_layer sae ! i
       \<and> n_outputs (encoders sae ! i) = n_units_per_layer sae ! (i + 1)
       \<and> tied_weights sae = tied"
  using assms
  by (auto simp: StackedAutoencoder_def Let_def build_decoders_def build_encoders_def Coder_def
           split: if_splits)

theorem decoder_shape_symmetry_witness:
  "n_inputs (decoders (the (StackedAutoencoder ''tanh'' True False 4 2 [3, 5] 2 False False)) ! 1)
     = n_outputs (encoders (the (StackedAutoencoder ''tanh'' True False 4 2 [3, 5] 2 False False)) ! 1)
   \<and> n_outputs (decoders (the (StackedAutoencoder ''tanh'' True False 4 2 [3, 5] 2 False False)) ! 1)
     = n_inputs (encoders (the (StackedAutoencoder ''tanh'' True False 4 2 [3, 5] 2 False False)) ! 1)
   \<and> n_inputs (encoders (the (StackedAutoencoder ''tanh'' True False 4 2 [3, 5] 2 False False)) ! 1) = 3
   \<and> n_outputs (encoders (the (StackedAutoencoder ''tanh'' True False 4 2 [3, 5] 2 False False)) ! 1) = 5"
proof -
  obtain sae where sae: "StackedAutoencoder ''tanh'' True False 4 2 [3, 5] 2 False False = Some sae"
    by (simp add: StackedAutoencoder_def Let_def)
  have n: "n_hidden_layers sae = 2" and u: "n_units_per_layer sae = [4, 3, 5, 2]"
    using sae by (auto simp: StackedAutoencoder_def Let_def numeral_2_eq_2)
  have "(1::nat) < n_hidden_layers sae" using n by simp
  from decoder_shape_symmetry [OF sae this] show ?thesis
    unfolding sae option.sel by (simp add: u)
qed

lemma fold_setROption_other:
  "(\<And>i. i \<in> set is \<Longrightarrow> f i \<noteq> m) \<Longrightarrow>
   fold (\<lambda>i. setROption (f i) name v) is opts (m, nm) = opts (m, nm)"
  by (induction "is" arbitrary: opts) (auto simp: setROption_def)

lemma fold_setROption_hit:
  "i \<in> set is \<Longrightarrow> inj f \<Longrightarrow>
   fold (\<lambda>i. setROption (f i) name v) is opts (f i, name) = Some v"
proof (induction "is" arbitrary: opts)
  case Nil
  then show ?case by simp
next
  case (Cons a "is")
  show ?case
  proof (cases "i \<in> set is")
    case True
    with Cons show ?thesis by simp
  next
    case False
    with Cons.prems have "a = i" by simp
    have "\<And>j. j \<in> set is \<Longrightarrow> f j \<noteq> f i"
      using False Cons.prems(2) by (auto dest: injD)
    then show ?thesis using \<open>a = i\<close>
      by (simp add: fold_setROption_other) (simp add: setROption_def)
  qed
qed

lemma setL1WeightDecay_encoder:
  "i < n_hidden_layers sae \<Longrightarrow>
   setL1WeightDecay sae wd opts (Encoder i, ''l1 weight decay'') = Some wd"
  using fold_setROption_hit [of i "[0..<n_hidden_layers sae]" Encoder]
  by (simp add: setL1WeightDecay_def Let_def fold_setROption_other setROption_def inj_def)

lemma setL1WeightDecay_outputer:
  "setL1WeightDecay sae wd opts (Outputer, ''l1 weight decay'') = Some wd"
  by (simp add: setL1WeightDecay_def Let_def fold_setROption_other setROption_def)

lemma setL1WeightDecay_tied_decoder:
  "tied_weights sae \<Longrightarrow> setL1WeightDecay sae wd opts (Decoder i, nm) = opts (Decoder i, nm)"
  by (simp add: setL1WeightDecay_def Let_def fold_setROption_other setROption_def)

lemma setL1WeightDecay_untied_decoder:
  "\<not> tied_weights sae \<Longrightarrow> i < n_hidden_layers sae \<Longrightarrow>
   setL1WeightDecay sae wd opts (Decoder i, ''l1 weight decay'') = Some wd"
  using fold_setROption_hit [of i "[0..<n_hidden_layers sae]" Decoder]
  by (simp add: setL1WeightDecay_def Let_def inj_def)

lemma setL2WeightDecay_encoder:
  "i < n_hidden_layers sae \<Longrightarrow>
   setL2WeightDecay sae wd opts (Encoder i, ''weight decay'') = Some wd"
  using fold_setROption_hit [of i "[0..<n_hidden_layers sae]" Encoder]
  by (simp add: setL2WeightDecay_def Let_def fold_setROption_other setROption_def inj_def)

lemma setL2WeightDecay_outputer:
  "setL2WeightDecay sae wd opts (Outputer, ''weight decay'') = Some wd"
  by (simp add: setL2WeightDecay_def Let_def fold_setROption_other setROption_def)

lemma setL2WeightDecay_tied_decoder:
  "tied_weights sae \<Longrightarrow> setL2WeightDecay sae wd opts (Decoder i, nm) = opts (Decoder i, nm)"
  by (simp add: setL2WeightDecay_def Let_def fold_setROption_other setROption_def)

lemma setL2WeightDecay_untied_decoder:
  "\<not> tied_weights sae \<Longrightarrow> i < n_hidden_layers sae \<Longrightarrow>
   setL2WeightDecay sae wd opts (Decoder i, ''weight decay'') = Some wd"
  using fold_setROption_hit [of i "[0..<n_hidden_layers sae]" Decoder]
  by (simp add: setL2WeightDecay_def Let_def inj_def)

text \<open>
  C10. \<open>setL1WeightDecay\<close> and \<open>setL2WeightDecay\<close> set their option on the linear layer
  of every encoder and of the outputer. With tied weights no option of any decoder's
  linear layer is touched; without, every decoder gets the option too.
\<close>

theorem weight_decay_skips_tied_decoders:
  "(\<forall>i < n_hidden_layers sae.
       setL1WeightDecay sae wd opts (Encoder i, ''l1 weight decay'') = Some wd
     \<and> setL2WeightDecay sae wd opts (Encoder i, ''weight decay'') = Some wd)
   \<and> setL1WeightDecay sae wd opts (Outputer, ''l1 weight decay'') = Some wd
   \<and> setL2WeightDecay sae wd opts (Outputer, ''weight decay'') = Some wd
   \<and> (tied_weights sae \<longrightarrow>
        (\<forall>i nm. setL1WeightDecay sae wd opts (Decoder i, nm) = opts (Decoder i, nm)
              \<and> setL2WeightDecay sae wd opts (Decoder i, nm) = opts (Decoder i, nm)))
   \<and> (\<not> tied_weights sae \<longrightarrow>
        (\<forall>i < n_hidden_layers sae.
            setL1WeightDecay sae wd opts (Decoder i, ''l1 weight decay'') = Some wd
          \<and> setL2WeightDecay sae wd opts (Decoder i, ''weight decay'') = Some wd))"
  by (simp add: setL1WeightDecay_encoder setL1WeightDecay_outputer setL1WeightDecay_tied_decoder
        setL1WeightDecay_untied_decoder setL2WeightDecay_encoder setL2WeightDecay_outputer
        setL2WeightDecay_tied_decoder setL2WeightDecay_untied_decoder)

theorem weight_decay_skips_tied_decoders_witness:
  "setL1WeightDecay (the (StackedAutoencoder ''tanh'' True False 4 1 [3] 2 False False))
       (1 / 2) Map.empty (Encoder 0, ''l1 weight decay'') = Some (1 / 2)
   \<and> setL2WeightDecay (the (StackedAutoencoder ''tanh'' True False 4 1 [3] 2 False False))
       (1 / 2) Map.empty (Outputer, ''weight decay'') = Some (1 / 2)
   \<and> setL1WeightDecay (the (StackedAutoencoder ''tanh'' True False 4 1 [3] 2 False False))
       (1 / 2) Map.empty (Decoder 0, ''l1 weight decay'') = None
   \<and> setL2WeightDecay (the (StackedAutoencoder ''tanh'' False False 4 1 [3] 2 False False))
       (1 / 2) Map.empty (Decoder 0, ''weight decay'') = Some (1 / 2)"
proof -
  obtain t where t: "StackedAutoencoder ''tanh'' True False 4 1 [3] 2 False False = Some t"
    by (simp add: StackedAutoencoder_def Let_def)
  obtain u where u: "StackedAutoencoder ''tanh'' False False 4 1 [3] 2 False False = Some u"
    by (simp add: StackedAutoencoder_def Let_def)
  have tf: "tied_weights t" "n_hidden_layers t = 1"
    using t by (auto simp: StackedAutoencoder_def Let_def)
  have uf: "\<not> tied_weights u" "n_hidden_layers u = 1"
    using u by (auto simp: StackedAutoencoder_def Let_def)
  show ?thesis
    unfolding t u option.sel
    using weight_decay_skips_tied_decoders [of t "1 / 2" Map.empty]
          weight_decay_skips_tied_decoders [of u "1 / 2" Map.empty]
    by (simp add: tf uf)
qed


section \<open>Properties of the graph builders\<close>














subsection \<open>The selective machine\<close>

lemma topmost_fold:
  "(\<forall>i<k. pl ! i = 1 \<longrightarrow> int i \<le> fst (fold (\<lambda>i (index_topmost_trained, n_layers_to_train).
             if pl ! i = 1 then (int i, n_layers_to_train + 1)
             else (index_topmost_trained, n_layers_to_train)) [0..<k] (-1, 0::nat)))
   \<and> (fst (fold (\<lambda>i (index_topmost_trained, n_layers_to_train).
             if pl ! i = 1 then (int i, n_layers_to_train + 1)
             else (index_topmost_trained, n_layers_to_train)) [0..<k] (-1, 0::nat)) = -1
      \<or> (\<exists>t<k. fst (fold (\<lambda>i (index_topmost_trained, n_layers_to_train).
             if pl ! i = 1 then (int i, n_layers_to_train + 1)
             else (index_topmost_trained, n_layers_to_train)) [0..<k] (-1, 0::nat)) = int t \<and> pl ! t = 1))"
proof (induction k)
  case 0
  show ?case by simp
next
  case (Suc k)
  then show ?case
    by (auto simp: case_prod_beta less_Suc_eq)
qed

lemma topmost_trained_upper:
  "i < n_hidden_layers sae \<Longrightarrow> pl ! i = 1 \<Longrightarrow> int i \<le> fst (topmost_trained sae pl)"
  using topmost_fold [of "n_hidden_layers sae" pl] by (simp add: topmost_trained_def)

lemma topmost_trained_included:
  "fst (topmost_trained sae pl) = -1
   \<or> (\<exists>t < n_hidden_layers sae. fst (topmost_trained sae pl) = int t \<and> pl ! t = 1)"
  using topmost_fold [of "n_hidden_layers sae" pl] by (simp add: topmost_trained_def)

lemma encoders_up_to_included:
  "AddMachine (Encoder j) \<in> set (AddEncodersUpToIncluded idx aih) \<longleftrightarrow> int j \<le> idx"
  by (auto simp: AddEncodersUpToIncluded_def)

lemma input_handle_up_to_included:
  "AddMachine InputHandle \<in> set (AddEncodersUpToIncluded idx aih) \<longleftrightarrow> aih"
  by (auto simp: AddEncodersUpToIncluded_def)

lemma other_up_to_included:
  "AddMachine (Decoder j) \<notin> set (AddEncodersUpToIncluded idx aih)"
  "AddMachine (Autoencoder j) \<notin> set (AddEncodersUpToIncluded idx aih)"
  by (auto simp: AddEncodersUpToIncluded_def)

lemma selective_encoders:
  "Encoder j \<in> machines_of (selective_machine sae pl) \<longleftrightarrow>
     (if is_noisy sae then int j < fst (topmost_trained sae pl)
      else int j \<le> fst (topmost_trained sae pl))"
  by (auto simp: machines_of_def selective_machine_def Let_def encoders_up_to_included
           split: if_splits)

lemma selective_branches:
  "Decoder i \<in> machines_of (selective_machine sae pl) \<longleftrightarrow>
     \<not> is_noisy sae \<and> i < n_hidden_layers sae \<and> pl ! i = 1"
  "Autoencoder i \<in> machines_of (selective_machine sae pl) \<longleftrightarrow>
     is_noisy sae \<and> i < n_hidden_layers sae \<and> pl ! i = 1"
  by (auto simp: machines_of_def selective_machine_def Let_def other_up_to_included
           split: if_splits)

lemma selective_input_handle:
  "InputHandle \<in> machines_of (selective_machine sae pl) \<longleftrightarrow> is_noisy sae \<and> pl ! 0 = 1"
  by (auto simp: machines_of_def selective_machine_def Let_def input_handle_up_to_included
           split: if_splits)

lemma cm_step_registered:
  "cm_step c g = Inr g' \<Longrightarrow>
   set (registered g') = set (registered g) \<union> (case c of AddMachine m \<Rightarrow> {m} | _ \<Rightarrow> {})"
  by (cases c) (auto simp: registered_def split: if_splits)

lemma cm_run_registered:
  "cm_run ops g = Inr g' \<Longrightarrow> set (registered g') = set (registered g) \<union> machines_of ops"
proof (induction ops arbitrary: g)
  case Nil
  then show ?case by (simp add: machines_of_def)
next
  case (Cons c ops)
  from Cons.prems obtain g1 where s: "cm_step c g = Inr g1" and r: "cm_run ops g1 = Inr g'"
    by (auto split: sum.splits)
  have "machines_of (c # ops) = (case c of AddMachine m \<Rightarrow> {m} | _ \<Rightarrow> {}) \<union> machines_of ops"
    by (cases c) (auto simp: machines_of_def)
  then show ?case
    using Cons.IH [OF r] cm_step_registered [OF s] by auto
qed

lemma included_at_or_above:
  "(\<exists>i. j \<le> i \<and> i < n_hidden_layers sae \<and> pl ! i = 1) \<longleftrightarrow> int j \<le> fst (topmost_trained sae pl)"
proof
  assume "\<exists>i. j \<le> i \<and> i < n_hidden_layers sae \<and> pl ! i = 1"
  then obtain i where i: "j \<le> i" "i < n_hidden_layers sae" "pl ! i = 1" by blast
  from topmost_trained_upper [OF i(2,3)] i(1) show "int j \<le> fst (topmost_trained sae pl)"
    by simp
next
  assume a: "int j \<le> fst (topmost_trained sae pl)"
  from topmost_trained_included [of sae pl] a
  obtain t where "t < n_hidden_layers sae" "fst (topmost_trained sae pl) = int t" "pl ! t = 1"
    by auto
  with a show "\<exists>i. j \<le> i \<and> i < n_hidden_layers sae \<and> pl ! i = 1"
    by (intro exI [of _ t]) simp
qed

lemma included_above:
  "(\<exists>i. j < i \<and> i < n_hidden_layers sae \<and> pl ! i = 1) \<longleftrightarrow> int j < fst (topmost_trained sae pl)"
  using included_at_or_above [of "Suc j" sae pl] by (auto simp: Suc_le_eq)

text \<open>
  C7. The machine \<open>TrainSelectiveUnsup\<close> builds from an inclusion list holds an encoder
  only if some included layer lies at or above it (strictly above it in noisy mode,
  where the included layer's own encoder is inside its autoencoder); it holds the
  reconstruction branch of a layer (its decoder, or in noisy mode its autoencoder)
  exactly when that layer is included; and in noisy mode it holds the input handle
  exactly when layer 0 is included, otherwise never. Whenever the build succeeds, the
  modules registered in the graph are exactly these.
\<close>

theorem selective_machine_modules:
  assumes "n_hidden_layers sae \<le> length pretrain_list" and "0 < n_hidden_layers sae"
  shows "(Encoder j \<in> machines_of (selective_machine sae pretrain_list)
            \<longrightarrow> (\<exists>i. j \<le> i \<and> i < n_hidden_layers sae \<and> pretrain_list ! i = 1))
       \<and> (Encoder j \<in> machines_of (selective_machine sae pretrain_list)
            \<longleftrightarrow> (if is_noisy sae
                 then \<exists>i. j < i \<and> i < n_hidden_layers sae \<and> pretrain_list ! i = 1
                 else \<exists>i. j \<le> i \<and> i < n_hidden_layers sae \<and> pretrain_list ! i = 1))
       \<and> (Decoder j \<in> machines_of (selective_machine sae pretrain_list)
            \<longleftrightarrow> \<not> is_noisy sae \<and> j < n_hidden_layers sae \<and> pretrain_list ! j = 1)
       \<and> (Autoencoder j \<in> machines_of (selective_machine sae pretrain_list)
            \<longleftrightarrow> is_noisy sae \<and> j < n_hidden_layers sae \<and> pretrain_list ! j = 1)
       \<and> (InputHandle \<in> machines_of (selective_machine sae pretrain_list)
            \<longleftrightarrow> is_noisy sae \<and> pretrain_list ! 0 = 1)
       \<and> (\<forall>g. cm_run (selective_machine sae pretrain_list) ConnectedMachine = Inr g
            \<longrightarrow> set (registered g) = machines_of (selective_machine sae pretrain_list))"
proof -
  have enc: "Encoder j \<in> machines_of (selective_machine sae pretrain_list)
            \<longleftrightarrow> (if is_noisy sae
                 then \<exists>i. j < i \<and> i < n_hidden_layers sae \<and> pretrain_list ! i = 1
                 else \<exists>i. j \<le> i \<and> i < n_hidden_layers sae \<and> pretrain_list ! i = 1)"
    by (simp add: selective_encoders included_at_or_above included_above)
  have up: "Encoder j \<in> machines_of (selective_machine sae pretrain_list)
            \<longrightarrow> (\<exists>i. j \<le> i \<and> i < n_hidden_layers sae \<and> pretrain_list ! i = 1)"
    unfolding enc by (auto intro: less_imp_le)
  have reg: "\<forall>g. cm_run (selective_machine sae pretrain_list) ConnectedMachine = Inr g
            \<longrightarrow> set (registered g) = machines_of (selective_machine sae pretrain_list)"
  proof (intro allI impI)
    fix g
    assume "cm_run (selective_machine sae pretrain_list) ConnectedMachine = Inr g"
    from cm_run_registered [OF this]
    show "set (registered g) = machines_of (selective_machine sae pretrain_list)"
      by (simp add: registered_def ConnectedMachine_def)
  qed
  show ?thesis
    using enc up reg selective_branches [of j sae pretrain_list]
      selective_input_handle [of sae pretrain_list]
    by blast
qed

theorem selective_machine_modules_witness:
  "Encoder 2 \<notin> machines_of (selective_machine
       (the (StackedAutoencoder ''tanh'' False False 4 3 [3, 3, 3] 2 False False)) [1, 1, 0])
   \<and> Encoder 1 \<in> machines_of (selective_machine
       (the (StackedAutoencoder ''tanh'' False False 4 3 [3, 3, 3] 2 False False)) [1, 1, 0])
   \<and> Decoder 1 \<in> machines_of (selective_machine
       (the (StackedAutoencoder ''tanh'' False False 4 3 [3, 3, 3] 2 False False)) [1, 1, 0])
   \<and> Decoder 2 \<notin> machines_of (selective_machine
       (the (StackedAutoencoder ''tanh'' False False 4 3 [3, 3, 3] 2 False False)) [1, 1, 0])
   \<and> InputHandle \<notin> machines_of (selective_machine
       (the (StackedAutoencoder ''tanh'' False False 4 3 [3, 3, 3] 2 False False)) [1, 1, 0])"
proof -
  obtain t where t: "StackedAutoencoder ''tanh'' False False 4 3 [3, 3, 3] 2 False False = Some t"
    by (simp add: StackedAutoencoder_def Let_def)
  have tf: "\<not> is_noisy t" "n_hidden_layers t = 3"
    using t by (auto simp: StackedAutoencoder_def Let_def)
  have len: "n_hidden_layers t \<le> length [1, 1, 0 :: int]" and pos: "0 < n_hidden_layers t"
    using tf by simp_all
  have no: "\<not> (\<exists>i. 2 \<le> i \<and> i < n_hidden_layers t \<and> [1, 1, 0 :: int] ! i = 1)"
  proof
    assume "\<exists>i. 2 \<le> i \<and> i < n_hidden_layers t \<and> [1, 1, 0 :: int] ! i = 1"
    then obtain i where "2 \<le> i" "i < 3" "[1, 1, 0 :: int] ! i = 1" using tf by auto
    moreover from this have "i = 2" by simp
    ultimately show False by simp
  qed
  have yes: "\<exists>i. 1 \<le> i \<and> i < n_hidden_layers t \<and> [1, 1, 0 :: int] ! i = 1"
    using tf by (intro exI [of _ 1]) simp
  show ?thesis
    unfolding t option.sel
    using selective_machine_modules [OF len pos, of 2]
          selective_machine_modules [OF len pos, of 1] no yes tf
    by simp
qed


section \<open>Properties of the trainer\<close>

subsection \<open>Top-K backward\<close>

text \<open>
  With two or more hidden layers the loop gives every encoder it visits the output of
  the encoder below (the raw input for encoder 0) and the gradient of the module above
  (the outputer for the last encoder), from the last encoder down to encoder
  \<open>n - k + 1\<close>.
\<close>

lemma topK_backward_two_or_more_layers:
  "2 \<le> n \<Longrightarrow> i \<le> n - 1 \<Longrightarrow>
     topK_backward n k i =
       map (\<lambda>j. Backward (EncoderM j)
                  (if j = 0 then DataInputs else Outputs (EncoderM (j - 1)))
                  (if j = n - 1 then Beta OutputerM else Beta (EncoderM (j + 1))))
           (rev [n - k + 1..i])"
proof (induction n k i rule: topK_backward.induct)
  case (1 n k i)
  show ?case
  proof (cases "i > n - k")
    case True
    have up: "[n - k + 1..i] = [n - k + 1..i - 1] @ [i]"
      using True by (simp add: upto_rec2)
    have ih: "topK_backward n k (i - 1) =
       map (\<lambda>j. Backward (EncoderM j)
                  (if j = 0 then DataInputs else Outputs (EncoderM (j - 1)))
                  (if j = n - 1 then Beta OutputerM else Beta (EncoderM (j + 1))))
           (rev [n - k + 1..i - 1])"
      using "1.IH" [OF True] "1.prems" by simp
    have "i \<noteq> 0 \<or> i \<noteq> n - 1" using "1.prems" by arith
    then show ?thesis
      using True "1.prems"
      by (subst topK_backward.simps) (auto simp: up ih)
  next
    case False
    then show ?thesis
      by (subst topK_backward.simps) simp
  qed
qed

text \<open>
  C4. With one hidden layer and \<open>top_k_layers = 2\<close>, which the assertion of
  \<open>TrainSupervisedTopKLayers\<close> admits, the only encoder is both the last and the
  first. The loop tests \<open>i == n_hidden_layers - 1\<close> before \<open>i == 0\<close>, so encoder 0 is
  backwarded with the output of \<open>encoders[-1]\<close>, not with the raw input.
\<close>

theorem topK_single_hidden_layer:
  "fpropbprop (the (StackedAutoencoder ''tanh'' False False 4 1 [3] 2 False False))
     ((StackedAutoencoderTrainer (the (StackedAutoencoder ''tanh'' False False 4 1 [3] 2 False False))
          False (\<lambda>_. False) (\<lambda>_ _. Fin 0))
        \<lparr>topK_training := True, topKlayers := 2, machine := Sae, criterion := SupCriterion\<rparr>)
   = [Forward Sae DataInputs,
      CriterionForward SupCriterion (Outputs Sae),
      CriterionBackward SupCriterion (Outputs Sae) NoTarget,
      Backward OutputerM (Outputs (EncoderM 0)) (CriterionBeta SupCriterion),
      Backward (EncoderM 0) (Outputs (EncoderM (- 1))) (Beta OutputerM)]"
  by (simp add: StackedAutoencoder_def Let_def fpropbprop_def StackedAutoencoderTrainer_def
        topK_backward.simps [of 1 2 0] topK_backward.simps [of 1 2 "- 1"])


subsection \<open>Training phases\<close>

lemma bind_err_Inr: "bind_err m f = Inr y \<longleftrightarrow> (\<exists>x. m = Inr x \<and> f x = Inr y)"
  by (cases m) (auto simp: bind_err_def)

lemma for_each_append:
  "for_each f (xs @ ys) s = bind_err (for_each f xs s) (for_each f ys)"
  by (induction xs arbitrary: s) (auto simp: bind_err_def split: sum.splits)

lemma for_each_last:
  assumes "for_each f (xs @ [x]) s = Inr s'"
  shows "\<exists>s1. f x s1 = Inr s'"
  using assms by (auto simp: for_each_append bind_err_Inr)

lemma weights_fold:
  "fold (\<lambda>i s'. s'\<lparr>criterions_weights := (criterions_weights s')[1 + i := w]\<rparr>) [0..<k] s
   = s\<lparr>criterions_weights :=
         map (\<lambda>j. if 1 \<le> j \<and> j \<le> k then w else criterions_weights s ! j)
             [0..<length (criterions_weights s)]\<rparr>"
proof (induction k)
  case 0
  have "map (\<lambda>j. if 1 \<le> j \<and> j \<le> 0 then w else criterions_weights s ! j)
            [0..<length (criterions_weights s)] = criterions_weights s"
    by (rule nth_equalityI) auto
  then show ?case by simp
next
  case (Suc k)
  have "(map (\<lambda>j. if 1 \<le> j \<and> j \<le> k then w else criterions_weights s ! j)
             [0..<length (criterions_weights s)])[Suc k := w]
        = map (\<lambda>j. if 1 \<le> j \<and> j \<le> Suc k then w else criterions_weights s ! j)
             [0..<length (criterions_weights s)]"
    by (rule nth_equalityI) (auto simp: nth_list_update le_Suc_eq)
  then show ?case
    using Suc by simp
qed

lemma set_unsup_weights_eq:
  "set_unsup_weights sae w s
   = s\<lparr>criterions_weights :=
         map (\<lambda>j. if 1 \<le> j \<and> j \<le> n_hidden_layers sae then w else criterions_weights s ! j)
             [0..<length (criterions_weights s)]\<rparr>"
  unfolding set_unsup_weights_def by (rule weights_fold)

lemma set_unsup_weights_full:
  assumes "length (criterions_weights s) = n_hidden_layers sae + 1"
  shows "criterions_weights (set_unsup_weights sae w s)
         = hd (criterions_weights s) # replicate (n_hidden_layers sae) w"
proof -
  let ?n = "n_hidden_layers sae"
  have ne: "criterions_weights s \<noteq> []" using assms by auto
  have "map (\<lambda>j. if 1 \<le> j \<and> j \<le> ?n then w else criterions_weights s ! j) [0..<?n + 1]
        = hd (criterions_weights s) # replicate ?n w"
  proof (rule nth_equalityI)
    show "length (map (\<lambda>j. if 1 \<le> j \<and> j \<le> ?n then w else criterions_weights s ! j) [0..<?n + 1])
          = length (hd (criterions_weights s) # replicate ?n w)"
      by simp
  next
    fix i
    assume "i < length (map (\<lambda>j. if 1 \<le> j \<and> j \<le> ?n then w else criterions_weights s ! j) [0..<?n + 1])"
    then have i: "i < ?n + 1" by simp
    then have "map (\<lambda>j. if 1 \<le> j \<and> j \<le> ?n then w else criterions_weights s ! j) [0..<?n + 1] ! i
               = (if 1 \<le> i \<and> i \<le> ?n then w else criterions_weights s ! i)"
      by (simp del: upt_Suc)
    also have "\<dots> = (hd (criterions_weights s) # replicate ?n w) ! i"
      using i ne by (cases i) (simp_all add: hd_conv_nth)
    finally show "map (\<lambda>j. if 1 \<le> j \<and> j \<le> ?n then w else criterions_weights s ! j) [0..<?n + 1] ! i
               = (hd (criterions_weights s) # replicate ?n w) ! i" .
  qed
  then show ?thesis
    by (simp add: set_unsup_weights_eq assms del: upt_Suc)
qed

lemma TrainSupUnsup_setup_weights:
  assumes "length (criterions_weights s) = n_hidden_layers sae + 1"
  shows "criterions_weights (fst (TrainSupUnsup_setup sae d ms w s))
         = Fin 1 # replicate (n_hidden_layers sae) (Fin w)"
proof -
  let ?s1 = "s\<lparr>sup_dataset := Some d,
                criterions_weights := (criterions_weights s)[0 := Fin 1]\<rparr>"
  have len: "length (criterions_weights ?s1) = n_hidden_layers sae + 1"
    using assms by simp
  have hd: "hd (criterions_weights ?s1) = Fin 1"
    using assms by (cases "criterions_weights s") simp_all
  have "criterions_weights (set_unsup_weights sae (Fin w) ?s1)
          = Fin 1 # replicate (n_hidden_layers sae) (Fin w)"
    using set_unsup_weights_full [OF len, of "Fin w"] hd by simp
  then show ?thesis
    by (simp add: TrainSupUnsup_setup_def Let_def)
qed

lemma TrainSupUnsup_setup_fields:
  "machine (fst (TrainSupUnsup_setup sae d ms w s)) = SupUnsup"
  "criterion (fst (TrainSupUnsup_setup sae d ms w s))
     = ConcatCriterion SupUnsup (1 + n_hidden_layers sae)
         (criterion s # map UnsupCriterion [0..<n_hidden_layers sae]) (WeightsAt 0)"
  "partial_backprop (fst (TrainSupUnsup_setup sae d ms w s)) = partial_backprop s"
  by (simp_all add: TrainSupUnsup_setup_def Let_def set_unsup_weights_eq)

lemma TrainSupUnsup_calls_train:
  "TrainSupUnsup tr sae d ms w s
   = bind_err (tr (UnsupDataset 0) (snd (TrainSupUnsup_setup sae d ms w s))
                  (fst (TrainSupUnsup_setup sae d ms w s)))
       (\<lambda>s2. Inr (s2\<lparr>machine := Sae, criterion := SupCriterion\<rparr>))"
  by (simp add: TrainSupUnsup_def case_prod_beta)

lemma TrainSupUnsup_restores:
  assumes "TrainSupUnsup tr sae d ms w s = Inr s'"
  shows "machine s' = Sae \<and> criterion s' = SupCriterion"
  using assms by (auto simp: TrainSupUnsup_calls_train bind_err_Inr)

lemma TrainUnsup_restores:
  assumes "TrainUnsup tr sae d ms s = Inr s'"
  shows "machine s' = Sae \<and> criterion s' = SupCriterion \<and> \<not> partial_backprop s' Outputer"
  using assms
  by (auto simp: TrainUnsup_def bind_err_Inr setPartialBackprop_def dest!: TrainSupUnsup_restores)

lemma TrainUnsupNotOutput_restores:
  assumes "TrainUnsupNotOutput tr sae s = Inr s'"
  shows "machine s' = Sae \<and> criterion s' = SupCriterion"
  using assms by (auto simp: TrainUnsupNotOutput_def Let_def bind_err_Inr)

lemma TrainUnsupLayer_restores:
  assumes "TrainUnsupLayer tr s = Inr s'"
  shows "machine s' = Sae \<and> criterion s' = SupCriterion"
  using assms by (auto simp: TrainUnsupLayer_def Let_def bind_err_Inr split: if_splits)

lemma TrainUnsupLayerwise_restores:
  assumes "TrainUnsupLayerwise tr sae s = Inr s'" "0 < n_hidden_layers sae"
  shows "machine s' = Sae \<and> criterion s' = SupCriterion \<and> \<not> layerwise_training s'"
proof -
  obtain n where n: "n_hidden_layers sae = Suc n"
    using assms(2) by (cases "n_hidden_layers sae") auto
  from assms(1) obtain s2 where
    s2: "for_each (\<lambda>i s'. TrainUnsupLayer tr (s'\<lparr>layerwise_layer := i\<rparr>)) ([0..<n] @ [n])
           (s\<lparr>layerwise_training := True\<rparr>) = Inr s2"
    and s': "s' = s2\<lparr>layerwise_training := False\<rparr>"
    by (auto simp: TrainUnsupLayerwise_def bind_err_Inr n)
  from for_each_last [OF s2] obtain s1 where
    "TrainUnsupLayer tr (s1\<lparr>layerwise_layer := n\<rparr>) = Inr s2" by blast
  from TrainUnsupLayer_restores [OF this] show ?thesis
    by (simp add: s')
qed

lemma reset_flags_fold:
  "machine (fold (\<lambda>i s'. let s1 = setPartialBackprop (Encoder i) False s'
                 in if nsy then setPartialBackprop (Autoencoder i) False s1 else s1) xs s) = machine s"
  "criterion (fold (\<lambda>i s'. let s1 = setPartialBackprop (Encoder i) False s'
                 in if nsy then setPartialBackprop (Autoencoder i) False s1 else s1) xs s) = criterion s"
  "partial_backprop (fold (\<lambda>i s'. let s1 = setPartialBackprop (Encoder i) False s'
                 in if nsy then setPartialBackprop (Autoencoder i) False s1 else s1) xs s) m
   = (if (\<exists>i \<in> set xs. m = Encoder i \<or> (nsy \<and> m = Autoencoder i)) then False
      else partial_backprop s m)"
  by (induction xs arbitrary: s) (auto simp: setPartialBackprop_def Let_def)

lemma reset_flags_result:
  "machine (reset_flags sae s) = machine s"
  "criterion (reset_flags sae s) = criterion s"
  "i < n_hidden_layers sae \<Longrightarrow> \<not> partial_backprop (reset_flags sae s) (Encoder i)"
  "i < n_hidden_layers sae \<Longrightarrow> is_noisy sae \<Longrightarrow> \<not> partial_backprop (reset_flags sae s) (Autoencoder i)"
  "partial_backprop (reset_flags sae s) Outputer = partial_backprop s Outputer"
  "\<not> is_noisy sae \<Longrightarrow> partial_backprop (reset_flags sae s) (Autoencoder i) = partial_backprop s (Autoencoder i)"
  unfolding reset_flags_def reset_flags_fold by auto

lemma TrainSelectiveUnsup_restores:
  assumes "TrainSelectiveUnsup tr sae pl pb s = Inr s'"
  shows "machine s' = Sae \<and> criterion s' = SupCriterion
       \<and> (\<forall>i < n_hidden_layers sae. \<not> partial_backprop s' (Encoder i))
       \<and> (is_noisy sae \<longrightarrow> (\<forall>i < n_hidden_layers sae. \<not> partial_backprop s' (Autoencoder i)))"
  using assms
  by (auto simp: TrainSelectiveUnsup_def Let_def bind_err_Inr reset_flags_result
           split: if_splits sum.splits)

text \<open>
  C5. Before \<open>TrainSupUnsup\<close> calls \<open>train\<close>, the weight array is \<open>1.0\<close> for the
  first criterion followed by the caller's scalar for each of the \<open>N\<close> unsupervised
  criteria, and the active criterion is the concatenation, over that array, of the
  criterion that was active (the supervised one between phases) and the \<open>N\<close>
  unsupervised criteria. \<open>TrainUnsup\<close> runs the same phase with weight \<open>1.0\<close> and with
  the outputer's partial-backprop flag set in the state it hands to \<open>train\<close>; when it
  returns the flag is off again.
\<close>

theorem joint_phase_weights_and_outputer_flag:
  assumes "length (criterions_weights s) = n_hidden_layers sae + 1"
  shows "criterions_weights (fst (TrainSupUnsup_setup sae d ms w s))
           = Fin 1 # replicate (n_hidden_layers sae) (Fin w)
       \<and> criterion (fst (TrainSupUnsup_setup sae d ms w s))
           = ConcatCriterion SupUnsup (1 + n_hidden_layers sae)
               (criterion s # map UnsupCriterion [0..<n_hidden_layers sae]) (WeightsAt 0)
       \<and> machine (fst (TrainSupUnsup_setup sae d ms w s)) = SupUnsup
       \<and> (\<forall>tr. TrainSupUnsup tr sae d ms w s
                = bind_err (tr (UnsupDataset 0) (snd (TrainSupUnsup_setup sae d ms w s))
                               (fst (TrainSupUnsup_setup sae d ms w s)))
                    (\<lambda>s2. Inr (s2\<lparr>machine := Sae, criterion := SupCriterion\<rparr>)))
       \<and> partial_backprop (fst (TrainSupUnsup_setup sae d ms 1 (TrainUnsup_setup s))) Outputer
       \<and> criterions_weights (fst (TrainSupUnsup_setup sae d ms 1 (TrainUnsup_setup s)))
           = Fin 1 # replicate (n_hidden_layers sae) (Fin 1)
       \<and> (\<forall>tr. TrainUnsup tr sae d ms s
                = bind_err (tr (UnsupDataset 0)
                               (snd (TrainSupUnsup_setup sae d ms 1 (TrainUnsup_setup s)))
                               (fst (TrainSupUnsup_setup sae d ms 1 (TrainUnsup_setup s))))
                    (\<lambda>s2. Inr (setPartialBackprop Outputer False
                                  (s2\<lparr>machine := Sae, criterion := SupCriterion\<rparr>))))
       \<and> (\<forall>tr s'. TrainUnsup tr sae d ms s = Inr s' \<longrightarrow> \<not> partial_backprop s' Outputer)"
proof -
  have len: "length (criterions_weights (TrainUnsup_setup s)) = n_hidden_layers sae + 1"
    using assms by (simp add: TrainUnsup_setup_def ClearSequence_def setPartialBackprop_def)
  have flag: "partial_backprop (fst (TrainSupUnsup_setup sae d ms 1 (TrainUnsup_setup s))) Outputer"
    by (simp add: TrainSupUnsup_setup_fields TrainUnsup_setup_def ClearSequence_def
          setPartialBackprop_def)
  have call: "TrainUnsup tr sae d ms s
                = bind_err (tr (UnsupDataset 0)
                               (snd (TrainSupUnsup_setup sae d ms 1 (TrainUnsup_setup s)))
                               (fst (TrainSupUnsup_setup sae d ms 1 (TrainUnsup_setup s))))
                    (\<lambda>s2. Inr (setPartialBackprop Outputer False
                                  (s2\<lparr>machine := Sae, criterion := SupCriterion\<rparr>)))" for tr
    by (simp add: TrainUnsup_def TrainSupUnsup_calls_train bind_err_def split: sum.splits)
  have after: "\<not> partial_backprop s' Outputer" if "TrainUnsup tr sae d ms s = Inr s'" for tr s'
    using TrainUnsup_restores [OF that] by simp
  show ?thesis
    using TrainSupUnsup_setup_weights [OF assms, of d ms w]
      TrainSupUnsup_setup_weights [OF len, of d ms 1]
      TrainSupUnsup_setup_fields(1,2) [of sae d ms w s]
      TrainSupUnsup_calls_train [of _ sae d ms w s] flag call after
    by blast
qed

theorem joint_phase_weights_and_outputer_flag_witness:
  "criterions_weights (fst (TrainSupUnsup_setup
       (the (StackedAutoencoder ''tanh'' False False 4 2 [3, 3] 2 False False))
       (TrainData 0) [] (1 / 4)
       (StackedAutoencoderTrainer
          (the (StackedAutoencoder ''tanh'' False False 4 2 [3, 3] 2 False False))
          False (\<lambda>_. False) (\<lambda>_ _. Fin 0))))
     = [Fin 1, Fin (1 / 4), Fin (1 / 4)]
   \<and> partial_backprop (fst (TrainSupUnsup_setup
       (the (StackedAutoencoder ''tanh'' False False 4 2 [3, 3] 2 False False))
       (TrainData 0) [] 1
       (TrainUnsup_setup (StackedAutoencoderTrainer
          (the (StackedAutoencoder ''tanh'' False False 4 2 [3, 3] 2 False False))
          False (\<lambda>_. False) (\<lambda>_ _. Fin 0))))) Outputer"
proof -
  obtain t where t: "StackedAutoencoder ''tanh'' False False 4 2 [3, 3] 2 False False = Some t"
    by (simp add: StackedAutoencoder_def Let_def)
  have n: "n_hidden_layers t = 2"
    using t by (auto simp: StackedAutoencoder_def Let_def)
  have len: "length (criterions_weights (StackedAutoencoderTrainer t False (\<lambda>_. False) (\<lambda>_ _. Fin 0)))
             = n_hidden_layers t + 1"
    by (simp add: StackedAutoencoderTrainer_def)
  show ?thesis
    unfolding t option.sel
    using joint_phase_weights_and_outputer_flag [OF len, of "TrainData 0" "[]" "1 / 4"]
    by (simp add: n numeral_2_eq_2)
qed

lemma TrainUnsupLayerwise_flag:
  assumes "TrainUnsupLayerwise tr sae s = Inr s'"
  shows "\<not> layerwise_training s'"
  using assms by (auto simp: TrainUnsupLayerwise_def bind_err_Inr)

lemma TrainUnsupLayerwise_no_layers:
  assumes "TrainUnsupLayerwise tr sae s = Inr s'" "n_hidden_layers sae = 0"
  shows "machine s' = machine s \<and> criterion s' = criterion s"
  using assms by (auto simp: TrainUnsupLayerwise_def bind_err_Inr)

lemma selective_layerwise_loop:
  assumes "for_each (\<lambda>i s'. if pl ! i = 1 then TrainUnsupLayer tr (s'\<lparr>layerwise_layer := i\<rparr>)
                            else Inr s') xs s = Inr s'"
    and "(\<exists>i \<in> set xs. pl ! i = 1) \<or> (machine s = Sae \<and> criterion s = SupCriterion)"
  shows "machine s' = Sae \<and> criterion s' = SupCriterion"
  using assms
proof (induction xs arbitrary: s)
  case Nil
  then show ?case by simp
next
  case (Cons x xs)
  let ?f = "\<lambda>i s'. if pl ! i = 1 then TrainUnsupLayer tr (s'\<lparr>layerwise_layer := i\<rparr>) else Inr s'"
  from Cons.prems(1) obtain s1 where 1: "?f x s = Inr s1" and 2: "for_each ?f xs s1 = Inr s'"
    by (auto simp: bind_err_Inr)
  show ?case
  proof (cases "pl ! x = 1")
    case True
    with 1 have "machine s1 = Sae \<and> criterion s1 = SupCriterion"
      by (auto dest: TrainUnsupLayer_restores)
    then show ?thesis by (intro Cons.IH [OF 2]) simp
  next
    case False
    with 1 have "s1 = s" by simp
    with False Cons.prems(2)
    have "(\<exists>i \<in> set xs. pl ! i = 1) \<or> (machine s1 = Sae \<and> criterion s1 = SupCriterion)"
      by auto
    then show ?thesis by (rule Cons.IH [OF 2])
  qed
qed

lemma TrainSelectiveUnsupLayerwise_restores:
  assumes "TrainSelectiveUnsupLayerwise tr sae pl s = Inr s'"
  shows "\<not> layerwise_training s'"
    and "(\<exists>i < n_hidden_layers sae. pl ! i = 1) \<or> (machine s = Sae \<and> criterion s = SupCriterion)
         \<Longrightarrow> machine s' = Sae \<and> criterion s' = SupCriterion"
proof -
  let ?f = "\<lambda>i s'. if pl ! i = 1 then TrainUnsupLayer tr (s'\<lparr>layerwise_layer := i\<rparr>) else Inr s'"
  from assms obtain s2 where
    1: "for_each ?f [0..<n_hidden_layers sae] (s\<lparr>layerwise_training := True\<rparr>) = Inr s2"
    and 2: "s' = s2\<lparr>layerwise_training := False\<rparr>"
    by (auto simp: TrainSelectiveUnsupLayerwise_def bind_err_Inr split: if_splits)
  show "\<not> layerwise_training s'" by (simp add: 2)
  assume "(\<exists>i < n_hidden_layers sae. pl ! i = 1) \<or> (machine s = Sae \<and> criterion s = SupCriterion)"
  then have "(\<exists>i \<in> set [0..<n_hidden_layers sae]. pl ! i = 1)
             \<or> (machine (s\<lparr>layerwise_training := True\<rparr>) = Sae
                \<and> criterion (s\<lparr>layerwise_training := True\<rparr>) = SupCriterion)"
    by auto
  from selective_layerwise_loop [OF 1 this]
  show "machine s' = Sae \<and> criterion s' = SupCriterion" by (simp add: 2)
qed

text \<open>
  The phases return when \<open>train\<close> does. The layerwise ones call \<open>train\<close> once per
  layer and assert \<open>layerwise_training\<close> before each call, so \<open>train\<close> has to leave
  that flag as it finds it.
\<close>

lemma for_each_returns:
  assumes "\<And>x s. x \<in> set xs \<Longrightarrow> I s \<Longrightarrow> \<exists>s'. f x s = Inr s' \<and> I s'"
  shows "I s \<Longrightarrow> \<exists>s'. for_each f xs s = Inr s' \<and> I s'"
  using assms
proof (induction xs arbitrary: s)
  case Nil
  then show ?case by simp
next
  case (Cons x xs)
  from Cons.prems(2) [of x s] Cons.prems(1) obtain s1 where 1: "f x s = Inr s1" "I s1"
    by auto
  have "\<exists>s'. for_each f xs s1 = Inr s' \<and> I s'"
    by (rule Cons.IH [OF 1(2)]) (rule Cons.prems(2), simp_all)
  with 1 show ?case by (simp add: bind_err_def)
qed

lemma TrainUnsupLayer_completes:
  assumes tr: "\<forall>d ms a. \<exists>b. tr d ms a = Inr b \<and> layerwise_training b = layerwise_training a"
    and "layerwise_training s"
  shows "\<exists>s'. TrainUnsupLayer tr s = Inr s' \<and> layerwise_training s'"
proof -
  let ?s1 = "s\<lparr>machine := Mesd (layerwise_layer s), criterion := UnsupCriterion (layerwise_layer s)\<rparr>"
  from tr obtain b where
    "tr (UnsupDataset (layerwise_layer s)) [UnsupMeasurer (layerwise_layer s)] ?s1 = Inr b"
    "layerwise_training b = layerwise_training ?s1"
    by blast
  with assms(2) show ?thesis
    by (simp add: TrainUnsupLayer_def Let_def bind_err_def)
qed

lemma TrainUnsupLayerwise_completes:
  assumes tr: "\<forall>d ms a. \<exists>b. tr d ms a = Inr b \<and> layerwise_training b = layerwise_training a"
  shows "\<exists>s'. TrainUnsupLayerwise tr sae s = Inr s'"
proof -
  let ?f = "\<lambda>i s'. TrainUnsupLayer tr (s'\<lparr>layerwise_layer := i\<rparr>)"
  have "\<exists>s'. ?f x a = Inr s' \<and> layerwise_training s'" if "layerwise_training a" for x a
    using TrainUnsupLayer_completes [OF tr, of "a\<lparr>layerwise_layer := x\<rparr>"] that by simp
  from for_each_returns [of "[0..<n_hidden_layers sae]" layerwise_training ?f
         "s\<lparr>layerwise_training := True\<rparr>", OF this]
  obtain s2 where "for_each ?f [0..<n_hidden_layers sae] (s\<lparr>layerwise_training := True\<rparr>) = Inr s2"
    by auto
  then show ?thesis by (simp add: TrainUnsupLayerwise_def bind_err_def)
qed

lemma TrainSelectiveUnsupLayerwise_completes:
  assumes tr: "\<forall>d ms a. \<exists>b. tr d ms a = Inr b \<and> layerwise_training b = layerwise_training a"
    and "n_hidden_layers sae \<le> length pl"
  shows "\<exists>s'. TrainSelectiveUnsupLayerwise tr sae pl s = Inr s'"
proof -
  let ?f = "\<lambda>i s'. if pl ! i = 1 then TrainUnsupLayer tr (s'\<lparr>layerwise_layer := i\<rparr>) else Inr s'"
  have "\<exists>s'. ?f x a = Inr s' \<and> layerwise_training s'" if "layerwise_training a" for x a
    using TrainUnsupLayer_completes [OF tr, of "a\<lparr>layerwise_layer := x\<rparr>"] that by simp
  from for_each_returns [of "[0..<n_hidden_layers sae]" layerwise_training ?f
         "s\<lparr>layerwise_training := True\<rparr>", OF this]
  obtain s2 where "for_each ?f [0..<n_hidden_layers sae] (s\<lparr>layerwise_training := True\<rparr>) = Inr s2"
    by auto
  with assms(2) show ?thesis by (simp add: TrainSelectiveUnsupLayerwise_def bind_err_def)
qed

lemma TrainSelectiveUnsup_completes:
  assumes tr: "\<forall>d ms a. \<exists>b. tr d ms a = Inr b \<and> layerwise_training b = layerwise_training a"
    and "n_hidden_layers sae \<le> length pl" "is_noisy sae \<longrightarrow> pl \<noteq> []"
    and "cm_run (selective_machine sae pl) ConnectedMachine = Inr g"
  shows "\<exists>s'. TrainSelectiveUnsup tr sae pl pb s = Inr s'"
proof -
  let ?ids = "filter (\<lambda>i. pl ! i = 1) [0..<n_hidden_layers sae]"
  let ?s2 = "(selective_flags sae pl pb s)
               \<lparr>machine := Selective (selective_machine sae pl),
                criterion := ConcatCriterion (Selective (selective_machine sae pl))
                               (snd (topmost_trained sae pl)) (map UnsupCriterion ?ids) NoWeights\<rparr>"
  from tr obtain b where
    "tr (UnsupDataset 0) (map (\<lambda>i. FakeDataMeasurer (UnsupDataset 0) (UnsupMeasurer i)) ?ids) ?s2
     = Inr b"
    by blast
  with assms(2-4) show ?thesis
    by (auto simp: TrainSelectiveUnsup_def Let_def bind_err_def)
qed

lemma TrainUnsupNotOutput_completes:
  assumes tr: "\<forall>d ms a. \<exists>b. tr d ms a = Inr b \<and> layerwise_training b = layerwise_training a"
  shows "\<exists>s'. TrainUnsupNotOutput tr sae s = Inr s'"
proof -
  let ?s2 = "(set_unsup_weights sae (Fin 1) s)
               \<lparr>machine := Unsup,
                criterion := ConcatCriterion Unsup (n_hidden_layers sae)
                               (map UnsupCriterion [0..<n_hidden_layers sae]) (WeightsAt 1)\<rparr>"
  from tr obtain b where "tr (UnsupDataset 0) (unsup_fake_measurers sae) ?s2 = Inr b"
    by blast
  then show ?thesis
    by (simp add: TrainUnsupNotOutput_def Let_def bind_err_def)
qed

lemma TrainSupUnsup_completes:
  assumes tr: "\<forall>d ms a. \<exists>b. tr d ms a = Inr b \<and> layerwise_training b = layerwise_training a"
  shows "\<exists>s'. TrainSupUnsup tr sae d ms w s = Inr s'"
proof -
  from tr obtain b where
    "tr (UnsupDataset 0) (snd (TrainSupUnsup_setup sae d ms w s))
        (fst (TrainSupUnsup_setup sae d ms w s)) = Inr b"
    by blast
  then show ?thesis
    by (simp add: TrainSupUnsup_calls_train bind_err_def)
qed

lemma TrainUnsup_completes:
  assumes tr: "\<forall>d ms a. \<exists>b. tr d ms a = Inr b \<and> layerwise_training b = layerwise_training a"
  shows "\<exists>s'. TrainUnsup tr sae d ms s = Inr s'"
  using TrainSupUnsup_completes [OF tr, of sae d ms 1 "TrainUnsup_setup s"]
  by (auto simp: TrainUnsup_def bind_err_def)

lemma TrainSupervisedTopKLayers_restores:
  assumes "TrainSupervisedTopKLayers tr sae d ms k s = Inr s'"
  shows "\<not> topK_training s'"
    and "(\<forall>d ms a b. tr d ms a = Inr b \<longrightarrow> machine b = machine a \<and> criterion b = criterion a)
         \<Longrightarrow> machine s' = Sae \<and> criterion s' = SupCriterion"
proof -
  let ?s1 = "s\<lparr>topK_training := True, topKlayers := k, machine := Sae, criterion := SupCriterion\<rparr>"
  from assms obtain s2 where 1: "tr d ms ?s1 = Inr s2" and 2: "s' = s2\<lparr>topK_training := False\<rparr>"
    by (auto simp: TrainSupervisedTopKLayers_def Let_def bind_err_Inr split: if_splits)
  show "\<not> topK_training s'" by (simp add: 2)
  assume "\<forall>d ms a b. tr d ms a = Inr b \<longrightarrow> machine b = machine a \<and> criterion b = criterion a"
  with 1 have "machine s2 = machine ?s1 \<and> criterion s2 = criterion ?s1" by blast
  then show "machine s' = Sae \<and> criterion s' = SupCriterion" by (simp add: 2)
qed

lemma TrainSupervisedTopKLayers_completes:
  assumes tr: "\<forall>d ms a. \<exists>b. tr d ms a = Inr b \<and> layerwise_training b = layerwise_training a"
    and "0 < k" "k \<le> int (n_hidden_layers sae) + 1"
  shows "\<exists>s'. TrainSupervisedTopKLayers tr sae d ms k s = Inr s'"
proof -
  let ?s1 = "s\<lparr>topK_training := True, topKlayers := k, machine := Sae, criterion := SupCriterion\<rparr>"
  from tr obtain b where "tr d ms ?s1 = Inr b" by blast
  with assms(2,3) show ?thesis
    by (simp add: TrainSupervisedTopKLayers_def Let_def bind_err_def)
qed

text \<open>
  C8. Whatever \<open>train\<close> does, when a phase entry point returns, the active machine is
  the stacked autoencoder and the active criterion the supervised one; after
  \<open>TrainSelectiveUnsup\<close> the partial-backprop flag of every encoder, and in noisy mode
  of every autoencoder, is off; after \<open>TrainUnsup\<close> the outputer's flag is off; after
  the two layerwise phases \<open>layerwise_training\<close> is off. The layerwise phases assign
  the machine and the criterion once per layer they train: with no layer trained (no
  hidden layer, or a selection that names none) they leave the two as they found
  them, which is the default when the phase is entered from it. Every entry point
  returns when \<open>train\<close> returns and keeps \<open>layerwise_training\<close>, given a selection
  as long as the layers it is read for, at least one hidden layer where the phase
  reads the first unsupervised data set and, for \<open>TrainSelectiveUnsup\<close>, a selective
  graph that builds. The supervised top-K phase is outside the claim's list; it
  assigns the machine and the criterion before \<open>train\<close> and only clears
  \<open>topK_training\<close> after it, so the two are the defaults on return when \<open>train\<close>
  leaves them alone.
\<close>

theorem phases_restore_defaults:
  "(TrainUnsupLayerwise tr sae s = Inr s'
      \<longrightarrow> \<not> layerwise_training s'
          \<and> (0 < n_hidden_layers sae \<or> (machine s = Sae \<and> criterion s = SupCriterion)
              \<longrightarrow> machine s' = Sae \<and> criterion s' = SupCriterion))
   \<and> (TrainSelectiveUnsupLayerwise tr sae pretrain_list s = Inr s'
      \<longrightarrow> \<not> layerwise_training s'
          \<and> ((\<exists>i < n_hidden_layers sae. pretrain_list ! i = 1)
               \<or> (machine s = Sae \<and> criterion s = SupCriterion)
              \<longrightarrow> machine s' = Sae \<and> criterion s' = SupCriterion))
   \<and> (TrainSelectiveUnsup tr sae pretrain_list pb s = Inr s'
      \<longrightarrow> machine s' = Sae \<and> criterion s' = SupCriterion
          \<and> (\<forall>i < n_hidden_layers sae. \<not> partial_backprop s' (Encoder i))
          \<and> (is_noisy sae \<longrightarrow> (\<forall>i < n_hidden_layers sae. \<not> partial_backprop s' (Autoencoder i))))
   \<and> (TrainUnsupNotOutput tr sae s = Inr s'
      \<longrightarrow> machine s' = Sae \<and> criterion s' = SupCriterion)
   \<and> (TrainUnsup tr sae d ms s = Inr s'
      \<longrightarrow> machine s' = Sae \<and> criterion s' = SupCriterion \<and> \<not> partial_backprop s' Outputer)
   \<and> (TrainSupUnsup tr sae d ms w s = Inr s'
      \<longrightarrow> machine s' = Sae \<and> criterion s' = SupCriterion)
   \<and> (TrainUnsupLayer tr s = Inr s'
      \<longrightarrow> machine s' = Sae \<and> criterion s' = SupCriterion)
   \<and> (TrainSupervisedTopKLayers tr sae d ms k s = Inr s'
      \<longrightarrow> \<not> topK_training s'
          \<and> ((\<forall>d ms a b. tr d ms a = Inr b \<longrightarrow> machine b = machine a \<and> criterion b = criterion a)
              \<longrightarrow> machine s' = Sae \<and> criterion s' = SupCriterion))
   \<and> ((\<forall>d ms a. \<exists>b. tr d ms a = Inr b \<and> layerwise_training b = layerwise_training a)
      \<longrightarrow> (\<exists>s'. TrainUnsupLayerwise tr sae s = Inr s')
          \<and> (n_hidden_layers sae \<le> length pretrain_list
              \<longrightarrow> (\<exists>s'. TrainSelectiveUnsupLayerwise tr sae pretrain_list s = Inr s'))
          \<and> (0 < n_hidden_layers sae \<and> n_hidden_layers sae \<le> length pretrain_list
              \<and> (\<exists>g. cm_run (selective_machine sae pretrain_list) ConnectedMachine = Inr g)
              \<longrightarrow> (\<exists>s'. TrainSelectiveUnsup tr sae pretrain_list pb s = Inr s'))
          \<and> (0 < n_hidden_layers sae
              \<longrightarrow> (\<exists>s'. TrainUnsupNotOutput tr sae s = Inr s')
                  \<and> (\<exists>s'. TrainUnsup tr sae d ms s = Inr s')
                  \<and> (\<exists>s'. TrainSupUnsup tr sae d ms w s = Inr s'))
          \<and> (0 < k \<and> k \<le> int (n_hidden_layers sae) + 1
              \<longrightarrow> (\<exists>s'. TrainSupervisedTopKLayers tr sae d ms k s = Inr s')))"
proof (intro conjI impI)
  assume a: "TrainUnsupLayerwise tr sae s = Inr s'"
  then show "\<not> layerwise_training s'" by (rule TrainUnsupLayerwise_flag)
  assume "0 < n_hidden_layers sae \<or> (machine s = Sae \<and> criterion s = SupCriterion)"
  then show "machine s' = Sae" "criterion s' = SupCriterion"
    using TrainUnsupLayerwise_restores [OF a] TrainUnsupLayerwise_no_layers [OF a]
    by (cases "n_hidden_layers sae"; auto)+
next
  assume a: "TrainSelectiveUnsupLayerwise tr sae pretrain_list s = Inr s'"
  then show "\<not> layerwise_training s'" by (rule TrainSelectiveUnsupLayerwise_restores(1))
  assume "(\<exists>i < n_hidden_layers sae. pretrain_list ! i = 1)
               \<or> (machine s = Sae \<and> criterion s = SupCriterion)"
  from TrainSelectiveUnsupLayerwise_restores(2) [OF a this]
  show "machine s' = Sae" "criterion s' = SupCriterion" by simp_all
next
  assume a: "TrainSelectiveUnsup tr sae pretrain_list pb s = Inr s'"
  from TrainSelectiveUnsup_restores [OF a]
  show "machine s' = Sae" "criterion s' = SupCriterion"
    "\<forall>i < n_hidden_layers sae. \<not> partial_backprop s' (Encoder i)"
    by simp_all
  assume "is_noisy sae"
  with TrainSelectiveUnsup_restores [OF a]
  show "\<forall>i < n_hidden_layers sae. \<not> partial_backprop s' (Autoencoder i)" by simp
next
  assume "TrainUnsupNotOutput tr sae s = Inr s'"
  from TrainUnsupNotOutput_restores [OF this]
  show "machine s' = Sae" "criterion s' = SupCriterion" by simp_all
next
  assume "TrainUnsup tr sae d ms s = Inr s'"
  from TrainUnsup_restores [OF this]
  show "machine s' = Sae" "criterion s' = SupCriterion" "\<not> partial_backprop s' Outputer"
    by simp_all
next
  assume "TrainSupUnsup tr sae d ms w s = Inr s'"
  from TrainSupUnsup_restores [OF this]
  show "machine s' = Sae" "criterion s' = SupCriterion" by simp_all
next
  assume "TrainUnsupLayer tr s = Inr s'"
  from TrainUnsupLayer_restores [OF this]
  show "machine s' = Sae" "criterion s' = SupCriterion" by simp_all
next
  assume a: "TrainSupervisedTopKLayers tr sae d ms k s = Inr s'"
  then show "\<not> topK_training s'" by (rule TrainSupervisedTopKLayers_restores(1))
  assume "\<forall>d ms a b. tr d ms a = Inr b \<longrightarrow> machine b = machine a \<and> criterion b = criterion a"
  from TrainSupervisedTopKLayers_restores(2) [OF a this]
  show "machine s' = Sae" "criterion s' = SupCriterion" by simp_all
next
  assume tr: "\<forall>d ms a. \<exists>b. tr d ms a = Inr b \<and> layerwise_training b = layerwise_training a"
  show "\<exists>s'. TrainUnsupLayerwise tr sae s = Inr s'"
    by (rule TrainUnsupLayerwise_completes [OF tr])
  show "\<exists>s'. TrainUnsupNotOutput tr sae s = Inr s'"
    by (rule TrainUnsupNotOutput_completes [OF tr])
  show "\<exists>s'. TrainUnsup tr sae d ms s = Inr s'"
    by (rule TrainUnsup_completes [OF tr])
  show "\<exists>s'. TrainSupUnsup tr sae d ms w s = Inr s'"
    by (rule TrainSupUnsup_completes [OF tr])
  {
    assume "0 < k \<and> k \<le> int (n_hidden_layers sae) + 1"
    then show "\<exists>s'. TrainSupervisedTopKLayers tr sae d ms k s = Inr s'"
      using TrainSupervisedTopKLayers_completes [OF tr, of k sae d ms s] by blast
  }
  {
    assume "n_hidden_layers sae \<le> length pretrain_list"
    then show "\<exists>s'. TrainSelectiveUnsupLayerwise tr sae pretrain_list s = Inr s'"
      by (rule TrainSelectiveUnsupLayerwise_completes [OF tr])
  }
  {
    assume a: "0 < n_hidden_layers sae \<and> n_hidden_layers sae \<le> length pretrain_list
              \<and> (\<exists>g. cm_run (selective_machine sae pretrain_list) ConnectedMachine = Inr g)"
    then obtain g where g: "cm_run (selective_machine sae pretrain_list) ConnectedMachine = Inr g"
      by blast
    from a have ne: "is_noisy sae \<longrightarrow> pretrain_list \<noteq> []" by auto
    from a have "n_hidden_layers sae \<le> length pretrain_list" by simp
    from TrainSelectiveUnsup_completes [OF tr this ne g]
    show "\<exists>s'. TrainSelectiveUnsup tr sae pretrain_list pb s = Inr s'" .
  }
qed

theorem phases_restore_defaults_witness:
  "(\<exists>s'. TrainUnsupLayerwise (\<lambda>_ _. Inr) (the (StackedAutoencoder ''tanh'' False False 4 1 [3] 2 True False))
            (StackedAutoencoderTrainer (the (StackedAutoencoder ''tanh'' False False 4 1 [3] 2 True False)) False (\<lambda>_. False) (\<lambda>_ _. Fin 0)) = Inr s'
         \<and> machine s' = Sae \<and> criterion s' = SupCriterion \<and> \<not> layerwise_training s')
   \<and> (\<exists>s'. TrainSelectiveUnsupLayerwise (\<lambda>_ _. Inr) (the (StackedAutoencoder ''tanh'' False False 4 1 [3] 2 True False))
            [1]
            (StackedAutoencoderTrainer (the (StackedAutoencoder ''tanh'' False False 4 1 [3] 2 True False)) False (\<lambda>_. False) (\<lambda>_ _. Fin 0)) = Inr s'
         \<and> machine s' = Sae \<and> criterion s' = SupCriterion \<and> \<not> layerwise_training s')
   \<and> (\<exists>s'. TrainSelectiveUnsupLayerwise (\<lambda>_ _. Inr) (the (StackedAutoencoder ''tanh'' False False 4 1 [3] 2 True False))
            [0]
            (StackedAutoencoderTrainer (the (StackedAutoencoder ''tanh'' False False 4 1 [3] 2 True False)) False (\<lambda>_. False) (\<lambda>_ _. Fin 0)) = Inr s'
         \<and> machine s' = Sae \<and> criterion s' = SupCriterion \<and> \<not> layerwise_training s')
   \<and> (\<exists>s'. TrainSelectiveUnsup (\<lambda>_ _. Inr) (the (StackedAutoencoder ''tanh'' False False 4 1 [3] 2 True False))
            [1] True
            (StackedAutoencoderTrainer (the (StackedAutoencoder ''tanh'' False False 4 1 [3] 2 True False)) False (\<lambda>_. False) (\<lambda>_ _. Fin 0)) = Inr s'
         \<and> machine s' = Sae \<and> criterion s' = SupCriterion
         \<and> \<not> partial_backprop s' (Encoder 0) \<and> \<not> partial_backprop s' (Autoencoder 0))
   \<and> (\<exists>s'. TrainUnsupNotOutput (\<lambda>_ _. Inr) (the (StackedAutoencoder ''tanh'' False False 4 1 [3] 2 True False))
            (StackedAutoencoderTrainer (the (StackedAutoencoder ''tanh'' False False 4 1 [3] 2 True False)) False (\<lambda>_. False) (\<lambda>_ _. Fin 0)) = Inr s'
         \<and> machine s' = Sae \<and> criterion s' = SupCriterion)
   \<and> (\<exists>s'. TrainUnsup (\<lambda>_ _. Inr) (the (StackedAutoencoder ''tanh'' False False 4 1 [3] 2 True False))
            (TrainData 0) []
            (StackedAutoencoderTrainer (the (StackedAutoencoder ''tanh'' False False 4 1 [3] 2 True False)) False (\<lambda>_. False) (\<lambda>_ _. Fin 0)) = Inr s'
         \<and> machine s' = Sae \<and> criterion s' = SupCriterion \<and> \<not> partial_backprop s' Outputer)
   \<and> (\<exists>s'. TrainSupUnsup (\<lambda>_ _. Inr) (the (StackedAutoencoder ''tanh'' False False 4 1 [3] 2 True False))
            (TrainData 0) [] (1 / 4)
            (StackedAutoencoderTrainer (the (StackedAutoencoder ''tanh'' False False 4 1 [3] 2 True False)) False (\<lambda>_. False) (\<lambda>_ _. Fin 0)) = Inr s'
         \<and> machine s' = Sae \<and> criterion s' = SupCriterion)
   \<and> (\<exists>s'. TrainSupervisedTopKLayers (\<lambda>_ _. Inr) (the (StackedAutoencoder ''tanh'' False False 4 1 [3] 2 True False))
            (TrainData 0) [] 1
            (StackedAutoencoderTrainer (the (StackedAutoencoder ''tanh'' False False 4 1 [3] 2 True False)) False (\<lambda>_. False) (\<lambda>_ _. Fin 0)) = Inr s'
         \<and> machine s' = Sae \<and> criterion s' = SupCriterion \<and> \<not> topK_training s')"
proof -
  obtain t where t: "StackedAutoencoder ''tanh'' False False 4 1 [3] 2 True False = Some t"
    by (simp add: StackedAutoencoder_def Let_def)
  have tf: "is_noisy t" "n_hidden_layers t = 1"
    using t by (auto simp: StackedAutoencoder_def Let_def)
  define s where "s = StackedAutoencoderTrainer t False (\<lambda>_. False) (\<lambda>_ _. Fin 0)"
  define tr :: train_fn where "tr = (\<lambda>_ _. Inr)"
  have tr: "\<forall>d ms a. \<exists>b. tr d ms a = Inr b \<and> layerwise_training b = layerwise_training a"
    by (simp add: tr_def)
  have def: "machine s = Sae \<and> criterion s = SupCriterion"
    by (simp add: s_def StackedAutoencoderTrainer_def)
  have pos: "0 < n_hidden_layers t" using tf by simp
  have len: "n_hidden_layers t \<le> length [1::int]" "n_hidden_layers t \<le> length [0::int]"
    using tf by simp_all
  have g: "\<exists>g. cm_run (selective_machine t [1]) ConnectedMachine = Inr g"
    by (simp add: selective_machine_def topmost_trained_def AddEncodersUpToIncluded_def
          ConnectedMachine_def registered_def producers_def tf)
  have keeps: "\<forall>d ms a b. tr d ms a = Inr b \<longrightarrow> machine b = machine a \<and> criterion b = criterion a"
    by (simp add: tr_def)
  have k: "0 < (1::int) \<and> 1 \<le> int (n_hidden_layers t) + 1" by simp
  note R1 = phases_restore_defaults [of tr t s _ "[1]" True "TrainData 0" "[]" "1 / 4" 1]
  note R0 = phases_restore_defaults [of tr t s _ "[0]" True "TrainData 0" "[]" "1 / 4" 1]
  note ret1 = R1 [THEN conjunct2, THEN conjunct2, THEN conjunct2, THEN conjunct2, THEN conjunct2, THEN conjunct2, THEN conjunct2, THEN conjunct2, THEN mp, OF tr]
  note ret0 = R0 [THEN conjunct2, THEN conjunct2, THEN conjunct2, THEN conjunct2, THEN conjunct2, THEN conjunct2, THEN conjunct2, THEN conjunct2, THEN mp, OF tr]
  obtain a where a: "TrainUnsupLayerwise tr t s = Inr a"
    using ret1 [THEN conjunct1] by blast
  obtain b where b: "TrainSelectiveUnsupLayerwise tr t [1] s = Inr b"
    using ret1 [THEN conjunct2, THEN conjunct1] len by blast
  obtain b0 where b0: "TrainSelectiveUnsupLayerwise tr t [0] s = Inr b0"
    using ret0 [THEN conjunct2, THEN conjunct1] len by blast
  obtain c where c: "TrainSelectiveUnsup tr t [1] True s = Inr c"
    using ret1 [THEN conjunct2, THEN conjunct2, THEN conjunct1] len g pos by blast
  obtain e where e: "TrainUnsupNotOutput tr t s = Inr e"
    using ret1 [THEN conjunct2, THEN conjunct2, THEN conjunct2, THEN conjunct1] pos by blast
  obtain f where f: "TrainUnsup tr t (TrainData 0) [] s = Inr f"
    using ret1 [THEN conjunct2, THEN conjunct2, THEN conjunct2, THEN conjunct1] pos by blast
  obtain h where h: "TrainSupUnsup tr t (TrainData 0) [] (1 / 4) s = Inr h"
    using ret1 [THEN conjunct2, THEN conjunct2, THEN conjunct2, THEN conjunct1] pos by blast
  obtain p where p: "TrainSupervisedTopKLayers tr t (TrainData 0) [] 1 s = Inr p"
    using ret1 [THEN conjunct2, THEN conjunct2, THEN conjunct2, THEN conjunct2] k by blast
  have A: "machine a = Sae \<and> criterion a = SupCriterion \<and> \<not> layerwise_training a"
    using R1 [of a, THEN conjunct1] a pos by blast
  have B: "machine b = Sae \<and> criterion b = SupCriterion \<and> \<not> layerwise_training b"
    using R1 [of b, THEN conjunct2, THEN conjunct1] b def by blast
  have B0: "machine b0 = Sae \<and> criterion b0 = SupCriterion \<and> \<not> layerwise_training b0"
    using R0 [of b0, THEN conjunct2, THEN conjunct1] b0 def by blast
  have C: "machine c = Sae \<and> criterion c = SupCriterion
         \<and> (\<forall>i < n_hidden_layers t. \<not> partial_backprop c (Encoder i))
         \<and> (\<forall>i < n_hidden_layers t. \<not> partial_backprop c (Autoencoder i))"
    using R1 [of c, THEN conjunct2, THEN conjunct2, THEN conjunct1] c tf(1) by blast
  have C': "\<not> partial_backprop c (Encoder 0) \<and> \<not> partial_backprop c (Autoencoder 0)"
    using C pos by blast
  have E: "machine e = Sae \<and> criterion e = SupCriterion"
    using R1 [of e, THEN conjunct2, THEN conjunct2, THEN conjunct2, THEN conjunct1] e by blast
  have F: "machine f = Sae \<and> criterion f = SupCriterion \<and> \<not> partial_backprop f Outputer"
    using R1 [of f, THEN conjunct2, THEN conjunct2, THEN conjunct2, THEN conjunct2, THEN conjunct1] f by blast
  have H: "machine h = Sae \<and> criterion h = SupCriterion"
    using R1 [of h, THEN conjunct2, THEN conjunct2, THEN conjunct2, THEN conjunct2, THEN conjunct2, THEN conjunct1] h by blast
  have Q: "machine p = Sae \<and> criterion p = SupCriterion \<and> \<not> topK_training p"
    using R1 [of p, THEN conjunct2, THEN conjunct2, THEN conjunct2, THEN conjunct2, THEN conjunct2, THEN conjunct2, THEN conjunct2, THEN conjunct1] p keeps by blast
  show ?thesis
    unfolding t option.sel s_def [symmetric] tr_def [symmetric]
    using a A b B b0 B0 c C C' e E f F h H p Q by blast
qed


subsection \<open>EvalHessian\<close>

lemma fold_nested:
  "fold (\<lambda>j. fold (f j) (ks j)) js acc
   = fold (\<lambda>(j, k). f j k) (concat (map (\<lambda>j. map (Pair j) (ks j)) js)) acc"
  by (induction js arbitrary: acc) (simp_all add: fold_map comp_def)

lemma accumulate_fold:
  "fold (\<lambda>x (index, sx, sx2, out).
           (index + 1, sx[index := f (sx ! index) (g x)], sx2[index := f (sx2 ! index) (h x)],
            out @ msg x))
        xs (idx, sx, sx2, out)
   = (idx + length xs,
      map (\<lambda>p. if idx \<le> p \<and> p < idx + length xs then f (sx ! p) (map g xs ! (p - idx)) else sx ! p)
          [0..<length sx],
      map (\<lambda>p. if idx \<le> p \<and> p < idx + length xs
                then f (sx2 ! p) (map h xs ! (p - idx)) else sx2 ! p)
          [0..<length sx2],
      out @ concat (map msg xs))"
proof (induction xs arbitrary: idx sx sx2 out)
  case Nil
  show ?case by (auto intro!: nth_equalityI)
next
  case (Cons x xs)
  have eq: "i = idx" if "\<not> Suc idx \<le> i" "idx \<le> i" for i
    using that by arith
  have 1: "map (\<lambda>p. if idx + 1 \<le> p \<and> p < idx + 1 + length xs
                     then f (a[idx := f (a ! idx) (u x)] ! p) (map u xs ! (p - (idx + 1)))
                     else a[idx := f (a ! idx) (u x)] ! p)
               [0..<length (a[idx := f (a ! idx) (u x)])]
         = map (\<lambda>p. if idx \<le> p \<and> p < idx + length (x # xs)
                     then f (a ! p) (map u (x # xs) ! (p - idx)) else a ! p)
               [0..<length a]" for a u
    by (rule nth_equalityI) (auto simp: nth_list_update nth_Cons' dest: eq)
  show ?case
    using Cons.IH [of "idx + 1" "sx[idx := f (sx ! idx) (g x)]" "sx2[idx := f (sx2 ! idx) (h x)]"
            "out @ msg x"]
      1 [of sx g] 1 [of sx2 h]
    by simp
qed


lemma bind_err_simps [simp]:
  "bind_err (Inr x) f = f x"
  "bind_err (Inl e) f = Inl e"
  by (simp_all add: bind_err_def)

lemma length_flat_gradient:
  "length (flat_gradient sub cs s) = sum_list (map (n_params sub) cs)"
  by (induction cs) (simp_all add: flat_gradient_def)

lemma flat_gradient_indexed:
  "map (\<lambda>(j, k). der_params s (cs ! j) k)
       (concat (map (\<lambda>j. map (Pair j) [0..<n_params sub (cs ! j)]) [0..<length cs]))
   = flat_gradient sub cs s"
proof -
  have "map (\<lambda>j. map (der_params s (cs ! j)) [0..<n_params sub (cs ! j)]) [0..<length cs]
        = map (\<lambda>c. map (der_params s c) [0..<n_params sub c]) (map ((!) cs) [0..<length cs])"
    by simp
  also have "\<dots> = map (\<lambda>c. map (der_params s c) [0..<n_params sub c]) cs"
    by (simp only: map_nth)
  finally show ?thesis
    by (simp add: flat_gradient_def map_concat comp_def)
qed

lemma concat_map_over_concat:
  "concat (map f (concat xss)) = concat (map (\<lambda>xs. concat (map f xs)) xss)"
  by (induction xss) simp_all

lemma large_gradients_indexed:
  "concat (map (\<lambda>(j, k). if xless (Fin 10) (xabs (der_params s (cs ! j) k))
                          then [LargeGradient j (n_params sub (cs ! j)) k (der_params s (cs ! j) k)]
                          else [])
               (concat (map (\<lambda>j. map (Pair j) [0..<n_params sub (cs ! j)]) [0..<length cs])))
   = large_gradients sub cs s"
  by (simp add: large_gradients_def concat_map_over_concat comp_def)


lemma measure_example_eq:
  assumes "length sx = sum_list (map (n_params sub) cs)" "length sx2 = length sx"
  shows "measure_example sub cs s (sx, sx2, out)
         = (map (\<lambda>p. fadd (arith sub) (sx ! p) (flat_gradient sub cs s ! p)) [0..<length sx],
            map (\<lambda>p. fadd (arith sub) (sx2 ! p)
                        (fmul (arith sub) (flat_gradient sub cs s ! p)
                                          (flat_gradient sub cs s ! p)))
                [0..<length sx],
            out @ large_gradients sub cs s)"
proof -
  let ?jk = "concat (map (\<lambda>j. map (Pair j) [0..<n_params sub (cs ! j)]) [0..<length cs])"
  let ?d = "\<lambda>(j, k). der_params s (cs ! j) k"
  let ?g = "?d"
  let ?h = "\<lambda>x. fmul (arith sub) (?d x) (?d x)"
  let ?msg = "\<lambda>(j, k). if xless (Fin 10) (xabs (der_params s (cs ! j) k))
                          then [LargeGradient j (n_params sub (cs ! j)) k (der_params s (cs ! j) k)]
                          else []"
  have step: "(\<lambda>(j, k). measure_param sub cs s j k)
              = (\<lambda>x (index, sx, sx2, out).
                   (index + 1, sx[index := fadd (arith sub) (sx ! index) (?g x)],
                    sx2[index := fadd (arith sub) (sx2 ! index) (?h x)],
                    out @ ?msg x))"
    by (auto simp: fun_eq_iff measure_param_def Let_def)
  have len: "length ?jk = length sx"
    using length_flat_gradient [of sub cs s] assms(1)
    by (simp add: flat_gradient_indexed [symmetric] del: map_map)
  have g: "map ?g ?jk ! p = flat_gradient sub cs s ! p" for p
    unfolding flat_gradient_indexed ..
  have h: "map ?h ?jk ! p
           = fmul (arith sub) (flat_gradient sub cs s ! p) (flat_gradient sub cs s ! p)"
    if "p < length sx" for p
  proof -
    have "map ?h ?jk = map (\<lambda>v. fmul (arith sub) v v) (map ?d ?jk)" by simp
    also have "\<dots> ! p = fmul (arith sub) (map ?d ?jk ! p) (map ?d ?jk ! p)"
      using that len by (simp del: map_map)
    finally show ?thesis unfolding flat_gradient_indexed .
  qed
  have "measure_example sub cs s (sx, sx2, out)
        = snd (fold (\<lambda>(j, k). measure_param sub cs s j k) ?jk (0, sx, sx2, out))"
    by (simp add: measure_example_def fold_nested)
  also have "\<dots> = (map (\<lambda>p. if p < length ?jk then fadd (arith sub) (sx ! p) (map ?g ?jk ! p) else sx ! p)
                        [0..<length sx],
                    map (\<lambda>p. if p < length ?jk then fadd (arith sub) (sx2 ! p) (map ?h ?jk ! p)
                              else sx2 ! p)
                        [0..<length sx2],
                    out @ concat (map ?msg ?jk))"
    unfolding step
    using accumulate_fold [of "fadd (arith sub)" ?g ?h ?msg ?jk 0 sx sx2 out]
    by simp
  also have "\<dots> = (map (\<lambda>p. fadd (arith sub) (sx ! p) (flat_gradient sub cs s ! p)) [0..<length sx],
            map (\<lambda>p. fadd (arith sub) (sx2 ! p)
                        (fmul (arith sub) (flat_gradient sub cs s ! p)
                                          (flat_gradient sub cs s ! p)))
                [0..<length sx],
            out @ large_gradients sub cs s)"
    unfolding large_gradients_indexed len assms(2)
    by (simp add: g h cong: map_cong)
  finally show ?thesis .
qed


lemma run_calls_sample:
  assumes "valid_machine sae the_gm"
  shows "run_calls sub sae d i
           [Forward the_gm DataInputs,
            CriterionForward the_criterion (Outputs the_gm),
            CriterionBackward the_criterion (Outputs the_gm) NoTarget,
            Backward the_gm DataInputs (CriterionBeta the_criterion)]
           (ClearDerivatives sae the_gm s)
         = Inr (sample_pass sub sae the_gm the_criterion d i s)"
  using assms by (simp add: run_calls_def run_call_def run_checked_def sample_pass_def)

lemma sample_loop_eq:
  assumes "valid_machine sae the_gm"
      and "length sx = sum_list (map (n_params sub) (coders_of sae the_gm))"
      and "length sx2 = length sx"
  shows "sample_loop sub sae the_gm the_criterion d is (s, sx, sx2, out)
         = Inr (fold (sample_pass sub sae the_gm the_criterion d) is s,
                map (\<lambda>p. fold (\<lambda>st acc. fadd (arith sub) acc
                                           (flat_gradient sub (coders_of sae the_gm) st ! p))
                               (sample_states sub sae the_gm the_criterion d is s) (sx ! p))
                    [0..<length sx],
                map (\<lambda>p. fold (\<lambda>st acc. fadd (arith sub) acc
                                           (fmul (arith sub)
                                              (flat_gradient sub (coders_of sae the_gm) st ! p)
                                              (flat_gradient sub (coders_of sae the_gm) st ! p)))
                               (sample_states sub sae the_gm the_criterion d is s) (sx2 ! p))
                    [0..<length sx],
                out @ concat (map (large_gradients sub (coders_of sae the_gm))
                                  (sample_states sub sae the_gm the_criterion d is s)))"
  using assms(2,3)
proof (induction "is" arbitrary: s sx sx2 out)
  case Nil
  then show ?case by (auto intro!: nth_equalityI)
next
  case (Cons i "is")
  let ?cs = "coders_of sae the_gm"
  let ?s1 = "sample_pass sub sae the_gm the_criterion d i s"
  let ?sx1 = "map (\<lambda>p. fadd (arith sub) (sx ! p) (flat_gradient sub ?cs ?s1 ! p)) [0..<length sx]"
  let ?sx21 = "map (\<lambda>p. fadd (arith sub) (sx2 ! p)
                          (fmul (arith sub) (flat_gradient sub ?cs ?s1 ! p)
                                            (flat_gradient sub ?cs ?s1 ! p)))
                   [0..<length sx]"
  have m: "measure_example sub ?cs ?s1 (sx, sx2, out) = (?sx1, ?sx21, out @ large_gradients sub ?cs ?s1)"
    by (rule measure_example_eq [OF Cons.prems])
  have l1: "length ?sx1 = sum_list (map (n_params sub) ?cs)" using Cons.prems by simp
  have l2: "length ?sx21 = length ?sx1" by simp
  show ?case
    by (simp add: run_calls_sample [OF assms(1)] m Cons.IH [OF l1 l2] cong: map_cong)
qed

lemma max_variance_loop_fold:
  "snd (snd (snd (fold (\<lambda>i (max_sumX, max_sumX2, max_means, max_variance).
             let grad_means = fdiv ops (sx ! i) n;
                 grad_variances = fsub ops (fdiv ops (sx2 ! i) n) (fmul ops grad_means grad_means)
             in if xless max_variance grad_variances
                then (sx ! i, sx2 ! i, grad_means, grad_variances)
                else (max_sumX, max_sumX2, max_means, max_variance)) ps (a, b, c, m))))
   = fold (\<lambda>p m. if xless m (fsub ops (fdiv ops (sx2 ! p) n)
                                (fmul ops (fdiv ops (sx ! p) n) (fdiv ops (sx ! p) n)))
                  then fsub ops (fdiv ops (sx2 ! p) n)
                                (fmul ops (fdiv ops (sx ! p) n) (fdiv ops (sx ! p) n))
                  else m) ps m"
  by (induction ps arbitrary: a b c m) (simp_all add: Let_def)


lemma length_sample_states:
  "length (sample_states sub sae the_gm the_criterion d is s) = length is"
  by (induction "is" arbitrary: s) simp_all

lemma max_variance_loop_eq:
  assumes "\<And>p. p < np \<Longrightarrow> sx ! p = gradient_sum ops samples p"
      and "\<And>p. p < np \<Longrightarrow> sx2 ! p = gradient_sum_squares ops samples p"
      and "length samples = n"
  shows "snd (snd (snd (max_variance_loop ops n sx sx2 np))) = max_gradient_variance ops samples np"
proof -
  let ?v = "\<lambda>p. fsub ops (fdiv ops (sx2 ! p) (fof_nat ops n))
                   (fmul ops (fdiv ops (sx ! p) (fof_nat ops n)) (fdiv ops (sx ! p) (fof_nat ops n)))"
  have v: "?v p = gradient_variance ops samples p" if "p < np" for p
    by (simp only: gradient_variance_def assms(1) [OF that] assms(2) [OF that] assms(3))
  have "fold (\<lambda>p m. if xless m (?v p) then ?v p else m) [0..<np] (Fin 0)
        = fold (\<lambda>p m. if xless m (gradient_variance ops samples p)
                       then gradient_variance ops samples p else m) [0..<np] (Fin 0)"
  proof (rule fold_cong)
    fix p assume "p \<in> set [0..<np]"
    then have "p < np" by simp
    from v [OF this]
    show "(\<lambda>m. if xless m (?v p) then ?v p else m)
          = (\<lambda>m. if xless m (gradient_variance ops samples p)
                  then gradient_variance ops samples p else m)"
      by (simp only:)
  qed (rule refl)+
  then show ?thesis
    by (simp only: max_variance_loop_def max_gradient_variance_def max_variance_loop_fold)
qed


lemma EvalHessian_eq:
  assumes "valid_machine sae the_gm" "n \<le> n_examples sub d"
  shows "\<exists>mx mx2 mm.
           EvalHessian sub sae the_gm the_criterion (Some d) n s
           = Inr (frecip (arith sub)
                    (max_gradient_variance (arith sub)
                       (gradient_samples sub sae the_gm the_criterion d n s)
                       (sum_list (map (n_params sub) (coders_of sae the_gm)))),
                  [ParametersMessage (sum_list (map (n_params sub) (coders_of sae the_gm)))]
                  @ concat (map (large_gradients sub (coders_of sae the_gm))
                                (sample_states sub sae the_gm the_criterion d [0..<n] s))
                  @ [MaxMessage mx mx2 mm
                       (ffloat (arith sub)
                          (max_gradient_variance (arith sub)
                             (gradient_samples sub sae the_gm the_criterion d n s)
                             (sum_list (map (n_params sub) (coders_of sae the_gm)))))
                       (fdiv (arith sub) (Fin 1)
                          (max_gradient_variance (arith sub)
                             (gradient_samples sub sae the_gm the_criterion d n s)
                             (sum_list (map (n_params sub) (coders_of sae the_gm)))))],
                  fold (sample_pass sub sae the_gm the_criterion d) [0..<n] s)"
proof -
  let ?A = "arith sub"
  let ?cs = "coders_of sae the_gm"
  let ?np = "sum_list (map (n_params sub) ?cs)"
  let ?states = "sample_states sub sae the_gm the_criterion d [0..<n] s"
  let ?samples = "gradient_samples sub sae the_gm the_criterion d n s"
  let ?sx = "map (\<lambda>p. fold (\<lambda>st acc. fadd ?A acc (flat_gradient sub ?cs st ! p))
                            ?states (replicate ?np (Fin 0) ! p)) [0..<?np]"
  let ?sx2 = "map (\<lambda>p. fold (\<lambda>st acc. fadd ?A acc (fmul ?A (flat_gradient sub ?cs st ! p)
                                                           (flat_gradient sub ?cs st ! p)))
                             ?states (replicate ?np (Fin 0) ! p)) [0..<?np]"
  have loop: "sample_loop sub sae the_gm the_criterion d [0..<n]
                (s, replicate ?np (Fin 0), replicate ?np (Fin 0), [])
              = Inr (fold (sample_pass sub sae the_gm the_criterion d) [0..<n] s, ?sx, ?sx2,
                     [] @ concat (map (large_gradients sub ?cs) ?states))"
    using sample_loop_eq [OF assms(1), of "replicate ?np (Fin 0)" sub "replicate ?np (Fin 0)"
            the_criterion d "[0..<n]" s "[]"]
    by simp
  obtain mx mx2 mm mv where mvl: "max_variance_loop ?A n ?sx ?sx2 ?np = (mx, mx2, mm, mv)"
    by (cases "max_variance_loop ?A n ?sx ?sx2 ?np") auto
  have 1: "?sx ! p = gradient_sum ?A ?samples p" if "p < ?np" for p
    using that by (simp add: gradient_samples_def gradient_sum_def fold_map comp_def del: upt_Suc)
  have 2: "?sx2 ! p = gradient_sum_squares ?A ?samples p" if "p < ?np" for p
    using that
    by (simp add: gradient_samples_def gradient_sum_squares_def fold_map comp_def del: upt_Suc)
  have 3: "length ?samples = n"
    by (simp add: gradient_samples_def length_sample_states)
  have mv: "mv = max_gradient_variance ?A ?samples ?np"
    using max_variance_loop_eq [of ?np ?sx ?A ?samples ?sx2 n, OF 1 2 3] mvl by simp
  have "EvalHessian sub sae the_gm the_criterion (Some d) n s
        = Inr (frecip ?A mv,
               [ParametersMessage ?np] @ concat (map (large_gradients sub ?cs) ?states)
               @ [MaxMessage (ffloat ?A mx) (ffloat ?A mx2) (ffloat ?A mm) (ffloat ?A mv)
                    (fdiv ?A (Fin 1) mv)],
               fold (sample_pass sub sae the_gm the_criterion d) [0..<n] s)"
    unfolding EvalHessian_def using assms(2)
    by (simp add: Let_def loop mvl del: upt_Suc)
  then show ?thesis unfolding mv by blast
qed

lemma set_large_gradients:
  "set (large_gradients sub cs st)
   = {LargeGradient j (n_params sub (cs ! j)) k (der_params st (cs ! j) k) | j k.
        j < length cs \<and> k < n_params sub (cs ! j)
        \<and> xless (Fin 10) (xabs (der_params st (cs ! j) k))}"
  by (auto simp: large_gradients_def split: if_splits)

text \<open>
  C9. Given its assertions (a data set with at least \<open>n_samples\<close> examples) and a
  machine of the topology, \<open>EvalHessian\<close> returns, whatever the gradients are: the
  value is \<open>1.0 / max_variance\<close> for the largest per-parameter variance of the
  sampled gradients, both in the arithmetic of \<open>real\<close>. Every parameter whose
  gradient in some sample exceeds \<open>10.0\<close> in magnitude is in the printed output with
  its group, size, index and value, and nothing else is printed as a large gradient.
\<close>

theorem EvalHessian_large_gradients_do_not_abort:
  assumes "valid_machine sae the_gm" "n_samples \<le> n_examples sub d"
  shows "\<exists>out s'.
           EvalHessian sub sae the_gm the_criterion (Some d) n_samples s
           = Inr (frecip (arith sub)
                    (max_gradient_variance (arith sub)
                       (gradient_samples sub sae the_gm the_criterion d n_samples s)
                       (sum_list (map (n_params sub) (coders_of sae the_gm)))),
                  out, s')
         \<and> (\<forall>st \<in> set (sample_states sub sae the_gm the_criterion d [0..<n_samples] s).
              \<forall>j < length (coders_of sae the_gm).
              \<forall>k < n_params sub (coders_of sae the_gm ! j).
                xless (Fin 10) (xabs (der_params st (coders_of sae the_gm ! j) k)) \<longrightarrow>
                LargeGradient j (n_params sub (coders_of sae the_gm ! j)) k
                  (der_params st (coders_of sae the_gm ! j) k) \<in> set out)
         \<and> (\<forall>j sz k g. LargeGradient j sz k g \<in> set out \<longrightarrow> xless (Fin 10) (xabs g))"
proof -
  from EvalHessian_eq [OF assms, of the_criterion s]
  obtain mx mx2 mm where
    e: "EvalHessian sub sae the_gm the_criterion (Some d) n_samples s
           = Inr (frecip (arith sub)
                    (max_gradient_variance (arith sub)
                       (gradient_samples sub sae the_gm the_criterion d n_samples s)
                       (sum_list (map (n_params sub) (coders_of sae the_gm)))),
                  [ParametersMessage (sum_list (map (n_params sub) (coders_of sae the_gm)))]
                  @ concat (map (large_gradients sub (coders_of sae the_gm))
                                (sample_states sub sae the_gm the_criterion d [0..<n_samples] s))
                  @ [MaxMessage mx mx2 mm
                       (ffloat (arith sub)
                          (max_gradient_variance (arith sub)
                             (gradient_samples sub sae the_gm the_criterion d n_samples s)
                             (sum_list (map (n_params sub) (coders_of sae the_gm)))))
                       (fdiv (arith sub) (Fin 1)
                          (max_gradient_variance (arith sub)
                             (gradient_samples sub sae the_gm the_criterion d n_samples s)
                             (sum_list (map (n_params sub) (coders_of sae the_gm)))))],
                  fold (sample_pass sub sae the_gm the_criterion d) [0..<n_samples] s)"
    by blast
  show ?thesis
    unfolding e
    by (intro exI conjI, rule refl) (auto simp: set_large_gradients)
qed

theorem EvalHessian_large_gradients_do_not_abort_witness:
  "\<exists>out s'.
     EvalHessian
       \<lparr> n_examples = (\<lambda>_. 2), n_params = (\<lambda>_. 1),
          run_forward = (\<lambda>_ _ _ s. buffers s),
          run_backward = (\<lambda>_ _ e _ _ _. Fin (12 + 2 * real e)),
          sgd = (\<lambda>lr p g k. xsub (p k) (xmul (Fin lr) (g k))),
          arith = exact_ops \<rparr>
       (the (StackedAutoencoder ''tanh'' False False 4 1 [3] 2 False False)) OutputerM SupCriterion (Some (TrainData 0)) 2
       (StackedAutoencoderTrainer (the (StackedAutoencoder ''tanh'' False False 4 1 [3] 2 False False)) False (\<lambda>_. False) (\<lambda>_ _. Fin 0))
     = Inr (Fin 1, out, s')
     \<and> LargeGradient 0 1 0 (Fin 12) \<in> set out
     \<and> LargeGradient 0 1 0 (Fin 14) \<in> set out"
proof -
  define sub where "sub = \<lparr> n_examples = (\<lambda>_. 2), n_params = (\<lambda>_. 1),
          run_forward = (\<lambda>_ _ _ s. buffers s),
          run_backward = (\<lambda>_ _ e _ _ _. Fin (12 + 2 * real e)),
          sgd = (\<lambda>lr p g k. xsub (p k) (xmul (Fin lr) (g k))),
          arith = exact_ops \<rparr>"
  obtain t where t: "StackedAutoencoder ''tanh'' False False 4 1 [3] 2 False False = Some t"
    by (simp add: StackedAutoencoder_def Let_def)
  define s where "s = StackedAutoencoderTrainer t False (\<lambda>_. False) (\<lambda>_ _. Fin 0)"
  define st0 where "st0 = sample_pass sub t OutputerM SupCriterion (TrainData 0) 0 s"
  define st1 where "st1 = sample_pass sub t OutputerM SupCriterion (TrainData 0) 1 st0"
  have v: "valid_machine t OutputerM" by simp
  have n: "(2::nat) \<le> n_examples sub (TrainData 0)" by (simp add: sub_def)
  have np: "n_params sub c = 1" for c by (simp add: sub_def)
  have ar: "arith sub = exact_ops" by (simp add: sub_def)
  have states: "sample_states sub t OutputerM SupCriterion (TrainData 0) [0..<2] s = [st0, st1]"
    by (simp add: numeral_2_eq_2 st0_def st1_def)
  have g0: "der_params st0 Outputer 0 = Fin 12"
    by (simp add: st0_def sample_pass_def ClearDerivatives_def sub_def)
  have g1: "der_params st1 Outputer 0 = Fin 14"
    by (simp add: st1_def sample_pass_def ClearDerivatives_def sub_def)
  have mv: "max_gradient_variance (arith sub)
              (gradient_samples sub t OutputerM SupCriterion (TrainData 0) 2 s)
              (sum_list (map (n_params sub) (coders_of t OutputerM))) = Fin 1"
    unfolding gradient_samples_def states ar
    by (simp add: max_gradient_variance_def gradient_variance_def gradient_sum_def
          gradient_sum_squares_def flat_gradient_def g0 g1 np exact_ops_def xsub_def)
  from EvalHessian_large_gradients_do_not_abort [OF v n, of SupCriterion s]
  obtain out s' where
    e: "EvalHessian sub t OutputerM SupCriterion (Some (TrainData 0)) 2 s
        = Inr (frecip (arith sub) (max_gradient_variance (arith sub)
              (gradient_samples sub t OutputerM SupCriterion (TrainData 0) 2 s)
              (sum_list (map (n_params sub) (coders_of t OutputerM)))), out, s')"
    and r: "\<forall>st \<in> set (sample_states sub t OutputerM SupCriterion (TrainData 0) [0..<2] s).
              \<forall>j < length (coders_of t OutputerM).
              \<forall>k < n_params sub (coders_of t OutputerM ! j).
                xless (Fin 10) (xabs (der_params st (coders_of t OutputerM ! j) k)) \<longrightarrow>
                LargeGradient j (n_params sub (coders_of t OutputerM ! j)) k
                  (der_params st (coders_of t OutputerM ! j) k) \<in> set out"
    by blast
  have m0: "LargeGradient 0 1 0 (Fin 12) \<in> set out"
    using r [unfolded states, rule_format, of st0 0 0] g0 by (simp add: np)
  have m1: "LargeGradient 0 1 0 (Fin 14) \<in> set out"
    using r [unfolded states, rule_format, of st1 0 0] g1 by (simp add: np)
  have "EvalHessian sub t OutputerM SupCriterion (Some (TrainData 0)) 2 s = Inr (Fin 1, out, s')"
    using e unfolding mv by (simp add: ar exact_ops_def)
  with m0 m1 show ?thesis
    unfolding t option.sel sub_def [symmetric] s_def [symmetric] by blast
qed


subsection \<open>IterInitialize\<close>

lemma gradients_only_refl [simp]: "gradients_only s s"
  by (simp add: gradients_only_def)

lemma gradients_only_trans:
  "gradients_only s s1 \<Longrightarrow> gradients_only s1 s2 \<Longrightarrow> gradients_only s s2"
  by (cases s; cases s1; cases s2) (simp add: gradients_only_def)

lemma gradients_only_fields:
  assumes "gradients_only s s'"
  shows "params s' = params s" "machine s' = machine s" "criterion s' = criterion s"
    "criterions_weights s' = criterions_weights s" "epoch s' = epoch s"
    "is_finetuning s' = is_finetuning s" "layerwise_training s' = layerwise_training s"
    "layerwise_layer s' = layerwise_layer s" "topK_training s' = topK_training s"
    "topKlayers s' = topKlayers s" "profile_gradients s' = profile_gradients s"
    "do_eval_criterion_weights s' = do_eval_criterion_weights s"
    "sup_dataset s' = sup_dataset s" "partial_backprop s' = partial_backprop s"
    "finetuning_learning_rates s' = finetuning_learning_rates s"
  using assms by (cases s; cases s'; simp add: gradients_only_def)+


lemma run_primitive_gradients_only: "gradients_only s (run_primitive sub sae d e c s)"
  by (cases c) (simp_all add: gradients_only_def ClearDerivatives_def)

lemma sample_pass_gradients_only:
  "gradients_only s (sample_pass sub sae the_gm the_criterion d i s)"
proof -
  have c: "gradients_only s (ClearDerivatives sae the_gm s)"
    by (simp add: gradients_only_def ClearDerivatives_def)
  have f: "gradients_only s0 (fold (run_primitive sub sae d i) cs s0)" for cs s0
    by (induction cs arbitrary: s0)
       (auto intro: gradients_only_trans run_primitive_gradients_only)
  show ?thesis
    unfolding sample_pass_def by (rule gradients_only_trans [OF c f])
qed

lemma fold_sample_pass_gradients_only:
  "gradients_only s (fold (sample_pass sub sae the_gm the_criterion d) is s)"
  by (induction "is" arbitrary: s)
     (auto intro: gradients_only_trans sample_pass_gradients_only)

lemma EvalHessian_result:
  assumes "valid_machine sae the_gm" "n \<le> n_examples sub d"
  shows "\<exists>out s'.
           EvalHessian sub sae the_gm the_criterion (Some d) n s
           = Inr (frecip (arith sub)
                    (max_gradient_variance (arith sub)
                       (gradient_samples sub sae the_gm the_criterion d n s)
                       (sum_list (map (n_params sub) (coders_of sae the_gm)))),
                  out, s')
         \<and> gradients_only s s'"
  using EvalHessian_eq [OF assms, of the_criterion s]
    fold_sample_pass_gradients_only [of s sub sae the_gm the_criterion d "[0..<n]"]
  by blast

text \<open>
  In exact arithmetic and for positive variances, the weight the code computes from
  the two inverse variances is the square root of the ratio of the variances.
\<close>

lemma inverse_variance_ratio:
  assumes "0 < v0" "0 < v"
  shows "fsqrt exact_ops (fdiv exact_ops (frecip exact_ops (Fin v)) (frecip exact_ops (Fin v0)))
         = Fin (sqrt (v0 / v))"
  using assms by (simp add: exact_ops_def field_simps)

lemma normalize_fold:
  "fold (\<lambda>i s'. s'\<lparr>criterions_weights :=
                   (criterions_weights s')
                     [1 + i := fsqrt A (fdiv A (criterions_weights s' ! (1 + i))
                                               (criterions_weights s' ! 0))]\<rparr>) [0..<k] s
   = s\<lparr>criterions_weights :=
         map (\<lambda>j. if 1 \<le> j \<and> j \<le> k
                   then fsqrt A (fdiv A (criterions_weights s ! j) (criterions_weights s ! 0))
                   else criterions_weights s ! j)
             [0..<length (criterions_weights s)]\<rparr>"
proof (induction k)
  case 0
  have "map (\<lambda>j. if 1 \<le> j \<and> j \<le> 0
                   then fsqrt A (fdiv A (criterions_weights s ! j) (criterions_weights s ! 0))
                   else criterions_weights s ! j)
            [0..<length (criterions_weights s)] = criterions_weights s"
    by (rule nth_equalityI) auto
  then show ?case by simp
next
  case (Suc k)
  let ?w = "criterions_weights s"
  let ?m = "map (\<lambda>j. if 1 \<le> j \<and> j \<le> k then fsqrt A (fdiv A (?w ! j) (?w ! 0)) else ?w ! j)
                [0..<length ?w]"
  have z: "?m ! 0 = ?w ! 0" if "Suc k < length ?w"
  proof -
    from that have "0 < length ?w" by arith
    then show ?thesis by (simp del: upt_Suc)
  qed
  have "?m[Suc k := fsqrt A (fdiv A (?m ! Suc k) (?m ! 0))]
        = map (\<lambda>j. if 1 \<le> j \<and> j \<le> Suc k then fsqrt A (fdiv A (?w ! j) (?w ! 0)) else ?w ! j)
              [0..<length ?w]"
    using z by - (rule nth_equalityI, auto simp: nth_list_update le_Suc_eq simp del: upt_Suc)
  then show ?case
    using Suc by simp
qed


lemma gradients_only_weights:
  "gradients_only (a\<lparr>criterions_weights := criterions_weights b\<rparr>) b \<Longrightarrow> gradients_only b c \<Longrightarrow>
   gradients_only (a\<lparr>criterions_weights := w\<rparr>) (c\<lparr>criterions_weights := w\<rparr>)"
  by (cases a; cases b; cases c) (simp add: gradients_only_def)

lemma hessian_loop:
  assumes "k \<le> n_hidden_layers sae"
      and "\<And>i. i < k \<Longrightarrow> 1000 \<le> n_examples sub (UnsupDataset i)"
  shows "\<exists>s1 vs.
           for_each
             (\<lambda>i s'. bind_err (EvalHessian sub sae (Mesd i) (UnsupCriterion i)
                                  (Some (UnsupDataset i)) 1000 s')
                        (\<lambda>(h', out', s''). Inr (s''\<lparr>criterions_weights :=
                                                  (criterions_weights s'')[1 + i := h']\<rparr>)))
             [0..<k] s0 = Inr s1
         \<and> length vs = k
         \<and> gradients_only (s0\<lparr>criterions_weights := criterions_weights s1\<rparr>) s1
         \<and> criterions_weights s1
             = map (\<lambda>j. if 1 \<le> j \<and> j \<le> k then frecip (arith sub) (vs ! (j - 1))
                        else criterions_weights s0 ! j)
                   [0..<length (criterions_weights s0)]
         \<and> (\<forall>i<k. \<exists>si. gradients_only (s0\<lparr>criterions_weights := criterions_weights si\<rparr>) si
                  \<and> vs ! i = max_gradient_variance (arith sub)
                       (gradient_samples sub sae (Mesd i) (UnsupCriterion i) (UnsupDataset i) 1000 si)
                       (sum_list (map (n_params sub) (coders_of sae (Mesd i)))))"
  using assms
proof (induction k)
  case 0
  have "criterions_weights s0
        = map (\<lambda>j. if 1 \<le> j \<and> j \<le> 0 then frecip (arith sub) ([] ! (j - 1))
                   else criterions_weights s0 ! j) [0..<length (criterions_weights s0)]"
    by (rule nth_equalityI) auto
  then show ?case
    by (intro exI [of _ s0] exI [of _ "[]"]) (simp add: gradients_only_def)
next
  case (Suc k)
  let ?F = "\<lambda>i s'. bind_err (EvalHessian sub sae (Mesd i) (UnsupCriterion i)
                                  (Some (UnsupDataset i)) 1000 s')
                        (\<lambda>(h', out', s''). Inr (s''\<lparr>criterions_weights :=
                                                  (criterions_weights s'')[1 + i := h']\<rparr>))"
  let ?mv = "\<lambda>i si. max_gradient_variance (arith sub)
                       (gradient_samples sub sae (Mesd i) (UnsupCriterion i) (UnsupDataset i) 1000 si)
                       (sum_list (map (n_params sub) (coders_of sae (Mesd i))))"
  from Suc.IH Suc.prems obtain s1 vs where
    run: "for_each ?F [0..<k] s0 = Inr s1" and len: "length vs = k"
    and fr: "gradients_only (s0\<lparr>criterions_weights := criterions_weights s1\<rparr>) s1"
    and cw: "criterions_weights s1
             = map (\<lambda>j. if 1 \<le> j \<and> j \<le> k then frecip (arith sub) (vs ! (j - 1))
                        else criterions_weights s0 ! j)
                   [0..<length (criterions_weights s0)]"
    and each: "\<forall>i<k. \<exists>si. gradients_only (s0\<lparr>criterions_weights := criterions_weights si\<rparr>) si
                  \<and> vs ! i = ?mv i si"
    by (auto simp: less_Suc_eq)
  have valid: "valid_machine sae (Mesd k)" using Suc.prems(1) by simp
  have ex: "1000 \<le> n_examples sub (UnsupDataset k)" using Suc.prems(2) by simp
  from EvalHessian_result [OF valid ex, of "UnsupCriterion k" s1]
  obtain out s1' where
    ev: "EvalHessian sub sae (Mesd k) (UnsupCriterion k) (Some (UnsupDataset k)) 1000 s1
         = Inr (frecip (arith sub) (?mv k s1), out, s1')"
    and fr1: "gradients_only s1 s1'"
    by blast
  let ?s2 = "s1'\<lparr>criterions_weights := (criterions_weights s1)[1 + k := frecip (arith sub) (?mv k s1)]\<rparr>"
  let ?vs = "vs @ [?mv k s1]"
  have cw1: "criterions_weights s1' = criterions_weights s1"
    by (rule gradients_only_fields(4) [OF fr1])
  have sp: "[0..<Suc k] = [0..<k] @ [k]" by simp
  have run2: "for_each ?F [0..<Suc k] s0 = Inr ?s2"
    by (simp only: sp for_each_append run bind_err_simps for_each.simps ev prod.case cw1)
  have len2: "length ?vs = Suc k" using len by simp
  have fr2: "gradients_only (s0\<lparr>criterions_weights := criterions_weights ?s2\<rparr>) ?s2"
    using gradients_only_weights [OF fr fr1] by simp
  have cw2: "criterions_weights ?s2
             = map (\<lambda>j. if 1 \<le> j \<and> j \<le> Suc k then frecip (arith sub) (?vs ! (j - 1))
                        else criterions_weights s0 ! j)
                   [0..<length (criterions_weights s0)]"
    unfolding trainer.simps cw
    by (rule nth_equalityI) (auto simp: nth_list_update le_Suc_eq nth_append len simp del: upt_Suc)
  have each2: "\<forall>i<Suc k. \<exists>si. gradients_only (s0\<lparr>criterions_weights := criterions_weights si\<rparr>) si
                  \<and> ?vs ! i = ?mv i si"
  proof (intro allI impI)
    fix i assume "i < Suc k"
    then consider "i < k" | "i = k" by arith
    then show "\<exists>si. gradients_only (s0\<lparr>criterions_weights := criterions_weights si\<rparr>) si
                  \<and> ?vs ! i = ?mv i si"
    proof cases
      case 1
      with each len show ?thesis by (simp add: nth_append)
    next
      case 2
      with fr len show ?thesis by (intro exI [of _ s1]) (simp add: nth_append)
    qed
  qed
  show ?case
    using run2 len2 fr2 cw2 each2 by blast
qed


lemma gradients_only_rebase:
  "gradients_only s a \<Longrightarrow>
   gradients_only (a\<lparr>criterions_weights := w\<rparr>\<lparr>criterions_weights := criterions_weights b\<rparr>) b \<Longrightarrow>
   gradients_only (s\<lparr>criterions_weights := criterions_weights b\<rparr>) b"
  by (cases s; cases a; cases b) (simp add: gradients_only_def)

lemma IterInitialize_enabled:
  assumes en: "do_eval_criterion_weights s" "epoch s \<noteq> 0"
      and sd: "sup_dataset s = Some d" "1000 \<le> n_examples sub d"
      and ud: "\<And>i. i < n_hidden_layers sae \<Longrightarrow> 1000 \<le> n_examples sub (UnsupDataset i)"
      and len: "length (criterions_weights s) = n_hidden_layers sae + 1"
  shows "\<exists>s' v0 vs.
           IterInitialize sub sae s = Inr s'
         \<and> length vs = n_hidden_layers sae
         \<and> v0 = max_gradient_variance (arith sub) (gradient_samples sub sae Sae SupCriterion d 1000 s)
                  (sum_list (map (n_params sub) (coders_of sae Sae)))
         \<and> (\<forall>i < n_hidden_layers sae.
               \<exists>si. gradients_only (s\<lparr>criterions_weights := criterions_weights si\<rparr>) si
                  \<and> vs ! i = max_gradient_variance (arith sub)
                       (gradient_samples sub sae (Mesd i) (UnsupCriterion i) (UnsupDataset i) 1000 si)
                       (sum_list (map (n_params sub) (coders_of sae (Mesd i)))))
         \<and> criterions_weights s'
             = Fin 1 # map (\<lambda>v. fsqrt (arith sub) (fdiv (arith sub) (frecip (arith sub) v) (frecip (arith sub) v0))) vs
         \<and> gradients_only (s\<lparr>criterions_weights := criterions_weights s'\<rparr>) s'"
proof -
  let ?n = "n_hidden_layers sae"
  let ?v0 = "max_gradient_variance (arith sub) (gradient_samples sub sae Sae SupCriterion d 1000 s)
                  (sum_list (map (n_params sub) (coders_of sae Sae)))"
  let ?mv = "\<lambda>i si. max_gradient_variance (arith sub)
                       (gradient_samples sub sae (Mesd i) (UnsupCriterion i) (UnsupDataset i) 1000 si)
                       (sum_list (map (n_params sub) (coders_of sae (Mesd i))))"
  let ?F = "\<lambda>i s'. bind_err (EvalHessian sub sae (Mesd i) (UnsupCriterion i)
                                  (Some (UnsupDataset i)) 1000 s')
                        (\<lambda>(h', out', s''). Inr (s''\<lparr>criterions_weights :=
                                                  (criterions_weights s'')[1 + i := h']\<rparr>))"
  have valid: "valid_machine sae Sae" by simp
  from EvalHessian_result [OF valid sd(2), of SupCriterion s]
  obtain out0 s0' where
    e0: "EvalHessian sub sae Sae SupCriterion (Some d) 1000 s = Inr (frecip (arith sub) ?v0, out0, s0')"
    and fr0: "gradients_only s s0'"
    by blast
  let ?s0 = "s0'\<lparr>criterions_weights := (criterions_weights s0')[0 := frecip (arith sub) ?v0]\<rparr>"
  have cw0': "criterions_weights s0' = criterions_weights s"
    by (rule gradients_only_fields(4) [OF fr0])
  have len0: "length (criterions_weights ?s0) = ?n + 1"
    by (simp add: cw0' len)
  from hessian_loop [OF le_refl ud, of sae ?s0]
  obtain s1 vs where
    run: "for_each ?F [0..<?n] ?s0 = Inr s1" and lvs: "length vs = ?n"
    and fr1: "gradients_only (?s0\<lparr>criterions_weights := criterions_weights s1\<rparr>) s1"
    and cw1: "criterions_weights s1
             = map (\<lambda>j. if 1 \<le> j \<and> j \<le> ?n then frecip (arith sub) (vs ! (j - 1))
                        else criterions_weights ?s0 ! j)
                   [0..<length (criterions_weights ?s0)]"
    and each: "\<forall>i<?n. \<exists>si. gradients_only (?s0\<lparr>criterions_weights := criterions_weights si\<rparr>) si
                  \<and> vs ! i = ?mv i si"
    by blast
  let ?w2 = "map (\<lambda>j. if 1 \<le> j \<and> j \<le> ?n
                   then fsqrt (arith sub) (fdiv (arith sub) (criterions_weights s1 ! j) (criterions_weights s1 ! 0))
                   else criterions_weights s1 ! j)
             [0..<length (criterions_weights s1)]"
  let ?s' = "s1\<lparr>criterions_weights := ?w2[0 := Fin 1]\<rparr>"
  have it: "IterInitialize sub sae s = Inr ?s'"
    unfolding IterInitialize_def
    by (simp only: en sd(1) e0 bind_err_simps prod.case run normalize_fold Let_def
          trainer.simps simp_thms if_True) simp
  have l1: "length (criterions_weights s1) = ?n + 1"
    unfolding cw1 using len0 by simp
  have w10: "criterions_weights s1 ! 0 = frecip (arith sub) ?v0"
    unfolding cw1 using len0 cw0' len by (simp del: upt_Suc)
  have w1j: "criterions_weights s1 ! Suc i = frecip (arith sub) (vs ! i)" if "i < ?n" for i
    unfolding cw1 using len0 that by (simp del: upt_Suc)
  have cw': "criterions_weights ?s'
             = Fin 1 # map (\<lambda>v. fsqrt (arith sub) (fdiv (arith sub) (frecip (arith sub) v) (frecip (arith sub) ?v0))) vs"
  proof (rule nth_equalityI)
    show "length (criterions_weights ?s')
          = length (Fin 1 # map (\<lambda>v. fsqrt (arith sub) (fdiv (arith sub) (frecip (arith sub) v) (frecip (arith sub) ?v0))) vs)"
      using l1 lvs by simp
  next
    fix j assume "j < length (criterions_weights ?s')"
    then have j: "j < ?n + 1" using l1 by simp
    show "criterions_weights ?s' ! j
          = (Fin 1 # map (\<lambda>v. fsqrt (arith sub) (fdiv (arith sub) (frecip (arith sub) v) (frecip (arith sub) ?v0))) vs) ! j"
    proof (cases j)
      case 0
      then show ?thesis using l1 by simp
    next
      case (Suc i)
      then have i: "i < ?n" using j by simp
      then have "criterions_weights ?s' ! j
                 = fsqrt (arith sub) (fdiv (arith sub) (criterions_weights s1 ! Suc i) (criterions_weights s1 ! 0))"
        using l1 Suc by (simp del: upt_Suc)
      then show ?thesis
        using i lvs Suc by (simp add: w10 w1j)
    qed
  qed
  have each': "\<forall>i<?n. \<exists>si. gradients_only (s\<lparr>criterions_weights := criterions_weights si\<rparr>) si
                  \<and> vs ! i = ?mv i si"
    using each gradients_only_rebase [OF fr0] by blast
  have fr': "gradients_only (s\<lparr>criterions_weights := criterions_weights ?s'\<rparr>) ?s'"
    using gradients_only_rebase [OF fr0 fr1] by (cases s; cases s1) (simp add: gradients_only_def)
  show ?thesis
    using it lvs each' cw' fr' by blast
qed


text \<open>
  C6 (as amended). \<open>IterInitialize\<close> does nothing unless reweighting is enabled and the
  epoch counter is past \<open>0\<close>: in the first iteration the trainer ever runs, no variance
  is estimated and the weights stay as they are. Otherwise, given what the assertions
  of \<open>EvalHessian\<close> need (the supervised data set assigned, 1000 examples in every
  data set), it takes \<open>v0\<close>, the largest per-parameter gradient variance of the
  supervised machine and criterion over 1000 samples, and for each hidden layer
  \<open>vs ! i\<close>, the same for that layer's cumulative machine and criterion, each
  estimated in a state that differs from the start only in weights, gradients and
  sequences; it sets the supervised weight to \<open>1.0\<close> and the weight of layer \<open>i\<close> to
  the square root of \<open>(1.0 / vs ! i) / (1.0 / v0)\<close>. Variances, inverses, quotient and
  square root are in the arithmetic of \<open>real\<close>; in exact arithmetic and for positive
  variances the weight is the square root of \<open>v0 / vs ! i\<close> (lemma
  \<open>inverse_variance_ratio\<close>).
\<close>

theorem IterInitialize_reweights_after_first_epoch:
  "(\<not> (do_eval_criterion_weights s \<and> epoch s \<noteq> 0) \<longrightarrow> IterInitialize sub sae s = Inr s)
   \<and> (do_eval_criterion_weights s \<and> epoch s \<noteq> 0
       \<and> sup_dataset s = Some d \<and> 1000 \<le> n_examples sub d
       \<and> (\<forall>i < n_hidden_layers sae. 1000 \<le> n_examples sub (UnsupDataset i))
       \<and> length (criterions_weights s) = n_hidden_layers sae + 1
      \<longrightarrow> (\<exists>s' v0 vs.
             IterInitialize sub sae s = Inr s'
           \<and> length vs = n_hidden_layers sae
           \<and> v0 = max_gradient_variance (arith sub) (gradient_samples sub sae Sae SupCriterion d 1000 s)
                    (sum_list (map (n_params sub) (coders_of sae Sae)))
           \<and> (\<forall>i < n_hidden_layers sae.
                 \<exists>si. gradients_only (s\<lparr>criterions_weights := criterions_weights si\<rparr>) si
                    \<and> vs ! i = max_gradient_variance (arith sub)
                         (gradient_samples sub sae (Mesd i) (UnsupCriterion i) (UnsupDataset i) 1000 si)
                         (sum_list (map (n_params sub) (coders_of sae (Mesd i)))))
           \<and> criterions_weights s'
               = Fin 1 # map (\<lambda>v. fsqrt (arith sub) (fdiv (arith sub) (frecip (arith sub) v) (frecip (arith sub) v0))) vs
           \<and> gradients_only (s\<lparr>criterions_weights := criterions_weights s'\<rparr>) s'))"
proof (intro conjI impI)
  assume "\<not> (do_eval_criterion_weights s \<and> epoch s \<noteq> 0)"
  then show "IterInitialize sub sae s = Inr s"
    by (auto simp: IterInitialize_def)
next
  assume a: "do_eval_criterion_weights s \<and> epoch s \<noteq> 0
       \<and> sup_dataset s = Some d \<and> 1000 \<le> n_examples sub d
       \<and> (\<forall>i < n_hidden_layers sae. 1000 \<le> n_examples sub (UnsupDataset i))
       \<and> length (criterions_weights s) = n_hidden_layers sae + 1"
  then have ud: "\<And>i. i < n_hidden_layers sae \<Longrightarrow> 1000 \<le> n_examples sub (UnsupDataset i)"
    by blast
  from a IterInitialize_enabled [of s d sub sae, OF _ _ _ _ ud]
  obtain s' v0 vs where
    r: "IterInitialize sub sae s = Inr s'" "length vs = n_hidden_layers sae"
       "v0 = max_gradient_variance (arith sub) (gradient_samples sub sae Sae SupCriterion d 1000 s)
                    (sum_list (map (n_params sub) (coders_of sae Sae)))"
       "\<forall>i < n_hidden_layers sae.
                 \<exists>si. gradients_only (s\<lparr>criterions_weights := criterions_weights si\<rparr>) si
                    \<and> vs ! i = max_gradient_variance (arith sub)
                         (gradient_samples sub sae (Mesd i) (UnsupCriterion i) (UnsupDataset i) 1000 si)
                         (sum_list (map (n_params sub) (coders_of sae (Mesd i))))"
       "criterions_weights s'
               = Fin 1 # map (\<lambda>v. fsqrt (arith sub) (fdiv (arith sub) (frecip (arith sub) v) (frecip (arith sub) v0))) vs"
       "gradients_only (s\<lparr>criterions_weights := criterions_weights s'\<rparr>) s'"
    by blast
  show "\<exists>s' v0 vs.
             IterInitialize sub sae s = Inr s'
           \<and> length vs = n_hidden_layers sae
           \<and> v0 = max_gradient_variance (arith sub) (gradient_samples sub sae Sae SupCriterion d 1000 s)
                    (sum_list (map (n_params sub) (coders_of sae Sae)))
           \<and> (\<forall>i < n_hidden_layers sae.
                 \<exists>si. gradients_only (s\<lparr>criterions_weights := criterions_weights si\<rparr>) si
                    \<and> vs ! i = max_gradient_variance (arith sub)
                         (gradient_samples sub sae (Mesd i) (UnsupCriterion i) (UnsupDataset i) 1000 si)
                         (sum_list (map (n_params sub) (coders_of sae (Mesd i)))))
           \<and> criterions_weights s'
               = Fin 1 # map (\<lambda>v. fsqrt (arith sub) (fdiv (arith sub) (frecip (arith sub) v) (frecip (arith sub) v0))) vs
           \<and> gradients_only (s\<lparr>criterions_weights := criterions_weights s'\<rparr>) s'"
    using r by blast
qed

theorem IterInitialize_reweights_after_first_epoch_witness:
  "IterInitialize
     \<lparr> n_examples = (\<lambda>_. 1000), n_params = (\<lambda>_. 1),
          run_forward = (\<lambda>_ _ _ s. buffers s),
          run_backward = (\<lambda>_ _ e _ _ _. Fin (real e)),
          sgd = (\<lambda>lr p g k. xsub (p k) (xmul (Fin lr) (g k))),
          arith = exact_ops \<rparr> (the (StackedAutoencoder ''tanh'' False False 4 1 [3] 2 False False))
     (StackedAutoencoderTrainer (the (StackedAutoencoder ''tanh'' False False 4 1 [3] 2 False False)) True (\<lambda>_. False) (\<lambda>_ _. Fin 0))
   = Inr (StackedAutoencoderTrainer (the (StackedAutoencoder ''tanh'' False False 4 1 [3] 2 False False)) True (\<lambda>_. False) (\<lambda>_ _. Fin 0))
   \<and> (\<exists>s' v0 vs.
        IterInitialize
          \<lparr> n_examples = (\<lambda>_. 1000), n_params = (\<lambda>_. 1),
          run_forward = (\<lambda>_ _ _ s. buffers s),
          run_backward = (\<lambda>_ _ e _ _ _. Fin (real e)),
          sgd = (\<lambda>lr p g k. xsub (p k) (xmul (Fin lr) (g k))),
          arith = exact_ops \<rparr> (the (StackedAutoencoder ''tanh'' False False 4 1 [3] 2 False False))
          ((StackedAutoencoderTrainer (the (StackedAutoencoder ''tanh'' False False 4 1 [3] 2 False False)) True (\<lambda>_. False) (\<lambda>_ _. Fin 0))
             \<lparr>sup_dataset := Some (TrainData 0), epoch := 1\<rparr>)
        = Inr s'
      \<and> length vs = 1
      \<and> criterions_weights s'
         = Fin 1 # map (\<lambda>v. xsqrt (xdiv (xdiv (Fin 1) v) (xdiv (Fin 1) v0))) vs)"
proof -
  define sub where "sub = \<lparr> n_examples = (\<lambda>_. 1000), n_params = (\<lambda>_. 1),
          run_forward = (\<lambda>_ _ _ s. buffers s),
          run_backward = (\<lambda>_ _ e _ _ _. Fin (real e)),
          sgd = (\<lambda>lr p g k. xsub (p k) (xmul (Fin lr) (g k))),
          arith = exact_ops \<rparr>"
  obtain t where t: "StackedAutoencoder ''tanh'' False False 4 1 [3] 2 False False = Some t"
    by (simp add: StackedAutoencoder_def Let_def)
  have n: "n_hidden_layers t = 1"
    using t by (auto simp: StackedAutoencoder_def Let_def)
  define s0 where "s0 = StackedAutoencoderTrainer t True (\<lambda>_. False) (\<lambda>_ _. Fin 0)"
  define s1 where "s1 = s0\<lparr>sup_dataset := Some (TrainData 0), epoch := 1\<rparr>"
  have h0: "\<not> (do_eval_criterion_weights s0 \<and> epoch s0 \<noteq> 0)"
    by (simp add: s0_def StackedAutoencoderTrainer_def)
  have h1: "do_eval_criterion_weights s1 \<and> epoch s1 \<noteq> 0
       \<and> sup_dataset s1 = Some (TrainData 0) \<and> 1000 \<le> n_examples sub (TrainData 0)
       \<and> (\<forall>i < n_hidden_layers t. 1000 \<le> n_examples sub (UnsupDataset i))
       \<and> length (criterions_weights s1) = n_hidden_layers t + 1"
    by (simp add: s1_def s0_def StackedAutoencoderTrainer_def sub_def n)
  have a: "IterInitialize sub t s0 = Inr s0"
    using IterInitialize_reweights_after_first_epoch [of s0 sub t "TrainData 0"] h0 by blast
  have ar: "fsqrt (arith sub) = xsqrt" "fdiv (arith sub) = xdiv" "frecip (arith sub) = xdiv (Fin 1)"
    by (simp_all add: sub_def exact_ops_def)
  have b: "\<exists>s' v0 vs. IterInitialize sub t s1 = Inr s' \<and> length vs = 1
      \<and> criterions_weights s'
         = Fin 1 # map (\<lambda>v. xsqrt (xdiv (xdiv (Fin 1) v) (xdiv (Fin 1) v0))) vs"
    using IterInitialize_reweights_after_first_epoch [of s1 sub t "TrainData 0"] h1
    unfolding n ar by blast
  show ?thesis
    unfolding t option.sel sub_def [symmetric] s0_def [symmetric] s1_def [symmetric]
    using a b by blast
qed

text \<open>
  C6 as stated has the estimate before each iteration. With reweighting enabled, a
  fresh trainer's first \<open>IterInitialize\<close> leaves both weights at their initial \<open>0.0\<close>
  rather than setting the supervised one to \<open>1.0\<close>.
\<close>

theorem IterInitialize_first_epoch_counterexample:
  "map_sum id criterions_weights
     (IterInitialize
        \<lparr> n_examples = (\<lambda>_. 1000), n_params = (\<lambda>_. 1),
          run_forward = (\<lambda>_ _ _ s. buffers s),
          run_backward = (\<lambda>_ _ e _ _ _. Fin (real e)),
          sgd = (\<lambda>lr p g k. xsub (p k) (xmul (Fin lr) (g k))),
          arith = exact_ops \<rparr> (the (StackedAutoencoder ''tanh'' False False 4 1 [3] 2 False False))
        (StackedAutoencoderTrainer (the (StackedAutoencoder ''tanh'' False False 4 1 [3] 2 False False)) True (\<lambda>_. False) (\<lambda>_ _. Fin 0)))
   = Inr [Fin 0, Fin 0]"
  by (simp add: IterInitialize_def StackedAutoencoderTrainer_def StackedAutoencoder_def Let_def)

subsection \<open>The layerwise phase\<close>

lemma for_each_gradients_only:
  assumes "\<And>x s s'. f x s = Inr s' \<Longrightarrow> gradients_only s s'"
  shows "for_each f xs s = Inr s' \<Longrightarrow> gradients_only s s'"
proof (induction xs arbitrary: s)
  case Nil
  then show ?case by (simp add: gradients_only_refl)
next
  case (Cons x xs)
  from Cons.prems obtain s1 where 1: "f x s = Inr s1" and 2: "for_each f xs s1 = Inr s'"
    by (auto simp: bind_err_Inr)
  from assms [OF 1] Cons.IH [OF 2] show ?case by (rule gradients_only_trans)
qed

lemma run_checked_gradients_only:
  "run_checked sub sae d e c s = Inr s' \<Longrightarrow> gradients_only s s'"
  by (auto simp: run_checked_def run_primitive_gradients_only split: if_splits)

lemma run_call_gradients_only:
  "run_call sub sae d e c s = Inr s' \<Longrightarrow> gradients_only s s'"
  unfolding run_call_def
  by (auto split: if_splits intro: run_checked_gradients_only
           elim: for_each_gradients_only [rotated])

lemma run_calls_gradients_only:
  "run_calls sub sae d e cs s = Inr s' \<Longrightarrow> gradients_only s s'"
  unfolding run_calls_def
  by (rule for_each_gradients_only [OF run_call_gradients_only])

lemma ClearDerivatives_gradients_only: "gradients_only s (ClearDerivatives sae gm s)"
  by (simp add: gradients_only_def ClearDerivatives_def)

lemma sample_loop_gradients_only:
  "sample_loop sub sae the_gm the_criterion d is (s, acc) = Inr (s', acc') \<Longrightarrow> gradients_only s s'"
proof (induction "is" arbitrary: s acc)
  case Nil
  then show ?case by (simp add: gradients_only_refl)
next
  case (Cons i "is")
  from Cons.prems obtain s1 where
    1: "run_calls sub sae d i
          [Forward the_gm DataInputs,
           CriterionForward the_criterion (Outputs the_gm),
           CriterionBackward the_criterion (Outputs the_gm) NoTarget,
           Backward the_gm DataInputs (CriterionBeta the_criterion)]
          (ClearDerivatives sae the_gm s) = Inr s1"
    and 2: "sample_loop sub sae the_gm the_criterion d is
              (s1, measure_example sub (coders_of sae the_gm) s1 acc) = Inr (s', acc')"
    by (auto simp: bind_err_Inr)
  from gradients_only_trans [OF ClearDerivatives_gradients_only run_calls_gradients_only [OF 1]]
    Cons.IH [OF 2]
  show ?case by (rule gradients_only_trans)
qed

lemma EvalHessian_gradients_only:
  assumes "EvalHessian sub sae the_gm the_criterion the_data n s = Inr (h, out, s')"
  shows "gradients_only s s'"
proof -
  from assms obtain d where d: "the_data = Some d"
    by (cases the_data) (auto simp: EvalHessian_def)
  let ?np = "sum_list (map (n_params sub) (coders_of sae the_gm))"
  let ?loop = "sample_loop sub sae the_gm the_criterion d [0..<n]
                 (s, replicate ?np (Fin 0), replicate ?np (Fin 0), [])"
  from assms have ok: "n \<le> n_examples sub d"
    unfolding EvalHessian_def d by (auto split: if_splits)
  show ?thesis
  proof (cases ?loop)
    case (Inl e)
    with assms ok show ?thesis
      unfolding EvalHessian_def d by (simp add: Let_def)
  next
    case (Inr r)
    obtain s1 sx sx2 msgs where r: "r = (s1, sx, sx2, msgs)" by (cases r) auto
    obtain a b c mv where m: "max_variance_loop (arith sub) n sx sx2 ?np = (a, b, c, mv)"
      by (cases "max_variance_loop (arith sub) n sx sx2 ?np") auto
    from assms ok have "s1 = s'"
      unfolding EvalHessian_def d by (simp add: Let_def Inr r m)
    with Inr r show ?thesis
      by (auto dest: sample_loop_gradients_only)
  qed
qed


lemma updates_only_refl [simp]: "updates_only C s s"
  by (simp add: updates_only_def)

lemma updates_only_trans:
  "updates_only C s s1 \<Longrightarrow> updates_only C s1 s2 \<Longrightarrow> updates_only C s s2"
  by (cases s; cases s1; cases s2) (simp add: updates_only_def)

lemma updates_only_mono: "updates_only C s s' \<Longrightarrow> C \<subseteq> D \<Longrightarrow> updates_only D s s'"
  by (auto simp: updates_only_def)

lemma updates_only_fields:
  assumes "updates_only C s s'"
  shows "machine s' = machine s"
    and "criterion s' = criterion s"
    and "do_eval_criterion_weights s' = do_eval_criterion_weights s"
    and "is_finetuning s' = is_finetuning s"
    and "layerwise_training s' = layerwise_training s"
    and "layerwise_layer s' = layerwise_layer s"
    and "profile_gradients s' = profile_gradients s"
    and "topK_training s' = topK_training s"
    and "sup_dataset s' = sup_dataset s"
    and "\<And>c. c \<notin> C \<Longrightarrow> params s' c = params s c"
  using assms by (cases s; cases s'; simp add: updates_only_def)+

lemma gradients_only_updates_only: "gradients_only s s' \<Longrightarrow> updates_only C s s'"
  by (cases s; cases s') (simp add: gradients_only_def updates_only_def)

lemma weights_updates_only: "updates_only C s (s\<lparr>criterions_weights := w\<rparr>)"
  by (simp add: updates_only_def)

lemma fold_updates_only:
  assumes "\<And>x s. updates_only C s (f x s)"
  shows "updates_only C s (fold f xs s)"
proof (induction xs arbitrary: s)
  case Nil
  show ?case by simp
next
  case (Cons x xs)
  from assms [of s x] Cons.IH [of "f x s"] show ?case
    by (simp add: updates_only_trans)
qed

lemma for_each_updates_only:
  assumes "\<And>x s s'. machine s = m \<Longrightarrow> f x s = Inr s' \<Longrightarrow> updates_only C s s'"
  shows "machine s = m \<Longrightarrow> for_each f xs s = Inr s' \<Longrightarrow> updates_only C s s'"
proof (induction xs arbitrary: s)
  case Nil
  then show ?case by simp
next
  case (Cons x xs)
  from Cons.prems obtain s1 where 1: "f x s = Inr s1" and 2: "for_each f xs s1 = Inr s'"
    by (auto simp: bind_err_Inr)
  from assms [OF Cons.prems(1) 1] have u: "updates_only C s s1" .
  then have "machine s1 = m" using Cons.prems(1) by (simp add: updates_only_fields)
  from u Cons.IH [OF this 2] show ?case by (rule updates_only_trans)
qed

lemma EvalHessian_weight_updates_only:
  assumes "bind_err (EvalHessian sub sae gm cr data n s)
             (\<lambda>(h, out, s''). Inr (s''\<lparr>criterions_weights := w h s''\<rparr>)) = Inr s'"
  shows "updates_only C s s'"
proof -
  from assms obtain h out s1 where
    1: "EvalHessian sub sae gm cr data n s = Inr (h, out, s1)"
    and 2: "s' = s1\<lparr>criterions_weights := w h s1\<rparr>"
    by (auto simp: bind_err_Inr)
  from EvalHessian_gradients_only [OF 1] have "updates_only C s s1"
    by (rule gradients_only_updates_only)
  then show ?thesis unfolding 2
    by (rule updates_only_trans) (rule weights_updates_only)
qed

lemma IterInitialize_updates_only:
  assumes "IterInitialize sub sae s = Inr s'"
  shows "updates_only C s s'"
proof (cases "do_eval_criterion_weights s \<and> epoch s \<noteq> 0")
  case False
  with assms show ?thesis by (auto simp: IterInitialize_def)
next
  case True
  let ?step = "\<lambda>i s'. bind_err (EvalHessian sub sae (Mesd i) (UnsupCriterion i)
                                       (Some (UnsupDataset i)) 1000 s')
                             (\<lambda>(h', out', s''). Inr (s''\<lparr>criterions_weights :=
                                                       (criterions_weights s'')[1 + i := h']\<rparr>))"
  let ?norm = "\<lambda>i s'. s'\<lparr>criterions_weights :=
                                   (criterions_weights s')
                                     [1 + i := fsqrt (arith sub)
                                                 (fdiv (arith sub) (criterions_weights s' ! (1 + i))
                                                                   (criterions_weights s' ! 0))]\<rparr>"
  from assms True obtain h out s0 s1 where
    1: "EvalHessian sub sae Sae SupCriterion (sup_dataset s) 1000 s = Inr (h, out, s0)"
    and 2: "for_each ?step [0..<n_hidden_layers sae]
              (s0\<lparr>criterions_weights := (criterions_weights s0)[0 := h]\<rparr>) = Inr s1"
    and 3: "s' = (fold ?norm [0..<n_hidden_layers sae] s1)
                   \<lparr>criterions_weights :=
                      (criterions_weights (fold ?norm [0..<n_hidden_layers sae] s1))[0 := Fin 1]\<rparr>"
    by (auto simp: IterInitialize_def bind_err_Inr Let_def)
  have a: "updates_only C s (s0\<lparr>criterions_weights := (criterions_weights s0)[0 := h]\<rparr>)"
    using gradients_only_updates_only [OF EvalHessian_gradients_only [OF 1]] weights_updates_only
    by (rule updates_only_trans)
  have b: "updates_only C (s0\<lparr>criterions_weights := (criterions_weights s0)[0 := h]\<rparr>) s1"
    by (rule for_each_updates_only [OF _ refl 2]) (rule EvalHessian_weight_updates_only)
  have c: "updates_only C s1 (fold ?norm [0..<n_hidden_layers sae] s1)"
    by (rule fold_updates_only) (rule weights_updates_only)
  have d: "updates_only C (fold ?norm [0..<n_hidden_layers sae] s1) s'"
    unfolding 3 by (rule weights_updates_only)
  from a b c d show ?thesis by (blast intro: updates_only_trans)
qed

lemma SGP_UpdateMachine_updates_only:
  "updates_only (set (coders_of sae gm)) s (SGP_UpdateMachine sub sae gm lr s)"
  by (simp add: updates_only_def SGP_UpdateMachine_def)

lemma UpdateMachine_updates_only:
  "gm \<noteq> Sae \<Longrightarrow> UpdateMachine sub sae gm lr s = Inr s'
     \<Longrightarrow> updates_only (set (coders_of sae gm)) s s'"
  by (auto simp: UpdateMachine_def SGP_UpdateMachine_updates_only split: if_splits)

lemma train_example_updates_only:
  assumes "machine s = m" "m \<noteq> Sae" "train_example sub sae d x s = Inr s'"
  shows "updates_only (set (coders_of sae m)) s s'"
proof -
  obtain e lr where x: "x = (e, lr)" by (cases x) auto
  let ?s1 = "ClearDerivatives sae (machine s) s"
  from assms(3) obtain s2 where
    1: "run_calls sub sae d e (fpropbprop sae ?s1) ?s1 = Inr s2"
    and 2: "UpdateMachine sub sae (machine s2) lr s2 = Inr s'"
    by (auto simp: train_example_def x Let_def bind_err_Inr)
  have g: "gradients_only s s2"
    using ClearDerivatives_gradients_only run_calls_gradients_only [OF 1]
    by (rule gradients_only_trans)
  then have u: "updates_only (set (coders_of sae m)) s s2"
    by (rule gradients_only_updates_only)
  then have m2: "machine s2 = m" using assms(1) by (simp add: updates_only_fields)
  from u UpdateMachine_updates_only [OF assms(2) 2 [unfolded m2]]
  show ?thesis by (rule updates_only_trans)
qed

lemma IterFinalize_updates_only: "updates_only C s (IterFinalize s)"
  by (simp add: updates_only_def IterFinalize_def)

lemma train_iteration_updates_only:
  assumes "machine s = m" "m \<noteq> Sae" "train_iteration sub sae d xs s = Inr s'"
  shows "updates_only (set (coders_of sae m)) s s'"
proof -
  from assms(3) obtain s0 s1 where
    1: "IterInitialize sub sae s = Inr s0"
    and 2: "for_each (train_example sub sae d) xs s0 = Inr s1"
    and 3: "s' = IterFinalize s1"
    by (auto simp: train_iteration_def bind_err_Inr)
  have a: "updates_only (set (coders_of sae m)) s s0"
    using 1 by (rule IterInitialize_updates_only)
  then have m0: "machine s0 = m" using assms(1) by (simp add: updates_only_fields)
  have b: "updates_only (set (coders_of sae m)) s0 s1"
    by (rule for_each_updates_only [OF _ m0 2]) (rule train_example_updates_only [OF _ assms(2)])
  from a b IterFinalize_updates_only show ?thesis
    unfolding 3 by (blast intro: updates_only_trans)
qed

lemma train_updates_only:
  assumes "machine s = m" "m \<noteq> Sae" "train sub sae schedule d ms s = Inr s'"
  shows "updates_only (set (coders_of sae m)) s s'"
  by (rule for_each_updates_only [OF _ assms(1) assms(3) [unfolded train_def]])
     (rule train_iteration_updates_only [OF _ assms(2)])


lemma TrainUnsupLayer_frame:
  assumes "TrainUnsupLayer (\<lambda>d. train sub sae (schedule d) d) s = Inr s'"
  shows "\<exists>s2. updates_only (set (mesd_machines sae (layerwise_layer s)))
                 (s\<lparr>machine := Mesd (layerwise_layer s),
                    criterion := UnsupCriterion (layerwise_layer s)\<rparr>) s2
              \<and> s' = s2\<lparr>machine := Sae, criterion := SupCriterion\<rparr>"
proof -
  let ?s1 = "s\<lparr>machine := Mesd (layerwise_layer s),
                criterion := UnsupCriterion (layerwise_layer s)\<rparr>"
  from assms obtain s2 where
    1: "train sub sae (schedule (UnsupDataset (layerwise_layer s)))
          (UnsupDataset (layerwise_layer s)) [UnsupMeasurer (layerwise_layer s)] ?s1 = Inr s2"
    and 2: "s' = s2\<lparr>machine := Sae, criterion := SupCriterion\<rparr>"
    by (auto simp: TrainUnsupLayer_def Let_def bind_err_Inr split: if_splits)
  have "updates_only (set (coders_of sae (Mesd (layerwise_layer s)))) ?s1 s2"
    by (rule train_updates_only [OF _ _ 1]) simp_all
  with 2 show ?thesis by auto
qed

lemma TrainUnsupLayer_params:
  assumes "TrainUnsupLayer (\<lambda>d. train sub sae (schedule d) d) s = Inr s'"
  shows "\<forall>c. c \<notin> set (mesd_machines sae (layerwise_layer s)) \<longrightarrow> params s' c = params s c"
  using TrainUnsupLayer_frame [OF assms] by (auto simp: updates_only_fields(10))

lemma for_each_params:
  assumes "\<And>x s s'. x \<in> set xs \<Longrightarrow> f x s = Inr s' \<Longrightarrow> \<forall>c. c \<notin> C x \<longrightarrow> params s' c = params s c"
  shows "for_each f xs s = Inr s'
           \<Longrightarrow> \<forall>c. (\<forall>x \<in> set xs. c \<notin> C x) \<longrightarrow> params s' c = params (s :: trainer) c"
  using assms
proof (induction xs arbitrary: s)
  case Nil
  then show ?case by simp
next
  case (Cons x xs)
  from Cons.prems(1) obtain s1 where 1: "f x s = Inr s1" and 2: "for_each f xs s1 = Inr s'"
    by (auto simp: bind_err_Inr)
  have a: "\<forall>c. c \<notin> C x \<longrightarrow> params s1 c = params s c"
    using Cons.prems(2) [OF _ 1] by simp
  have b: "\<forall>c. (\<forall>x \<in> set xs. c \<notin> C x) \<longrightarrow> params s' c = params s1 c"
    by (rule Cons.IH [OF 2]) (rule Cons.prems(2), simp_all)
  from a b show ?case by simp
qed

lemma TrainUnsupLayerwise_params:
  assumes "TrainUnsupLayerwise (\<lambda>d. train sub sae (schedule d) d) sae s = Inr s'"
  shows "\<forall>c. (\<forall>l < n_hidden_layers sae. c \<notin> set (mesd_machines sae l))
             \<longrightarrow> params s' c = params s c"
proof -
  let ?f = "\<lambda>i s'. TrainUnsupLayer (\<lambda>d. train sub sae (schedule d) d) (s'\<lparr>layerwise_layer := i\<rparr>)"
  from assms obtain s2 where
    1: "for_each ?f [0..<n_hidden_layers sae] (s\<lparr>layerwise_training := True\<rparr>) = Inr s2"
    and 2: "s' = s2\<lparr>layerwise_training := False\<rparr>"
    by (auto simp: TrainUnsupLayerwise_def bind_err_Inr)
  have "\<forall>c. (\<forall>l \<in> set [0..<n_hidden_layers sae]. c \<notin> set (mesd_machines sae l))
           \<longrightarrow> params s2 c = params (s\<lparr>layerwise_training := True\<rparr>) c"
  proof (rule for_each_params [OF _ 1])
    fix x t t'
    assume "?f x t = Inr t'"
    from TrainUnsupLayer_params [OF this]
    show "\<forall>c. c \<notin> set (mesd_machines sae x) \<longrightarrow> params t' c = params t c" by simp
  qed
  then show ?thesis unfolding 2 by simp
qed

lemma Outputer_not_mesd: "Outputer \<notin> set (mesd_machines sae l)"
  by (auto simp: mesd_machines_def)

lemma mesd_single_layer:
  "\<not> is_noisy sae \<Longrightarrow> set (mesd_machines sae 0) = {Encoder 0, Decoder 0}"
  by (auto simp: mesd_machines_def)


lemma layerwise_step:
  assumes "layerwise_training s" "machine s = Mesd (layerwise_layer s)"
    and "train_example sub sae d (e, lr) s = Inr s'"
  shows "\<forall>c. c \<notin> set (autoencoders sae (layerwise_layer s)) \<longrightarrow>
              der_params s' c = (if c \<in> set (mesd_machines sae (layerwise_layer s))
                                 then (\<lambda>_. Fin 0) else der_params s c)"
    and "\<forall>c. params s' c = (if c \<in> set (mesd_machines sae (layerwise_layer s))
                             then sgd sub lr (params s c) (der_params s' c) else params s c)"
  using assms
  by (auto simp: train_example_def fpropbprop_def run_calls_def run_call_def run_checked_def
        ClearDerivatives_def UpdateMachine_def SGP_UpdateMachine_def Let_def
      split: if_splits)

lemma layerwise_step_params:
  assumes "layerwise_training s" "machine s = Mesd (layerwise_layer s)"
    and "train_example sub sae d (e, lr) s = Inr s'"
    and "\<forall>lr p. sgd sub lr p (\<lambda>_. Fin 0) = p"
  shows "\<forall>c. c \<notin> set (autoencoders sae (layerwise_layer s)) \<longrightarrow> params s' c = params s c"
  using layerwise_step [OF assms(1-3)] assms(4) by auto

lemma train_example_layerwise_returns:
  assumes "layerwise_training s" "machine s = Mesd (layerwise_layer s)"
    and "layerwise_layer s < n_hidden_layers sae" "\<not> is_finetuning s"
  shows "\<exists>s'. train_example sub sae d x s = Inr s'"
  using assms
  by (cases x)
     (simp add: train_example_def fpropbprop_def run_calls_def run_call_def run_checked_def
        ClearDerivatives_def UpdateMachine_def Let_def)

lemma train_layerwise_returns:
  assumes "layerwise_training s" "machine s = Mesd l" "layerwise_layer s = l"
    and "l < n_hidden_layers sae" "\<not> is_finetuning s" "\<not> do_eval_criterion_weights s"
  shows "\<exists>s'. train sub sae schedule d ms s = Inr s'
            \<and> layerwise_training s' \<and> \<not> is_finetuning s' \<and> \<not> do_eval_criterion_weights s'"
proof -
  let ?I = "\<lambda>s. layerwise_training s \<and> machine s = Mesd l \<and> layerwise_layer s = l
               \<and> \<not> is_finetuning s \<and> \<not> do_eval_criterion_weights s"
  have ex: "\<exists>s'. train_example sub sae d x s = Inr s' \<and> ?I s'" if "?I s" for x s
  proof -
    from that train_example_layerwise_returns [of s sae sub d x] assms(4)
    obtain s' where 1: "train_example sub sae d x s = Inr s'" by auto
    from train_example_updates_only [OF _ _ 1, of "Mesd l"] that
    have "updates_only (set (coders_of sae (Mesd l))) s s'" by simp
    with that have "?I s'" by (simp add: updates_only_fields)
    with 1 show ?thesis by blast
  qed
  have it: "\<exists>s'. train_iteration sub sae d xs s = Inr s' \<and> ?I s'" if "?I s" for xs s
  proof -
    from that have 0: "IterInitialize sub sae s = Inr s" by (simp add: IterInitialize_def)
    from for_each_returns [of xs ?I "train_example sub sae d" s] ex that
    obtain s1 where 1: "for_each (train_example sub sae d) xs s = Inr s1" "?I s1" by blast
    then show ?thesis by (simp add: train_iteration_def 0 IterFinalize_def)
  qed
  from for_each_returns [of schedule ?I "train_iteration sub sae d" s] it assms
  show ?thesis unfolding train_def by blast
qed

lemma TrainUnsupLayer_returns:
  assumes "layerwise_training s" "layerwise_layer s < n_hidden_layers sae"
    and "\<not> is_finetuning s" "\<not> do_eval_criterion_weights s"
  shows "\<exists>s'. TrainUnsupLayer (\<lambda>d. train sub sae (schedule d) d) s = Inr s'
            \<and> layerwise_training s' \<and> \<not> is_finetuning s' \<and> \<not> do_eval_criterion_weights s'"
proof -
  let ?s1 = "s\<lparr>machine := Mesd (layerwise_layer s),
                criterion := UnsupCriterion (layerwise_layer s)\<rparr>"
  from train_layerwise_returns [of ?s1 "layerwise_layer s" sae sub
         "schedule (UnsupDataset (layerwise_layer s))" "UnsupDataset (layerwise_layer s)"
         "[UnsupMeasurer (layerwise_layer s)]"] assms
  obtain s2 where "train sub sae (schedule (UnsupDataset (layerwise_layer s)))
                     (UnsupDataset (layerwise_layer s)) [UnsupMeasurer (layerwise_layer s)] ?s1
                   = Inr s2"
    and "layerwise_training s2 \<and> \<not> is_finetuning s2 \<and> \<not> do_eval_criterion_weights s2"
    by auto
  with assms(1) show ?thesis by (simp add: TrainUnsupLayer_def Let_def)
qed

lemma TrainUnsupLayerwise_returns:
  assumes "\<not> is_finetuning s" "\<not> do_eval_criterion_weights s"
  shows "\<exists>s'. TrainUnsupLayerwise (\<lambda>d. train sub sae (schedule d) d) sae s = Inr s'"
proof -
  let ?I = "\<lambda>s. layerwise_training s \<and> \<not> is_finetuning s \<and> \<not> do_eval_criterion_weights s"
  let ?f = "\<lambda>i s'. TrainUnsupLayer (\<lambda>d. train sub sae (schedule d) d) (s'\<lparr>layerwise_layer := i\<rparr>)"
  have "\<exists>s'. ?f x t = Inr s' \<and> ?I s'" if "x \<in> set [0..<n_hidden_layers sae]" "?I t" for x t
    using TrainUnsupLayer_returns [of "t\<lparr>layerwise_layer := x\<rparr>" sae sub schedule] that by simp
  from for_each_returns [of "[0..<n_hidden_layers sae]" ?I ?f "s\<lparr>layerwise_training := True\<rparr>", OF this]
    assms
  obtain s2 where "for_each ?f [0..<n_hidden_layers sae] (s\<lparr>layerwise_training := True\<rparr>) = Inr s2"
    by auto
  then show ?thesis by (simp add: TrainUnsupLayerwise_def)
qed


text \<open>
  C2. In the layerwise phase \<open>fpropbprop\<close> forwards the cumulative machine of the
  current layer and calls \<open>backward\<close> on that layer's autoencoder only, in every
  topology. Where no two coders share weights (no noise, no tied weights), after a
  training step on the cumulative machine the parameter-gradient of every coder
  outside the autoencoder is what clearing left: zero for the encoders below,
  untouched elsewhere; the step writes no parameter outside the cumulative machine,
  and none outside the autoencoder when the update rule leaves a parameter with zero
  gradient in place; and whatever the schedule of \<open>train\<close>, the whole layerwise phase
  leaves the parameters of every coder outside the cumulative machines as they were,
  the outputer's among them. With one hidden layer and no noise only \<open>Encoder 0\<close> and
  \<open>Decoder 0\<close> can change. The phase returns when the trainer is not fine-tuning and
  does not reweight the criteria.
\<close>

theorem layerwise_backward_only_autoencoder:
  "(layerwise_training s \<longrightarrow>
      fpropbprop sae s =
        [Forward (Mesd (layerwise_layer s)) DataInputs,
         CriterionForward (criterion s) (Outputs (machine s)),
         CriterionBackward (criterion s) (Outputs (machine s)) NoTarget,
         Backward (Autoenc (layerwise_layer s)) DataInputs (CriterionBeta (criterion s))])
   \<and> (unshared sae \<and> layerwise_training s \<and> machine s = Mesd (layerwise_layer s)
        \<and> train_example sub sae d (e, lr) s = Inr s1
      \<longrightarrow> (\<forall>c. c \<notin> set (autoencoders sae (layerwise_layer s)) \<longrightarrow>
               der_params s1 c = (if c \<in> set (mesd_machines sae (layerwise_layer s))
                                  then (\<lambda>_. Fin 0) else der_params s c))
          \<and> (\<forall>c. c \<notin> set (mesd_machines sae (layerwise_layer s)) \<longrightarrow> params s1 c = params s c)
          \<and> ((\<forall>r p. sgd sub r p (\<lambda>_. Fin 0) = p) \<longrightarrow>
               (\<forall>c. c \<notin> set (autoencoders sae (layerwise_layer s)) \<longrightarrow> params s1 c = params s c)))
   \<and> (TrainUnsupLayerwise (\<lambda>d. train sub sae (schedule d) d) sae s = Inr s'
      \<longrightarrow> (unshared sae \<longrightarrow>
             (\<forall>c. (\<forall>l < n_hidden_layers sae. c \<notin> set (mesd_machines sae l))
                   \<longrightarrow> params s' c = params s c)
             \<and> params s' Outputer = params s Outputer)
          \<and> (n_hidden_layers sae = 1 \<and> \<not> is_noisy sae \<longrightarrow>
               (\<forall>c. c \<noteq> Encoder 0 \<and> c \<noteq> Decoder 0 \<longrightarrow> params s' c = params s c)))
   \<and> (\<not> is_finetuning s \<and> \<not> do_eval_criterion_weights s
      \<longrightarrow> (\<exists>s'. TrainUnsupLayerwise (\<lambda>d. train sub sae (schedule d) d) sae s = Inr s'))"
proof (intro conjI impI)
  assume "layerwise_training s"
  then show "fpropbprop sae s =
        [Forward (Mesd (layerwise_layer s)) DataInputs,
         CriterionForward (criterion s) (Outputs (machine s)),
         CriterionBackward (criterion s) (Outputs (machine s)) NoTarget,
         Backward (Autoenc (layerwise_layer s)) DataInputs (CriterionBeta (criterion s))]"
    by (simp add: fpropbprop_def)
next
  assume a: "unshared sae \<and> layerwise_training s \<and> machine s = Mesd (layerwise_layer s)
        \<and> train_example sub sae d (e, lr) s = Inr s1"
  then show "\<forall>c. c \<notin> set (autoencoders sae (layerwise_layer s)) \<longrightarrow>
               der_params s1 c = (if c \<in> set (mesd_machines sae (layerwise_layer s))
                                  then (\<lambda>_. Fin 0) else der_params s c)"
    using layerwise_step(1) [of s sub sae d e lr s1] by blast
  from a show "\<forall>c. c \<notin> set (mesd_machines sae (layerwise_layer s)) \<longrightarrow> params s1 c = params s c"
    using layerwise_step(2) [of s sub sae d e lr s1] by simp
  assume "\<forall>r p. sgd sub r p (\<lambda>_. Fin 0) = p"
  with a show "\<forall>c. c \<notin> set (autoencoders sae (layerwise_layer s)) \<longrightarrow> params s1 c = params s c"
    using layerwise_step_params [of s sub sae d e lr s1] by blast
next
  assume a: "TrainUnsupLayerwise (\<lambda>d. train sub sae (schedule d) d) sae s = Inr s'"
  from TrainUnsupLayerwise_params [OF a]
  have f: "\<forall>c. (\<forall>l < n_hidden_layers sae. c \<notin> set (mesd_machines sae l))
                 \<longrightarrow> params s' c = params s c" .
  then show "\<forall>c. (\<forall>l < n_hidden_layers sae. c \<notin> set (mesd_machines sae l))
                 \<longrightarrow> params s' c = params s c" .
  from f show "params s' Outputer = params s Outputer"
    by (simp add: Outputer_not_mesd)
  assume "n_hidden_layers sae = 1 \<and> \<not> is_noisy sae"
  with f show "\<forall>c. c \<noteq> Encoder 0 \<and> c \<noteq> Decoder 0 \<longrightarrow> params s' c = params s c"
    by (simp add: mesd_single_layer)
next
  assume "\<not> is_finetuning s \<and> \<not> do_eval_criterion_weights s"
  then show "\<exists>s'. TrainUnsupLayerwise (\<lambda>d. train sub sae (schedule d) d) sae s = Inr s'"
    using TrainUnsupLayerwise_returns [of s sub sae schedule] by blast
qed

theorem layerwise_backward_only_autoencoder_witness:
  "(\<exists>s'. TrainUnsupLayerwise
            (\<lambda>d. train
       \<lparr> n_examples = (\<lambda>_. 1), n_params = (\<lambda>_. 1),
          run_forward = (\<lambda>_ _ _ s. buffers s),
          run_backward = (\<lambda>_ _ _ _ _ _. Fin 1),
          sgd = (\<lambda>lr p g k. xsub (p k) (xmul (Fin lr) (g k))),
          arith = exact_ops \<rparr> (the (StackedAutoencoder ''tanh'' False False 4 1 [3] 2 False False))
                    ((\<lambda>_. [[(0, 1 / 10)]]) d) d)
            (the (StackedAutoencoder ''tanh'' False False 4 1 [3] 2 False False)) (StackedAutoencoderTrainer (the (StackedAutoencoder ''tanh'' False False 4 1 [3] 2 False False)) False (\<lambda>_. False) (\<lambda>_ _. Fin (1 / 2))) = Inr s'
        \<and> params s' Outputer = params (StackedAutoencoderTrainer (the (StackedAutoencoder ''tanh'' False False 4 1 [3] 2 False False)) False (\<lambda>_. False) (\<lambda>_ _. Fin (1 / 2))) Outputer
        \<and> params s' (Encoder 0) 0 = Fin (2 / 5)
        \<and> params s' (Decoder 0) 0 = Fin (2 / 5))
   \<and> (\<exists>s1. train_example
       \<lparr> n_examples = (\<lambda>_. 1), n_params = (\<lambda>_. 1),
          run_forward = (\<lambda>_ _ _ s. buffers s),
          run_backward = (\<lambda>_ _ _ _ _ _. Fin 1),
          sgd = (\<lambda>lr p g k. xsub (p k) (xmul (Fin lr) (g k))),
          arith = exact_ops \<rparr> (the (StackedAutoencoder ''tanh'' False False 4 1 [3] 2 False False)) (UnsupDataset 0) (0, 1 / 10)
              ((StackedAutoencoderTrainer (the (StackedAutoencoder ''tanh'' False False 4 1 [3] 2 False False)) False (\<lambda>_. False) (\<lambda>_ _. Fin (1 / 2)))\<lparr>machine := Mesd 0, criterion := UnsupCriterion 0, layerwise_training := True\<rparr>)
            = Inr s1
          \<and> der_params s1 Outputer
            = der_params ((StackedAutoencoderTrainer (the (StackedAutoencoder ''tanh'' False False 4 1 [3] 2 False False)) False (\<lambda>_. False) (\<lambda>_ _. Fin (1 / 2)))\<lparr>machine := Mesd 0, criterion := UnsupCriterion 0,
                                layerwise_training := True\<rparr>) Outputer
          \<and> params s1 Outputer = params (StackedAutoencoderTrainer (the (StackedAutoencoder ''tanh'' False False 4 1 [3] 2 False False)) False (\<lambda>_. False) (\<lambda>_ _. Fin (1 / 2))) Outputer)
   \<and> fpropbprop (the (StackedAutoencoder ''tanh'' False False 4 1 [3] 2 False False)) ((StackedAutoencoderTrainer (the (StackedAutoencoder ''tanh'' False False 4 1 [3] 2 False False)) False (\<lambda>_. False) (\<lambda>_ _. Fin (1 / 2)))\<lparr>machine := Mesd 0, criterion := UnsupCriterion 0, layerwise_training := True\<rparr>)
     = [Forward (Mesd 0) DataInputs,
        CriterionForward (UnsupCriterion 0) (Outputs (Mesd 0)),
        CriterionBackward (UnsupCriterion 0) (Outputs (Mesd 0)) NoTarget,
        Backward (Autoenc 0) DataInputs (CriterionBeta (UnsupCriterion 0))]"
proof -
  define sub where "sub =
       \<lparr> n_examples = (\<lambda>_. 1), n_params = (\<lambda>_. 1),
          run_forward = (\<lambda>_ _ _ s. buffers s),
          run_backward = (\<lambda>_ _ _ _ _ _. Fin 1),
          sgd = (\<lambda>lr p g k. xsub (p k) (xmul (Fin lr) (g k))),
          arith = exact_ops \<rparr>"
  obtain t where t: "StackedAutoencoder ''tanh'' False False 4 1 [3] 2 False False = Some t"
    by (simp add: StackedAutoencoder_def Let_def)
  have n: "n_hidden_layers t = 1" and noise: "\<not> is_noisy t" and un: "unshared t"
    using t by (auto simp: StackedAutoencoder_def unshared_def Let_def)
  define s0 where "s0 = StackedAutoencoderTrainer t False (\<lambda>_. False) (\<lambda>_ _. Fin (1 / 2))"
  define sL where "sL = s0\<lparr>machine := Mesd 0, criterion := UnsupCriterion 0,
                             layerwise_training := True\<rparr>"
  define sched :: "dataset \<Rightarrow> (nat \<times> real) list list" where "sched = (\<lambda>_. [[(0, 1 / 10)]])"
  have h0: "\<not> is_finetuning s0 \<and> \<not> do_eval_criterion_weights s0"
    by (simp add: s0_def StackedAutoencoderTrainer_def)
  have hL: "layerwise_training sL" "machine sL = Mesd (layerwise_layer sL)"
    "layerwise_layer sL = 0" "criterion sL = UnsupCriterion 0" "\<not> is_finetuning sL"
    "params sL = params s0"
    by (simp_all add: sL_def s0_def StackedAutoencoderTrainer_def)
  from layerwise_backward_only_autoencoder [of s0 t sub "UnsupDataset 0" 0 "1 / 10" s0 sched s0] h0
  obtain s' where run: "TrainUnsupLayerwise (\<lambda>d. train sub t (sched d) d) t s0 = Inr s'"
    by blast
  have frame: "params s' Outputer = params s0 Outputer"
    using layerwise_backward_only_autoencoder
            [of s0 t sub "UnsupDataset 0" 0 "1 / 10" s0 sched s'] run n noise un
    by simp
  have "\<exists>r. TrainUnsupLayerwise (\<lambda>d. train sub t (sched d) d) t s0 = Inr r
           \<and> params r (Encoder 0) 0 = Fin (2 / 5) \<and> params r (Decoder 0) 0 = Fin (2 / 5)"
    by (simp add: TrainUnsupLayerwise_def TrainUnsupLayer_def train_def train_iteration_def
          train_example_def IterInitialize_def IterFinalize_def fpropbprop_def run_calls_def
          run_call_def run_checked_def ClearDerivatives_def UpdateMachine_def
          SGP_UpdateMachine_def mesd_machines_def autoencoders_def Let_def n noise xsub_def
          s0_def StackedAutoencoderTrainer_def sub_def sched_def)
  with run have changed: "params s' (Encoder 0) 0 = Fin (2 / 5) \<and> params s' (Decoder 0) 0 = Fin (2 / 5)"
    by simp
  obtain s1 where step: "train_example sub t (UnsupDataset 0) (0, 1 / 10) sL = Inr s1"
    using train_example_layerwise_returns [of sL t sub "UnsupDataset 0" "(0, 1 / 10)"] hL n
    by auto
  have g: "der_params s1 Outputer = der_params sL Outputer \<and> params s1 Outputer = params s0 Outputer"
    using layerwise_backward_only_autoencoder
            [of sL t sub "UnsupDataset 0" 0 "1 / 10" s1 sched s'] hL step un
    by (simp add: mesd_machines_def autoencoders_def noise)
  have calls: "fpropbprop t sL
     = [Forward (Mesd 0) DataInputs,
        CriterionForward (UnsupCriterion 0) (Outputs (Mesd 0)),
        CriterionBackward (UnsupCriterion 0) (Outputs (Mesd 0)) NoTarget,
        Backward (Autoenc 0) DataInputs (CriterionBeta (UnsupCriterion 0))]"
    by (simp add: fpropbprop_def hL)
  show ?thesis
    unfolding t option.sel sub_def [symmetric] s0_def [symmetric] sL_def [symmetric]
    using run frame changed step g calls
    by (auto simp: sched_def)
qed


end
